(* ===== verification/Prelude.thy ===== *)
theory Prelude
  imports Complex_Main "HOL-Library.AList" "HOL-Library.Monad_Syntax"
begin

text \<open>
  Shared vocabulary of the development: the types that name times and durations, the
  Python exceptions that the model of \<^verbatim>\<open>project2/backend/app/model.py\<close> raises, the
  few Python built-ins both applications rely on (\<^verbatim>\<open>str.lower\<close>,
  \<^verbatim>\<open>str.partition\<close>, prefix slicing \<^verbatim>\<open>xs[:n]\<close>, \<^verbatim>\<open>os.path.join\<close>), and the
  generic lemmas on association lists (Python dicts, which keep insertion order) that the
  component proofs use through the collection \<open>model_simps\<close>.
\<close>

named_theorems model_simps "evaluation rules of the model shared by the component proofs"

type_synonym timestamp = int \<comment> \<open>UTC seconds since the epoch, as \<^verbatim>\<open>calendar.timegm\<close> yields\<close>
type_synonym seconds = int \<comment> \<open>a \<^verbatim>\<open>datetime.timedelta\<close> in whole seconds\<close>

text \<open>Python exceptions raised by the segmentation code; each is a value of the model.\<close>

datatype py_error =
    TypeError string
  | AttributeError string
  | IndexError
  | ValueError string
  | FileNotFoundError string

subsection \<open>Python built-ins\<close>

text \<open>\<^verbatim>\<open>str.lower\<close> on ASCII letters (header scheme names are ASCII).\<close>

definition py_lower_char :: "char \<Rightarrow> char" where
  "py_lower_char c =
     (if (65::nat) \<le> of_char c \<and> of_char c \<le> (90::nat) then char_of (of_char c + (32::nat)) else c)"

definition py_lower :: "string \<Rightarrow> string" where
  "py_lower s = map py_lower_char s"

text \<open>\<^verbatim>\<open>s.partition(sep)\<close>, keeping the part before and the part after the first
  separator (the whole string and the empty string when there is none).\<close>

fun py_partition :: "char \<Rightarrow> string \<Rightarrow> string \<times> string" where
  "py_partition sep [] = ([], [])"
| "py_partition sep (c # cs) =
     (if c = sep then ([], cs) else (let (a, b) = py_partition sep cs in (c # a, b)))"

text \<open>\<^verbatim>\<open>xs[:n]\<close>: a negative bound counts from the end.\<close>

definition py_take :: "'a list \<Rightarrow> int \<Rightarrow> 'a list" where
  "py_take xs n = (if 0 \<le> n then take (nat n) xs else take (nat (int (length xs) + n)) xs)"

text \<open>\<^verbatim>\<open>s.endswith(suffix)\<close>.\<close>

definition py_endswith :: "string \<Rightarrow> string \<Rightarrow> bool" where
  "py_endswith s sfx = (length sfx \<le> length s \<and> drop (length s - length sfx) s = sfx)"

text \<open>\<^verbatim>\<open>posixpath.join(a, b)\<close>.\<close>

definition path_join :: "string \<Rightarrow> string \<Rightarrow> string" where
  "path_join a b =
     (if b \<noteq> [] \<and> hd b = CHR ''/'' then b
      else if a = [] \<or> last a = CHR ''/'' then a @ b
      else a @ ''/'' @ b)"

text \<open>Integer indexing of a list or a numpy axis with a non-negative index:
  \<^verbatim>\<open>IndexError\<close> past the end.\<close>

definition py_index :: "'a list \<Rightarrow> nat \<Rightarrow> py_error + 'a" where
  "py_index xs i = (if i < length xs then Inr (xs ! i) else Inl IndexError)"

text \<open>A \<^verbatim>\<open>for\<close> loop whose body may raise: the state after each iteration, or the
  first exception, which ends the loop.\<close>

fun py_for :: "('i \<Rightarrow> 'a \<Rightarrow> py_error + 'a) \<Rightarrow> 'i list \<Rightarrow> 'a \<Rightarrow> py_error + 'a" where
  "py_for body [] s = Inr s"
| "py_for body (j # js) s = (case body j s of Inl e \<Rightarrow> Inl e | Inr s' \<Rightarrow> py_for body js s')"

subsection \<open>Generic lemmas\<close>

lemma py_index_eq [model_simps]:
  "py_index xs i = (if i < length xs then Inr (xs ! i) else Inl IndexError)"
  by (fact py_index_def)

lemma py_for_snoc:
  "py_for body (xs @ [x]) s = (case py_for body xs s of Inl e \<Rightarrow> Inl e | Inr s' \<Rightarrow> body x s')"
  by (induction xs arbitrary: s) (auto split: sum.splits)

text \<open>The loops of the segmentation code write row \<open>j\<close> of an array in iteration
  \<open>j\<close>, or raise. Such a loop over \<open>range(n)\<close> equals the map of the row function
  over the untouched rows, or raises as soon as one row fails.\<close>

lemma py_for_rows:
  assumes body: "\<And>j X. j < n \<Longrightarrow> length X = length X0 \<Longrightarrow>
                   body j X = (if ok j then Inr (X[j := f j (X ! j)]) else Inl err)"
    and len: "n \<le> length X0"
  shows "py_for body [0..<n] X0 =
           (if \<forall>j<n. ok j then Inr (map (\<lambda>j. f j (X0 ! j)) [0..<n] @ drop n X0) else Inl err)"
  using len body
proof (induction n)
  case 0
  then show ?case by simp
next
  case (Suc n)
  let ?X = "map (\<lambda>j. f j (X0 ! j)) [0..<n] @ drop n X0"
  have IH: "py_for body [0..<n] X0 = (if \<forall>j<n. ok j then Inr ?X else Inl err)"
    using Suc by simp
  have lenX: "length ?X = length X0" using Suc.prems(1) by simp
  have nth: "?X ! n = X0 ! n" using Suc.prems(1) by (simp add: nth_append)
  have upd: "?X[n := f n (X0 ! n)] = map (\<lambda>j. f j (X0 ! j)) [0..<Suc n] @ drop (Suc n) X0"
    using Suc.prems(1) by (simp add: list_update_append Cons_nth_drop_Suc [symmetric])
  have step: "body n ?X = (if ok n then Inr (?X[n := f n (?X ! n)]) else Inl err)"
    using Suc.prems(2) [of n ?X] lenX by simp
  show ?case
    by (simp add: py_for_snoc IH step nth upd less_Suc_eq)
qed


lemma py_partition_no_sep [model_simps]:
  "sep \<notin> set s \<Longrightarrow> py_partition sep s = (s, [])"
  by (induction s) auto

lemma py_partition_split [model_simps]:
  "sep \<notin> set a \<Longrightarrow> py_partition sep (a @ sep # b) = (a, b)"
  by (induction a) auto

lemma py_take_nonneg [model_simps]: "0 \<le> n \<Longrightarrow> py_take xs n = take (nat n) xs"
  by (simp add: py_take_def)

lemma map_of_update_same [model_simps]: "map_of (AList.update k v al) k = Some v"
  by (simp add: update_conv')

lemma map_of_update_other [model_simps]:
  "k' \<noteq> k \<Longrightarrow> map_of (AList.update k v al) k' = map_of al k'"
  by (simp add: update_conv')

lemma double_half_iff: "2 * (n div 2) = n \<longleftrightarrow> even (n::nat)"
  by (metis dvd_mult_div_cancel dvd_triv_left)

lemma dvd_double_iff_half: "even (n::nat) \<Longrightarrow> 2 * m dvd n \<longleftrightarrow> m dvd n div 2"
  by (auto elim!: evenE)

lemma dvd16_iff_halvings:
  "16 dvd (n::nat) \<longleftrightarrow>
     even n \<and> even (n div 2) \<and> even (n div 2 div 2) \<and> even (n div 2 div 2 div 2)"
proof -
  have "16 dvd n \<longleftrightarrow> even n \<and> 8 dvd n div 2"
    using dvd_double_iff_half [of n 8] by (auto intro: dvd_trans [of 2 16])
  also have "\<dots> \<longleftrightarrow> even n \<and> even (n div 2) \<and> 4 dvd n div 2 div 2"
    using dvd_double_iff_half [of "n div 2" 4] by (auto intro: dvd_trans [of 2 8])
  also have "\<dots> \<longleftrightarrow> even n \<and> even (n div 2) \<and> even (n div 2 div 2) \<and> even (n div 2 div 2 div 2)"
    using dvd_double_iff_half [of "n div 2 div 2" 2] by (auto intro: dvd_trans [of 2 4])
  finally show ?thesis .
qed

lemma bind_if_Some [model_simps]:
  "Option.bind (if P then Some x else None) f = (if P then f x else None)"
  by simp

lemma option_bind_Some_iff [model_simps]:
  "Option.bind m f = Some y \<longleftrightarrow> (\<exists>x. m = Some x \<and> f x = Some y)"
  by (cases m) auto

end
