(* ===== verification/Jwt.thy ===== *)
theory Jwt
  imports Prelude
begin

text \<open>
  The part of PyJWT that \<^verbatim>\<open>project1/backend/app/controller.py\<close> calls:
  \<^verbatim>\<open>jwt.encode(payload, key, algorithm)\<close> and
  \<^verbatim>\<open>jwt.decode(token, key, algorithms)\<close>. The library is not part of the repository;
  it is modelled from its documented behaviour, in the order its code checks:
  \<^item> a payload is a JSON object, here an association list that keeps the insertion
    order of the Python dict; values are strings, integers, \<^verbatim>\<open>datetime\<close>s and
    \<^verbatim>\<open>None\<close>;
  \<^item> encoding turns the \<^verbatim>\<open>datetime\<close> values of \<^verbatim>\<open>exp\<close>, \<^verbatim>\<open>iat\<close> and
    \<^verbatim>\<open>nbf\<close> into integer timestamps, refuses any other \<^verbatim>\<open>datetime\<close> (JSON cannot
    serialise it) and refuses a key that is \<^verbatim>\<open>None\<close> (HMAC needs a string key);
  \<^item> an HS256 signature is idealised as the key that made it: a compact token
    verifies under a key exactly when it was signed with that key (HMAC unforgeability);
    any string that is not a well-formed compact JWS is \<open>Malformed\<close>;
  \<^item> decoding checks, in this order, that the token parses, that its \<^verbatim>\<open>alg\<close> is
    allowed, that the key is usable, that the signature verifies, and that an
    \<^verbatim>\<open>exp\<close> claim, when present, is an integer later than the current time.
  The errors that PyJWT raises as subclasses of \<^verbatim>\<open>PyJWTError\<close> are distinguished from
  the \<^verbatim>\<open>TypeError\<close>s, which \<^verbatim>\<open>decode_token\<close> does not catch.
\<close>

datatype jval = JStr string | JInt int | JDate timestamp | JNull

type_synonym claims = "(string \<times> jval) list"

datatype jwt = JWS (jws_alg: string) (jws_claims: claims) (jws_key: string)

datatype token = Compact jwt | Malformed string

datatype jwt_error =
    DecodeError
  | InvalidAlgorithmError
  | InvalidSignatureError
  | ExpiredSignatureError
  | KeyTypeError \<comment> \<open>\<^verbatim>\<open>TypeError\<close> from preparing a \<^verbatim>\<open>None\<close> HMAC key\<close>
  | SerializationError \<comment> \<open>\<^verbatim>\<open>TypeError\<close> from \<^verbatim>\<open>json.dumps\<close>\<close>

fun is_pyjwt_error :: "jwt_error \<Rightarrow> bool" where
  "is_pyjwt_error KeyTypeError = False"
| "is_pyjwt_error SerializationError = False"
| "is_pyjwt_error _ = True"

definition time_claims :: "string list" where
  "time_claims = [''exp'', ''iat'', ''nbf'']"

fun encode_claim :: "string \<times> jval \<Rightarrow> string \<times> jval" where
  "encode_claim (k, JDate t) = (if k \<in> set time_claims then (k, JInt t) else (k, JDate t))"
| "encode_claim kv = kv"

fun json_value :: "jval \<Rightarrow> bool" where
  "json_value (JDate _) = False"
| "json_value _ = True"

definition jwt_encode :: "claims \<Rightarrow> string option \<Rightarrow> string \<Rightarrow> jwt_error + token" where
  "jwt_encode payload key alg =
     (let c = map encode_claim payload in
      if \<not> list_all (\<lambda>kv. json_value (snd kv)) c then Inl SerializationError
      else (case key of
              None \<Rightarrow> Inl KeyTypeError
            | Some k \<Rightarrow> Inr (Compact (JWS alg c k))))"

definition validate_exp :: "claims \<Rightarrow> timestamp \<Rightarrow> jwt_error + claims" where
  "validate_exp c now =
     (case map_of c ''exp'' of
        None \<Rightarrow> Inr c
      | Some (JInt e) \<Rightarrow> (if e \<le> now then Inl ExpiredSignatureError else Inr c)
      | Some _ \<Rightarrow> Inl DecodeError)"

definition jwt_decode :: "token \<Rightarrow> string option \<Rightarrow> string list \<Rightarrow> timestamp \<Rightarrow> jwt_error + claims" where
  "jwt_decode tok key algorithms now =
     (case tok of
        Malformed _ \<Rightarrow> Inl DecodeError
      | Compact (JWS alg c k) \<Rightarrow>
          (if alg \<notin> set algorithms then Inl InvalidAlgorithmError
           else (case key of
                   None \<Rightarrow> Inl KeyTypeError
                 | Some k' \<Rightarrow> (if k \<noteq> k' then Inl InvalidSignatureError
                              else validate_exp c now))))"

subsection \<open>Lemmas on the library model\<close>

lemma map_of_encode_claims [model_simps]:
  "map_of (map encode_claim c) k = map_option (\<lambda>v. snd (encode_claim (k, v))) (map_of c k)"
proof (induction c)
  case Nil
  then show ?case by simp
next
  case (Cons kv c)
  obtain k' v where kv: "kv = (k', v)" by fastforce
  have "fst (encode_claim (k', v)) = k'" by (cases v) auto
  with Cons kv show ?case by (cases "encode_claim (k', v)") auto
qed

lemma encode_claim_exp [model_simps]: "snd (encode_claim (''exp'', JDate t)) = JInt t"
  by (simp add: time_claims_def)

lemma jwt_encode_Inr [model_simps]:
  "jwt_encode payload key alg = Inr tok \<longleftrightarrow>
     list_all (\<lambda>kv. json_value (snd kv)) (map encode_claim payload) \<and>
     (\<exists>k. key = Some k \<and> tok = Compact (JWS alg (map encode_claim payload) k))"
  by (auto simp: jwt_encode_def Let_def split: option.splits)

lemma jwt_decode_signed [model_simps]:
  "alg \<in> set algorithms \<Longrightarrow>
   jwt_decode (Compact (JWS alg c k)) (Some k) algorithms now = validate_exp c now"
  by (simp add: jwt_decode_def)

lemma jwt_decode_Inr_key:
  "jwt_decode tok key algorithms now = Inr c \<Longrightarrow>
   \<exists>alg k. tok = Compact (JWS alg c k) \<and> key = Some k \<and> alg \<in> set algorithms"
  by (auto simp: jwt_decode_def validate_exp_def
           split: token.splits jwt.splits option.splits jval.splits if_splits)

lemma validate_exp_Inr:
  "validate_exp c now = Inr c' \<Longrightarrow>
   c' = c \<and> (\<forall>e. map_of c ''exp'' = Some (JInt e) \<longrightarrow> now < e)"
  by (auto simp: validate_exp_def split: option.splits jval.splits if_splits)

end
