(* ===== verification/Auth.thy ===== *)
theory Auth
  imports Jwt
begin

text \<open>
  The authentication helpers of \<^verbatim>\<open>project1/backend/app/controller.py\<close> (lines 22-74):
  the settings \<^verbatim>\<open>SECRET_KEY\<close>, \<^verbatim>\<open>ALGORITHM\<close> and
  \<^verbatim>\<open>ACCESS_TOKEN_EXPIRE_MINUTES\<close>, the in-memory \<^verbatim>\<open>users_db\<close>,
  \<^verbatim>\<open>verify_password\<close>, \<^verbatim>\<open>authenticate_user\<close>, \<^verbatim>\<open>create_access_token\<close> and
  \<^verbatim>\<open>decode_token\<close>. The secret key comes from the environment
  (\<^verbatim>\<open>os.getenv\<close>), so it is a parameter \<open>key :: string option\<close>, \<open>None\<close> when
  the variable is unset; the current time (\<^verbatim>\<open>datetime.now(timezone.utc)\<close>, read by
  PyJWT as a whole-second timestamp) is a parameter \<open>now\<close>.
  Passlib's bcrypt context keeps its errors: \<^verbatim>\<open>verify\<close> raises
  \<^verbatim>\<open>PasswordSizeError\<close> for a secret longer than 4096 bytes and
  \<^verbatim>\<open>NullPasswordError\<close> for a secret containing a NUL byte, both subclasses of
  \<^verbatim>\<open>ValueError\<close> that nothing in the service catches; otherwise a stored hash
  verifies exactly the password it was made from (salting is invisible to the claims made
  here). A string is a list of 8-bit characters, one per byte.
\<close>

datatype pwhash = Bcrypt string

definition pwd_hash :: "string \<Rightarrow> pwhash" where
  "pwd_hash p = Bcrypt p"

text \<open>\<^verbatim>\<open>passlib.exc.MAX_PASSWORD_SIZE\<close>.\<close>

definition MAX_PASSWORD_SIZE :: nat where
  "MAX_PASSWORD_SIZE = 4096"

text \<open>\<^verbatim>\<open>CryptContext(schemes=["bcrypt"]).verify\<close>: the size check of
  \<^verbatim>\<open>validate_secret\<close>, then the NUL check of the bcrypt digest, then the comparison.\<close>

definition pwd_verify :: "string \<Rightarrow> pwhash \<Rightarrow> py_error + bool" where
  "pwd_verify p h =
     (if MAX_PASSWORD_SIZE < length p then Inl (ValueError ''PasswordSizeError'')
      else if CHR 0x00 \<in> set p then Inl (ValueError ''NullPasswordError'')
      else Inr (case h of Bcrypt q \<Rightarrow> p = q))"

text \<open>A user entry of \<^verbatim>\<open>users_db\<close>: a dict with the keys username, password, role.\<close>

record user =
  username :: string
  password :: pwhash
  role :: string

definition ALGORITHM :: string where
  "ALGORITHM = ''HS256''"

definition ACCESS_TOKEN_EXPIRE_MINUTES :: int where
  "ACCESS_TOKEN_EXPIRE_MINUTES = 60"

definition users_db :: "(string \<times> user) list" where
  "users_db =
     [(''admin'', \<lparr>username = ''admin'', password = pwd_hash ''adminpass'', role = ''admin''\<rparr>),
      (''user'', \<lparr>username = ''user'', password = pwd_hash ''userpass'', role = ''user''\<rparr>)]"

definition verify_password :: "string \<Rightarrow> pwhash \<Rightarrow> py_error + bool" where
  "verify_password plain_password hashed_password = pwd_verify plain_password hashed_password"

text \<open>\<^verbatim>\<open>authenticate_user\<close> returns \<^verbatim>\<open>False\<close> or the user dict,
  \<open>Inr None\<close> or \<open>Inr (Some u)\<close> here, or propagates the exception of
  \<^verbatim>\<open>verify_password\<close>, which the short-circuit \<^verbatim>\<open>not user or ...\<close> calls only for
  an existing user.\<close>

definition authenticate_user :: "string \<Rightarrow> string \<Rightarrow> py_error + user option" where
  "authenticate_user name pw =
     (case map_of users_db name of
        None \<Rightarrow> Inr None
      | Some u \<Rightarrow>
          (case verify_password pw (password u) of
             Inl e \<Rightarrow> Inl e
           | Inr ok \<Rightarrow> (if \<not> ok then Inr None else Inr (Some u))))"

text \<open>A successful authentication.\<close>

fun authenticated :: "py_error + user option \<Rightarrow> bool" where
  "authenticated (Inr (Some _)) = True"
| "authenticated _ = False"

text \<open>HTTP errors of the service: an \<^verbatim>\<open>HTTPException\<close> with status and detail, or an
  uncaught exception, which the framework answers with status 500.\<close>

datatype http_error = HTTPException nat string | InternalServerError string

text \<open>\<^verbatim>\<open>create_access_token(data, role, expires_delta)\<close>: the falsy
  \<^verbatim>\<open>timedelta(0)\<close> takes the default branch like \<^verbatim>\<open>None\<close>.\<close>

definition create_access_token ::
  "string option \<Rightarrow> timestamp \<Rightarrow> claims \<Rightarrow> string \<Rightarrow> seconds option \<Rightarrow> jwt_error + token" where
  "create_access_token key now data role' expires_delta =
     (let to_encode = AList.update ''role'' (JStr role') data;
          expire = (case expires_delta of
                      Some d \<Rightarrow> (if d \<noteq> 0 then now + d else now + 45 * 60)
                    | None \<Rightarrow> now + 45 * 60);
          to_encode = AList.update ''exp'' (JDate expire) to_encode
      in jwt_encode to_encode key ALGORITHM)"

definition decode_token :: "string option \<Rightarrow> timestamp \<Rightarrow> token \<Rightarrow> http_error + claims" where
  "decode_token key now tok =
     (case jwt_decode tok key [ALGORITHM] now of
        Inl e \<Rightarrow> (if is_pyjwt_error e then Inl (HTTPException 401 ''Invalid token'')
                  else Inl (InternalServerError ''TypeError''))
      | Inr payload \<Rightarrow>
          (case map_of payload ''sub'' of
             None \<Rightarrow> Inl (HTTPException 401 ''Invalid token'')
           | Some JNull \<Rightarrow> Inl (HTTPException 401 ''Invalid token'')
           | Some _ \<Rightarrow> Inr payload))"

text \<open>The payload of every token the service issues: \<^verbatim>\<open>sub\<close>, then the
  \<^verbatim>\<open>role\<close> and \<^verbatim>\<open>exp\<close> that \<^verbatim>\<open>create_access_token\<close> adds, in
  insertion order.\<close>

definition issued_claims :: "string \<Rightarrow> string \<Rightarrow> timestamp \<Rightarrow> claims" where
  "issued_claims s r e = [(''sub'', JStr s), (''role'', JStr r), (''exp'', JInt e)]"

subsection \<open>Lemmas\<close>

lemma create_access_token_Some_key [model_simps]:
  "create_access_token (Some k) now [(''sub'', JStr s)] r (Some d) =
     Inr (Compact (JWS ''HS256'' (issued_claims s r (if d \<noteq> 0 then now + d else now + 45 * 60)) k))"
  by (simp add: create_access_token_def jwt_encode_def ALGORITHM_def time_claims_def issued_claims_def)

lemma create_access_token_None_key [model_simps]:
  "create_access_token None now [(''sub'', JStr s)] r d = Inl KeyTypeError"
  by (simp add: create_access_token_def jwt_encode_def Let_def time_claims_def split: option.splits)

lemma decode_issued [model_simps]:
  "decode_token (Some k) now' (Compact (JWS ''HS256'' (issued_claims s r e) k)) =
     (if now' < e then Inr (issued_claims s r e) else Inl (HTTPException 401 ''Invalid token''))"
  by (simp add: decode_token_def jwt_decode_def validate_exp_def issued_claims_def ALGORITHM_def)

lemma map_of_issued_claims [model_simps]:
  "map_of (issued_claims s r e) ''sub'' = Some (JStr s)"
  "map_of (issued_claims s r e) ''role'' = Some (JStr r)"
  "map_of (issued_claims s r e) ''exp'' = Some (JInt e)"
  by (simp_all add: issued_claims_def)

lemma decode_forged:
  "key \<noteq> Some k \<Longrightarrow> decode_token key now (Compact (JWS alg c k)) \<noteq> Inr payload"
  by (auto simp: decode_token_def jwt_decode_def split: option.splits if_splits)

lemma decode_malformed [model_simps]:
  "decode_token key now (Malformed s) = Inl (HTTPException 401 ''Invalid token'')"
  by (simp add: decode_token_def jwt_decode_def)

lemma decode_no_key:
  "decode_token None now tok \<in>
     {Inl (HTTPException 401 ''Invalid token''), Inl (InternalServerError ''TypeError'')}"
  by (auto simp: decode_token_def jwt_decode_def split: token.splits jwt.splits)

lemma authenticate_user_Some:
  "authenticate_user u p = Inr (Some usr) \<longleftrightarrow> map_of users_db u = Some usr \<and> password usr = pwd_hash p"
  by (auto simp: authenticate_user_def verify_password_def pwd_verify_def pwd_hash_def users_db_def
                 MAX_PASSWORD_SIZE_def split: if_splits)

lemma authenticated_iff:
  "authenticated r \<longleftrightarrow> (\<exists>usr. r = Inr (Some usr))"
  by (cases r rule: authenticated.cases) auto

lemma authenticate_user_Inl:
  "authenticate_user u p = Inl e \<longleftrightarrow>
     (u = ''admin'' \<or> u = ''user'') \<and>
     (if MAX_PASSWORD_SIZE < length p then e = ValueError ''PasswordSizeError''
      else CHR 0x00 \<in> set p \<and> e = ValueError ''NullPasswordError'')"
  by (auto simp: authenticate_user_def verify_password_def pwd_verify_def users_db_def
           split: if_splits)

lemma users_db_username:
  "map_of users_db u = Some usr \<Longrightarrow> username usr = u"
  by (auto simp: users_db_def split: if_splits)

lemma users_db_admin_role:
  "map_of users_db u = Some usr \<Longrightarrow> role usr = ''admin'' \<longleftrightarrow> u = ''admin''"
  by (auto simp: users_db_def split: if_splits)

text \<open>C6. \<^verbatim>\<open>authenticate_user\<close> accepts exactly the two built-in accounts with their
  passwords, admin/adminpass and user/userpass, and rejects every other pair.\<close>

theorem authenticate_user_accepts_exactly:
  "authenticated (authenticate_user u p) \<longleftrightarrow>
     (u, p) \<in> {(''admin'', ''adminpass''), (''user'', ''userpass'')}"
  by (auto simp: authenticated_iff authenticate_user_Some users_db_def pwd_hash_def)

text \<open>C3. Round trip of the access token: with a secret key set and a non-zero lifetime
  \<open>d\<close>, \<^verbatim>\<open>create_access_token\<close> issues a token that \<^verbatim>\<open>decode_token\<close> turns back
  into the payload sub, role, exp = issue time + d for every time before the expiry, and
  rejects with 401 from the expiry on.\<close>

theorem access_token_roundtrip:
  assumes "d \<noteq> 0"
  shows "\<exists>tok. create_access_token (Some k) now [(''sub'', JStr s)] r (Some d) = Inr tok \<and>
           decode_token (Some k) now' tok =
             (if now' < now + d
              then Inr [(''sub'', JStr s), (''role'', JStr r), (''exp'', JInt (now + d))]
              else Inl (HTTPException 401 ''Invalid token''))"
proof -
  have "create_access_token (Some k) now [(''sub'', JStr s)] r (Some d) =
          Inr (Compact (JWS ''HS256'' (issued_claims s r (now + d)) k))"
    using assms by (simp add: create_access_token_Some_key)
  then show ?thesis by (simp add: decode_issued) (simp add: issued_claims_def)
qed

lemma access_token_roundtrip_witness:
  "(3600::int) \<noteq> 0 \<and>
   (\<exists>tok. create_access_token (Some ''k'') 0 [(''sub'', JStr ''admin'')] ''admin'' (Some 3600) = Inr tok \<and>
      decode_token (Some ''k'') 10 tok =
        Inr [(''sub'', JStr ''admin''), (''role'', JStr ''admin''), (''exp'', JInt 3600)])"
  using access_token_roundtrip [of 3600 "''k''" 0 "''admin''" "''admin''" 10] by simp

text \<open>C9. A zero \<^verbatim>\<open>expires_delta\<close> is falsy in Python: the token does not expire at
  once but gets the default lifetime of 45 minutes.\<close>

theorem zero_expires_delta_takes_default:
  "create_access_token (Some k) now [(''sub'', JStr s)] r (Some 0) =
     Inr (Compact (JWS ''HS256'' [(''sub'', JStr s), (''role'', JStr r), (''exp'', JInt (now + 2700))] k))"
  by (simp add: create_access_token_Some_key issued_claims_def)

end
