(* ===== verification/Gateway.thy ===== *)
theory Gateway
  imports Auth
begin

text \<open>
  The HTTP endpoints of \<^verbatim>\<open>project1/backend/app/controller.py\<close> (lines 81-140) and the
  bearer-token dependency \<^verbatim>\<open>OAuth2PasswordBearer(tokenUrl="token")\<close> that FastAPI
  runs before the endpoints that declare it. The image decoder
  (\<^verbatim>\<open>Image.open(io.BytesIO(data))\<close>) and the report model
  (\<^verbatim>\<open>blipMed.generate_report\<close>) are black boxes of the service record, each returning
  the text of the exception it raises (\<open>Inl\<close>) or its result (\<open>Inr\<close>); the claims
  hold for every such pair of functions. The \<^verbatim>\<open>Authorization\<close> header is given already
  split at its first space, as FastAPI's \<^verbatim>\<open>get_authorization_scheme_param\<close> splits
  it: its scheme and its credentials, a token.
\<close>

type_synonym auth_header = "(string \<times> token) option"

record ('b, 'i, 'r) service =
  secret_key :: "string option"
  image_open :: "'b \<Rightarrow> string + 'i"
  blip_generate_report :: "'i \<Rightarrow> string option \<Rightarrow> string + 'r"

text \<open>The JSON bodies the endpoints return.\<close>

datatype 'r body =
    Hello
  | AccessToken token string
  | Report 'r "user option"
  | Error string
  | DriftAdmin
  | Question string

type_synonym 'r response = "http_error + 'r body"

definition oauth2_scheme :: "auth_header \<Rightarrow> http_error + token" where
  "oauth2_scheme authorization =
     (case authorization of
        None \<Rightarrow> Inl (HTTPException 401 ''Not authenticated'')
      | Some (scheme, param) \<Rightarrow>
          (if py_lower scheme \<noteq> ''bearer'' then Inl (HTTPException 401 ''Not authenticated'')
           else Inr param))"

definition get_hello :: "'r response" where
  "get_hello = Inr Hello"

definition login :: "string option \<Rightarrow> timestamp \<Rightarrow> string \<Rightarrow> string \<Rightarrow> 'r response" where
  "login key now form_username form_password =
     (case authenticate_user form_username form_password of
        Inl _ \<Rightarrow> Inl (InternalServerError ''ValueError'')
      | Inr None \<Rightarrow> Inl (HTTPException 401 ''Incorrect username or password'')
      | Inr (Some u) \<Rightarrow>
          (case create_access_token key now [(''sub'', JStr (username u))] (role u)
                  (Some (ACCESS_TOKEN_EXPIRE_MINUTES * 60)) of
             Inl _ \<Rightarrow> Inl (InternalServerError ''TypeError'')
           | Inr access_token \<Rightarrow> Inr (AccessToken access_token ''bearer'')))"

text \<open>\<^verbatim>\<open>users_db.get(username)\<close> with the \<^verbatim>\<open>sub\<close> claim as key.\<close>

definition lookup_user :: "jval option \<Rightarrow> user option" where
  "lookup_user name = (case name of Some (JStr n) \<Rightarrow> map_of users_db n | _ \<Rightarrow> None)"

definition generate_report ::
  "('b, 'i, 'r) service \<Rightarrow> timestamp \<Rightarrow> 'b \<Rightarrow> string option \<Rightarrow> auth_header \<Rightarrow> 'r response" where
  "generate_report svc now file indication authorization =
     (case oauth2_scheme authorization of
        Inl e \<Rightarrow> Inl e
      | Inr tok \<Rightarrow>
          (case decode_token (secret_key svc) now tok of
             Inl e \<Rightarrow> Inl e
           | Inr payload \<Rightarrow>
               (let name = map_of payload ''sub'' in
                case image_open svc file of
                  Inl msg \<Rightarrow> Inr (Error msg)
                | Inr img \<Rightarrow>
                    (case blip_generate_report svc img indication of
                       Inl msg \<Rightarrow> Inr (Error msg)
                     | Inr report \<Rightarrow> Inr (Report report (lookup_user name))))))"

definition show_drift :: "string option \<Rightarrow> timestamp \<Rightarrow> auth_header \<Rightarrow> 'r response" where
  "show_drift key now authorization =
     (case oauth2_scheme authorization of
        Inl e \<Rightarrow> Inl e
      | Inr tok \<Rightarrow>
          (case decode_token key now tok of
             Inl e \<Rightarrow> Inl e
           | Inr payload \<Rightarrow>
               (if map_of payload ''role'' \<noteq> Some (JStr ''admin'')
                then Inl (HTTPException 403 ''Not enough permissions'')
                else Inr DriftAdmin)))"

text \<open>\<^verbatim>\<open>question_image\<close> (\<^verbatim>\<open>/vqa\<close>): the call of \<^verbatim>\<open>decode_token\<close> is
  commented out in the source, so the token is extracted and never checked.\<close>

definition question_image ::
  "('b, 'i, 'r) service \<Rightarrow> string \<Rightarrow> 'b \<Rightarrow> auth_header \<Rightarrow> 'r response" where
  "question_image svc question file authorization =
     (case oauth2_scheme authorization of
        Inl e \<Rightarrow> Inl e
      | Inr _ \<Rightarrow>
          (case image_open svc file of
             Inl msg \<Rightarrow> Inr (Error msg)
           | Inr _ \<Rightarrow> Inr (Question question)))"

text \<open>Routing: one constructor per route of the application.\<close>

datatype 'b request =
    GetRoot
  | PostToken string string
  | PostGenerateReport 'b "string option" auth_header
  | GetShowDrift auth_header
  | PostVqa string 'b auth_header

fun handle :: "('b, 'i, 'r) service \<Rightarrow> timestamp \<Rightarrow> 'b request \<Rightarrow> 'r response" where
  "handle svc now GetRoot = get_hello"
| "handle svc now (PostToken u p) = login (secret_key svc) now u p"
| "handle svc now (PostGenerateReport f ind h) = generate_report svc now f ind h"
| "handle svc now (GetShowDrift h) = show_drift (secret_key svc) now h"
| "handle svc now (PostVqa q f h) = question_image svc q f h"

subsection \<open>Lemmas\<close>

lemma oauth2_scheme_Inr [model_simps]:
  "oauth2_scheme (Some (scheme, tok)) = (if py_lower scheme = ''bearer'' then Inr tok
     else Inl (HTTPException 401 ''Not authenticated''))"
  by (simp add: oauth2_scheme_def)

lemma py_lower_Bearer [model_simps]: "py_lower ''Bearer'' = ''bearer''"
  by code_simp

lemma login_Inr:
  "(login key t u p :: 'r response) = Inr b \<longleftrightarrow>
     (\<exists>usr k. authenticate_user u p = Inr (Some usr) \<and> key = Some k \<and>
        b = AccessToken (Compact (JWS ''HS256'' (issued_claims (username usr) (role usr) (t + 3600)) k))
              ''bearer'')"
proof (cases key)
  case None
  then show ?thesis by (auto simp: login_def create_access_token_None_key split: option.splits sum.splits)
next
  case (Some k)
  then show ?thesis
    by (auto simp: login_def create_access_token_Some_key ACCESS_TOKEN_EXPIRE_MINUTES_def
             split: option.splits sum.splits)
qed

lemma login_issued_token:
  assumes "(login (Some k) t u p :: 'r response) = Inr (AccessToken tok ty)"
  obtains usr where "authenticate_user u p = Inr (Some usr)" and "username usr = u"
    and "tok = Compact (JWS ''HS256'' (issued_claims u (role usr) (t + 3600)) k)"
proof -
  from assms obtain usr where au: "authenticate_user u p = Inr (Some usr)"
      and tok: "tok = Compact (JWS ''HS256'' (issued_claims (username usr) (role usr) (t + 3600)) k)"
    by (auto simp: login_Inr)
  from au have "username usr = u" by (auto simp: authenticate_user_Some users_db_username)
  with au tok that show ?thesis by simp
qed

text \<open>C4. \<^verbatim>\<open>POST /token\<close>: with the secret key set, a known user name with a
  password passlib refuses to hash (longer than 4096 characters, or holding a NUL) gets an
  internal server error, passlib's uncaught \<^verbatim>\<open>ValueError\<close>; otherwise the two
  built-in accounts get a bearer token whose payload is their name, their role and an
  expiry one hour (\<^verbatim>\<open>ACCESS_TOKEN_EXPIRE_MINUTES\<close> = 60) after the request, and
  every other pair of credentials gets 401 "Incorrect username or password".\<close>

theorem login_outcome:
  "(login (Some k) now u p :: 'r response) =
     (if (u = ''admin'' \<or> u = ''user'') \<and> (4096 < length p \<or> CHR 0x00 \<in> set p)
      then Inl (InternalServerError ''ValueError'')
      else if (u, p) = (''admin'', ''adminpass'') \<or> (u, p) = (''user'', ''userpass'')
      then Inr (AccessToken
             (Compact (JWS ''HS256'' [(''sub'', JStr u), (''role'', JStr u), (''exp'', JInt (now + 3600))] k))
             ''bearer'')
      else Inl (HTTPException 401 ''Incorrect username or password''))"
  by (auto simp: login_def authenticate_user_def users_db_def verify_password_def pwd_verify_def
        MAX_PASSWORD_SIZE_def pwd_hash_def create_access_token_Some_key ACCESS_TOKEN_EXPIRE_MINUTES_def
        issued_claims_def)

text \<open>C5. \<^verbatim>\<open>GET /show_drift\<close> on a token issued by \<^verbatim>\<open>POST /token\<close> at time
  \<open>t\<close>: from \<open>t + 3600\<close> on it answers 401; before that it answers the admin page
  for the admin account and 403 "Not enough permissions" for every other account.\<close>

theorem show_drift_outcome:
  assumes "(login (Some k) t u p :: unit response) = Inr (AccessToken tok ty)"
  shows "(show_drift (Some k) now (Some (''Bearer'', tok)) :: 'r response) =
           (if t + 3600 \<le> now then Inl (HTTPException 401 ''Invalid token'')
            else if u = ''admin'' then Inr DriftAdmin
            else Inl (HTTPException 403 ''Not enough permissions''))"
proof -
  from assms obtain usr where au: "authenticate_user u p = Inr (Some usr)"
      and tok: "tok = Compact (JWS ''HS256'' (issued_claims u (role usr) (t + 3600)) k)"
    by (rule login_issued_token)
  from au have "role usr = ''admin'' \<longleftrightarrow> u = ''admin''"
    using users_db_admin_role by (auto simp: authenticate_user_Some)
  with tok show ?thesis
    by (auto simp: show_drift_def oauth2_scheme_Inr py_lower_Bearer decode_issued map_of_issued_claims)
qed

lemma show_drift_outcome_witness:
  "(login (Some ''k'') 0 ''user'' ''userpass'' :: unit response) =
     Inr (AccessToken (Compact (JWS ''HS256'' (issued_claims ''user'' ''user'' 3600) ''k'')) ''bearer'') \<and>
   (show_drift (Some ''k'') 10
      (Some (''Bearer'', Compact (JWS ''HS256'' (issued_claims ''user'' ''user'' 3600) ''k'')))
      :: unit response) = Inl (HTTPException 403 ''Not enough permissions'')"
proof -
  have l: "(login (Some ''k'') 0 ''user'' ''userpass'' :: unit response) =
     Inr (AccessToken (Compact (JWS ''HS256'' (issued_claims ''user'' ''user'' 3600) ''k'')) ''bearer'')"
    by (simp add: login_Inr authenticate_user_Some users_db_def)
  from l show_drift_outcome [OF l, of 10] show ?thesis by simp
qed

text \<open>C7. \<^verbatim>\<open>POST /generate_report/\<close> answers a valid token with the report and, as
  \<^verbatim>\<open>radiologist_name\<close>, the whole \<^verbatim>\<open>users_db\<close> entry of the caller, whose
  \<^verbatim>\<open>password\<close> field is the stored bcrypt hash of the caller's password.\<close>

theorem generate_report_returns_password_hash:
  assumes "(login (secret_key svc) t u p :: unit response) = Inr (AccessToken tok ty)"
    and "now < t + 3600"
    and "image_open svc f = Inr img"
    and "blip_generate_report svc img ind = Inr rep"
  shows "\<exists>usr. generate_report svc now f ind (Some (''Bearer'', tok)) = Inr (Report rep (Some usr)) \<and>
           username usr = u \<and> password usr = pwd_hash p"
proof -
  from assms(1) obtain k where key: "secret_key svc = Some k"
    by (auto simp: login_Inr)
  with assms(1) obtain usr where au: "authenticate_user u p = Inr (Some usr)" and un: "username usr = u"
      and tok: "tok = Compact (JWS ''HS256'' (issued_claims u (role usr) (t + 3600)) k)"
    by (auto elim: login_issued_token)
  from au have db: "map_of users_db u = Some usr" and pw: "password usr = pwd_hash p"
    by (auto simp: authenticate_user_Some)
  have "generate_report svc now f ind (Some (''Bearer'', tok)) = Inr (Report rep (Some usr))"
    using key tok assms(2-4) db
    by (simp add: generate_report_def oauth2_scheme_Inr py_lower_Bearer decode_issued
                  map_of_issued_claims lookup_user_def)
  with un pw show ?thesis by blast
qed

lemma generate_report_returns_password_hash_witness:
  "(login (Some ''k'') 0 ''admin'' ''adminpass'' :: unit response) =
     Inr (AccessToken (Compact (JWS ''HS256'' (issued_claims ''admin'' ''admin'' 3600) ''k'')) ''bearer'') \<and>
   (10::int) < 0 + 3600 \<and>
   generate_report \<lparr>secret_key = Some ''k'', image_open = (\<lambda>b. Inr b),
        blip_generate_report = (\<lambda>i ind. Inr ''no finding'')\<rparr> 10 (0::nat) None
      (Some (''Bearer'', Compact (JWS ''HS256'' (issued_claims ''admin'' ''admin'' 3600) ''k''))) =
     Inr (Report ''no finding''
            (Some \<lparr>username = ''admin'', password = Bcrypt ''adminpass'', role = ''admin''\<rparr>))"
proof -
  let ?svc = "\<lparr>secret_key = Some ''k'', image_open = (\<lambda>b. Inr b),
        blip_generate_report = (\<lambda>i ind. Inr ''no finding'')\<rparr> :: (nat, nat, string) service"
  have l: "(login (secret_key ?svc) 0 ''admin'' ''adminpass'' :: unit response) =
     Inr (AccessToken (Compact (JWS ''HS256'' (issued_claims ''admin'' ''admin'' 3600) ''k'')) ''bearer'')"
    by (simp add: login_Inr authenticate_user_Some users_db_def)
  from generate_report_returns_password_hash [OF l, of 10 0 0 None "''no finding''"] obtain usr where
    g: "generate_report ?svc 10 0 None
         (Some (''Bearer'', Compact (JWS ''HS256'' (issued_claims ''admin'' ''admin'' 3600) ''k''))) =
        Inr (Report ''no finding'' (Some usr))"
    and u: "username usr = ''admin''" and p: "password usr = pwd_hash ''adminpass''"
    by auto
  from g have "map_of users_db ''admin'' = Some usr"
    by (simp add: generate_report_def oauth2_scheme_Inr py_lower_Bearer decode_issued
                  map_of_issued_claims lookup_user_def)
  then have "usr = \<lparr>username = ''admin'', password = Bcrypt ''adminpass'', role = ''admin''\<rparr>"
    by (simp add: users_db_def pwd_hash_def)
  with l g show ?thesis by simp
qed

text \<open>C8. \<^verbatim>\<open>POST /vqa\<close> never validates its token (the call of
  \<^verbatim>\<open>decode_token\<close> is commented out): with any bearer token whatsoever, including a
  malformed or forged one, a decodable image gets the answer.\<close>

theorem question_image_accepts_any_token:
  assumes "image_open svc f = Inr img"
  shows "question_image svc q f (Some (''Bearer'', tok)) = Inr (Question q)"
  using assms by (simp add: question_image_def oauth2_scheme_Inr py_lower_Bearer)

lemma question_image_accepts_any_token_witness:
  "question_image \<lparr>secret_key = Some ''k'', image_open = (\<lambda>b. Inr b),
        blip_generate_report = (\<lambda>i ind. Inr ''no finding'')\<rparr> ''is there a fracture?'' (0::nat)
      (Some (''Bearer'', Malformed ''forged'')) = Inr (Question ''is there a fracture?'') \<and>
   decode_token (Some ''k'') 10 (Malformed ''forged'') = Inl (HTTPException 401 ''Invalid token'')"
  using question_image_accepts_any_token
      [of "\<lparr>secret_key = Some ''k'', image_open = (\<lambda>b. Inr b),
           blip_generate_report = (\<lambda>i ind. Inr ''no finding'')\<rparr> :: (nat, nat, string) service"
          0 0 "''is there a fracture?''" "Malformed ''forged''"]
  by (simp add: decode_malformed)

text \<open>C10. With \<^verbatim>\<open>SECRET_KEY\<close> unset, valid credentials make \<^verbatim>\<open>POST /token\<close>
  fail with an internal server error (PyJWT's \<^verbatim>\<open>TypeError\<close> on a \<^verbatim>\<open>None\<close>
  key), a password passlib refuses for a known user with passlib's \<^verbatim>\<open>ValueError\<close>,
  other credentials get 401, and \<^verbatim>\<open>GET /show_drift\<close> never succeeds.\<close>

theorem unset_secret_key_is_server_error:
  "(login None now u p :: 'r response) =
     (if (u = ''admin'' \<or> u = ''user'') \<and> (4096 < length p \<or> CHR 0x00 \<in> set p)
      then Inl (InternalServerError ''ValueError'')
      else if (u, p) = (''admin'', ''adminpass'') \<or> (u, p) = (''user'', ''userpass'')
      then Inl (InternalServerError ''TypeError'')
      else Inl (HTTPException 401 ''Incorrect username or password'')) \<and>
   (show_drift None now h :: 'r response) \<noteq> Inr b"
proof
  show "(login None now u p :: 'r response) =
     (if (u = ''admin'' \<or> u = ''user'') \<and> (4096 < length p \<or> CHR 0x00 \<in> set p)
      then Inl (InternalServerError ''ValueError'')
      else if (u, p) = (''admin'', ''adminpass'') \<or> (u, p) = (''user'', ''userpass'')
      then Inl (InternalServerError ''TypeError'')
      else Inl (HTTPException 401 ''Incorrect username or password''))"
    by (auto simp: login_def authenticate_user_def users_db_def verify_password_def pwd_verify_def
          MAX_PASSWORD_SIZE_def pwd_hash_def create_access_token_None_key)
next
  have "\<forall>payload. decode_token None now tok \<noteq> Inr payload" for tok
    using decode_no_key [of now tok] by auto
  then show "(show_drift None now h :: 'r response) \<noteq> Inr b"
    by (auto simp: show_drift_def split: sum.splits if_splits)
qed


lemma oauth2_scheme_Inl:
  "oauth2_scheme h = Inl e \<Longrightarrow> e = HTTPException 401 ''Not authenticated''"
  by (auto simp: oauth2_scheme_def split: option.splits if_splits)

lemma decode_token_Inl:
  "decode_token key now tok = Inl e \<Longrightarrow>
   e = HTTPException 401 ''Invalid token'' \<or> (e = InternalServerError ''TypeError'' \<and> key = None)"
  by (auto simp: decode_token_def jwt_decode_def validate_exp_def
           split: sum.splits if_splits option.splits token.splits jwt.splits jval.splits)

lemma login_Inl:
  "(login key now u p :: 'r response) = Inl e \<Longrightarrow>
   e = HTTPException 401 ''Incorrect username or password'' \<or> (e = InternalServerError ''TypeError'' \<and> key = None) \<or>
   (e = InternalServerError ''ValueError'' \<and> (u = ''admin'' \<or> u = ''user'') \<and>
    (MAX_PASSWORD_SIZE < length p \<or> CHR 0x00 \<in> set p))"
  by (cases key) (auto simp: login_def create_access_token_None_key create_access_token_Some_key
                       dest: iffD1 [OF authenticate_user_Inl] split: option.splits sum.splits if_splits)

text \<open>C28. The statuses the service answers with: every error the router returns is a 401;
  or the 403 "Not enough permissions", and only from \<^verbatim>\<open>GET /show_drift\<close>; or an
  internal server error, either an uncaught \<^verbatim>\<open>TypeError\<close>, only when
  \<^verbatim>\<open>SECRET_KEY\<close> is unset, or passlib's uncaught \<^verbatim>\<open>ValueError\<close>, only from
  \<^verbatim>\<open>POST /token\<close> for a known user name with a password longer than 4096
  characters or holding a NUL.\<close>

theorem handle_error_statuses:
  assumes "(handle svc now req :: 'r response) = Inl err"
  shows "(\<exists>m. err = HTTPException 401 m) \<or>
         (err = HTTPException 403 ''Not enough permissions'' \<and> (\<exists>h. req = GetShowDrift h)) \<or>
         (err = InternalServerError ''TypeError'' \<and> secret_key svc = None) \<or>
         (err = InternalServerError ''ValueError'' \<and>
          (\<exists>u p. req = PostToken u p \<and> (u = ''admin'' \<or> u = ''user'') \<and>
                 (MAX_PASSWORD_SIZE < length p \<or> CHR 0x00 \<in> set p)))"
proof (cases req)
  case GetRoot
  with assms show ?thesis by (simp add: get_hello_def)
next
  case (PostToken u p)
  with assms login_Inl [of "secret_key svc" now u p err] show ?thesis by auto
next
  case (PostGenerateReport f ind h)
  with assms show ?thesis
    by (auto simp: generate_report_def Let_def dest: oauth2_scheme_Inl decode_token_Inl
             split: sum.splits option.splits)
next
  case (GetShowDrift h)
  with assms show ?thesis
    by (auto simp: show_drift_def dest: oauth2_scheme_Inl decode_token_Inl split: sum.splits if_splits)
next
  case (PostVqa q f h)
  with assms show ?thesis
    by (auto simp: question_image_def dest: oauth2_scheme_Inl split: sum.splits)
qed

lemma handle_error_statuses_witness:
  "(handle \<lparr>secret_key = None, image_open = (\<lambda>b. Inr b), blip_generate_report = (\<lambda>i ind. Inr ''no finding'')\<rparr>
      10 (GetShowDrift (Some (''Bearer'', Compact (JWS ''HS256'' (issued_claims ''admin'' ''admin'' 3600) ''k''))))
      :: string response) = Inl (InternalServerError ''TypeError'') \<and>
   ((\<exists>m. InternalServerError ''TypeError'' = HTTPException 401 m) \<or>
    (InternalServerError ''TypeError'' = HTTPException 403 ''Not enough permissions'' \<and>
      (\<exists>h. (GetShowDrift (Some (''Bearer'', Compact (JWS ''HS256'' (issued_claims ''admin'' ''admin'' 3600) ''k''))) :: nat request) = GetShowDrift h)) \<or>
    (InternalServerError ''TypeError'' = InternalServerError ''TypeError'' \<and>
      secret_key (\<lparr>secret_key = None, image_open = (\<lambda>b. Inr b), blip_generate_report = (\<lambda>i ind. Inr ''no finding'')\<rparr> :: (nat, nat, string) service) = None) \<or>
    (InternalServerError ''TypeError'' = InternalServerError ''ValueError'' \<and>
      (\<exists>u p. (GetShowDrift (Some (''Bearer'', Compact (JWS ''HS256'' (issued_claims ''admin'' ''admin'' 3600) ''k''))) :: nat request) = PostToken u p \<and>
        (u = ''admin'' \<or> u = ''user'') \<and> (MAX_PASSWORD_SIZE < length p \<or> CHR 0x00 \<in> set p))))"
proof -
  let ?svc = "\<lparr>secret_key = None, image_open = (\<lambda>b. Inr b), blip_generate_report = (\<lambda>i ind. Inr ''no finding'')\<rparr> :: (nat, nat, string) service"
  let ?req = "GetShowDrift (Some (''Bearer'', Compact (JWS ''HS256'' (issued_claims ''admin'' ''admin'' 3600) ''k''))) :: nat request"
  have h: "(handle ?svc 10 ?req :: string response) = Inl (InternalServerError ''TypeError'')"
    by (simp add: show_drift_def oauth2_scheme_Inr py_lower_Bearer decode_token_def jwt_decode_def ALGORITHM_def)
  from handle_error_statuses [OF h] h show ?thesis by simp
qed

end
