(* ===== verification/Security.thy ===== *)
theory Security
  imports Gateway
begin

text \<open>
  What an outsider can achieve against the endpoints of
  \<^verbatim>\<open>project1/backend/app/controller.py\<close>. The outsider knows a set \<open>creds\<close> of
  username/password pairs and presents bearer tokens obtained in one of three ways:
  replaying the token that \<^verbatim>\<open>POST /token\<close> (\<^verbatim>\<open>login\<close>) issued for a pair it knows,
  at any time; signing any header and payload of its choosing with any key other than the
  service's \<^verbatim>\<open>SECRET_KEY\<close>; or sending any malformed string. The secret key never
  appears in a response, so these are all the tokens it has. The theorems show that the
  role check of \<^verbatim>\<open>show_drift\<close> and the token check of \<^verbatim>\<open>generate_report\<close> cannot be
  passed without knowing a valid password, and only within the hour after the login.
\<close>

inductive attacker_token :: "string option \<Rightarrow> (string \<times> string) set \<Rightarrow> token \<Rightarrow> bool"
  for key :: "string option" and creds :: "(string \<times> string) set" where
  replay: "(u, p) \<in> creds \<Longrightarrow> (login key t u p :: unit response) = Inr (AccessToken tok ty) \<Longrightarrow>
           attacker_token key creds tok"
| forge: "key \<noteq> Some k \<Longrightarrow> attacker_token key creds (Compact (JWS alg c k))"
| garbage: "attacker_token key creds (Malformed s)"

text \<open>The bearer header a request carries (none for \<^verbatim>\<open>GET /\<close> and
  \<^verbatim>\<open>POST /token\<close>), and the bodies that disclose protected data: a report or
  the drift page.\<close>

fun request_auth :: "'b request \<Rightarrow> auth_header" where
  "request_auth (PostGenerateReport f ind h) = h"
| "request_auth (GetShowDrift h) = h"
| "request_auth (PostVqa q f h) = h"
| "request_auth _ = None"

fun sensitive :: "'r body \<Rightarrow> bool" where
  "sensitive (Report r u) = True"
| "sensitive DriftAdmin = True"
| "sensitive _ = False"

lemma attacker_token_decodes:
  assumes "attacker_token key creds tok" and "decode_token key now tok = Inr payload"
  shows "\<exists>u p t usr k. (u, p) \<in> creds \<and> authenticate_user u p = Inr (Some usr) \<and> key = Some k \<and>
           (login key t u p :: unit response) = Inr (AccessToken tok ''bearer'') \<and> now < t + 3600 \<and>
           payload = issued_claims (username usr) (role usr) (t + 3600)"
  using assms
proof (induction rule: attacker_token.induct)
  case (replay u p t tok ty)
  then obtain usr k where "authenticate_user u p = Inr (Some usr)" "key = Some k"
      and tok: "tok = Compact (JWS ''HS256'' (issued_claims (username usr) (role usr) (t + 3600)) k)"
    by (auto simp: login_Inr)
  moreover from replay.hyps(2) have "ty = ''bearer''" by (auto simp: login_Inr)
  moreover from replay.prems tok \<open>key = Some k\<close>
  have "now < t + 3600 \<and> payload = issued_claims (username usr) (role usr) (t + 3600)"
    by (simp add: decode_issued split: if_splits)
  ultimately show ?case using replay.hyps by blast
next
  case (forge k alg c)
  then show ?case by (simp add: decode_forged)
next
  case (garbage s)
  then show ?case by (simp add: decode_malformed)
qed

lemma show_drift_Inr_decodes:
  "(show_drift key now h :: 'r response) = Inr b \<Longrightarrow>
   \<exists>tok payload. oauth2_scheme h = Inr tok \<and> decode_token key now tok = Inr payload \<and>
     map_of payload ''role'' = Some (JStr ''admin'')"
  by (auto simp: show_drift_def split: sum.splits if_splits)

lemma generate_report_Inr_decodes:
  "generate_report svc now f ind h = Inr b \<Longrightarrow>
   \<exists>tok payload. oauth2_scheme h = Inr tok \<and> decode_token (secret_key svc) now tok = Inr payload"
  by (auto simp: generate_report_def split: sum.splits)

text \<open>C1. Only the administrator's password opens \<^verbatim>\<open>GET /show_drift\<close>: if an outsider's
  token is accepted there, the outsider knows the admin account's valid password and the
  token is the one \<^verbatim>\<open>POST /token\<close> issued for it less than an hour earlier.\<close>

theorem show_drift_requires_admin_login:
  assumes "attacker_token key creds tok"
    and "(show_drift key now (Some (scheme, tok)) :: unit response) = Inr b"
  shows "\<exists>p t. (''admin'', p) \<in> creds \<and> authenticated (authenticate_user ''admin'' p) \<and> now < t + 3600 \<and>
           (login key t ''admin'' p :: unit response) = Inr (AccessToken tok ''bearer'')"
proof -
  from show_drift_Inr_decodes [OF assms(2)] obtain payload
    where dec: "decode_token key now tok = Inr payload"
      and adm: "map_of payload ''role'' = Some (JStr ''admin'')"
    by (auto simp: oauth2_scheme_def split: if_splits)
  from attacker_token_decodes [OF assms(1) dec] obtain u p t usr k where
     c: "(u, p) \<in> creds" and au: "authenticate_user u p = Inr (Some usr)" and
     l: "(login key t u p :: unit response) = Inr (AccessToken tok ''bearer'')" and
     n: "now < t + 3600" and pl: "payload = issued_claims (username usr) (role usr) (t + 3600)"
    by blast
  from adm pl have "role usr = ''admin''" by (simp add: map_of_issued_claims)
  with au have "u = ''admin''" using users_db_admin_role by (auto simp: authenticate_user_Some)
  with c au l n show ?thesis by auto
qed

lemma show_drift_requires_admin_login_witness:
  "attacker_token (Some ''k'') {(''admin'', ''adminpass'')}
      (Compact (JWS ''HS256'' (issued_claims ''admin'' ''admin'' 3600) ''k'')) \<and>
   (show_drift (Some ''k'') 10
      (Some (''Bearer'', Compact (JWS ''HS256'' (issued_claims ''admin'' ''admin'' 3600) ''k'')))
      :: unit response) = Inr DriftAdmin \<and>
   (\<exists>p t. (''admin'', p) \<in> {(''admin'', ''adminpass'')} \<and> authenticated (authenticate_user ''admin'' p) \<and>
      10 < t + 3600 \<and>
      (login (Some ''k'') t ''admin'' p :: unit response) =
        Inr (AccessToken (Compact (JWS ''HS256'' (issued_claims ''admin'' ''admin'' 3600) ''k'')) ''bearer''))"
proof -
  have au: "authenticate_user ''admin'' ''adminpass'' =
      Inr (Some \<lparr>username = ''admin'', password = pwd_hash ''adminpass'', role = ''admin''\<rparr>)"
    by (simp add: authenticate_user_Some users_db_def)
  have l: "(login (Some ''k'') 0 ''admin'' ''adminpass'' :: unit response) =
      Inr (AccessToken (Compact (JWS ''HS256'' (issued_claims ''admin'' ''admin'' 3600) ''k'')) ''bearer'')"
    using au by (simp add: login_Inr)
  have a: "attacker_token (Some ''k'') {(''admin'', ''adminpass'')}
      (Compact (JWS ''HS256'' (issued_claims ''admin'' ''admin'' 3600) ''k''))"
    by (rule attacker_token.replay [OF _ l]) simp
  have s: "(show_drift (Some ''k'') 10
      (Some (''Bearer'', Compact (JWS ''HS256'' (issued_claims ''admin'' ''admin'' 3600) ''k'')))
      :: unit response) = Inr DriftAdmin"
    by (simp add: show_drift_def oauth2_scheme_Inr py_lower_Bearer decode_issued map_of_issued_claims)
  from show_drift_requires_admin_login [OF a s] a s show ?thesis by blast
qed

text \<open>C2. \<^verbatim>\<open>POST /generate_report/\<close> needs a login: if it answers an outsider's token
  with a body (a report or an image error), the outsider knows a valid username/password
  pair and the token is the one issued for it less than an hour earlier.\<close>

theorem generate_report_requires_login:
  assumes "attacker_token (secret_key svc) creds tok"
    and "generate_report svc now f ind (Some (scheme, tok)) = Inr b"
  shows "\<exists>u p t. (u, p) \<in> creds \<and> authenticated (authenticate_user u p) \<and> now < t + 3600 \<and>
           (login (secret_key svc) t u p :: unit response) = Inr (AccessToken tok ''bearer'')"
proof -
  from generate_report_Inr_decodes [OF assms(2)] obtain payload
    where dec: "decode_token (secret_key svc) now tok = Inr payload"
    by (auto simp: oauth2_scheme_def split: if_splits)
  from attacker_token_decodes [OF assms(1) dec] show ?thesis by fastforce
qed

lemma generate_report_requires_login_witness:
  "attacker_token (Some ''k'') {(''user'', ''userpass'')}
      (Compact (JWS ''HS256'' (issued_claims ''user'' ''user'' 3600) ''k'')) \<and>
   generate_report \<lparr>secret_key = Some ''k'', image_open = (\<lambda>b. Inr b),
        blip_generate_report = (\<lambda>i ind. Inr ''no finding'')\<rparr> 10 (0::nat) None
      (Some (''Bearer'', Compact (JWS ''HS256'' (issued_claims ''user'' ''user'' 3600) ''k''))) =
     Inr (Report ''no finding''
            (Some \<lparr>username = ''user'', password = pwd_hash ''userpass'', role = ''user''\<rparr>)) \<and>
   (\<exists>u p t. (u, p) \<in> {(''user'', ''userpass'')} \<and> authenticated (authenticate_user u p) \<and> 10 < t + 3600 \<and>
      (login (Some ''k'') t u p :: unit response) =
        Inr (AccessToken (Compact (JWS ''HS256'' (issued_claims ''user'' ''user'' 3600) ''k'')) ''bearer''))"
proof -
  let ?svc = "\<lparr>secret_key = Some ''k'', image_open = (\<lambda>b. Inr b),
        blip_generate_report = (\<lambda>i ind. Inr ''no finding'')\<rparr> :: (nat, nat, string) service"
  let ?tok = "Compact (JWS ''HS256'' (issued_claims ''user'' ''user'' 3600) ''k'')"
  have au: "authenticate_user ''user'' ''userpass'' =
      Inr (Some \<lparr>username = ''user'', password = pwd_hash ''userpass'', role = ''user''\<rparr>)"
    by (simp add: authenticate_user_Some users_db_def)
  have l: "(login (Some ''k'') 0 ''user'' ''userpass'' :: unit response) = Inr (AccessToken ?tok ''bearer'')"
    using au by (simp add: login_Inr)
  have a: "attacker_token (secret_key ?svc) {(''user'', ''userpass'')} ?tok"
    using attacker_token.replay [OF _ l] by simp
  have g: "generate_report ?svc 10 0 None (Some (''Bearer'', ?tok)) =
     Inr (Report ''no finding''
            (Some \<lparr>username = ''user'', password = pwd_hash ''userpass'', role = ''user''\<rparr>))"
    by (simp add: generate_report_def oauth2_scheme_Inr py_lower_Bearer decode_issued
                  map_of_issued_claims lookup_user_def users_db_def)
  from generate_report_requires_login [OF a g] a g show ?thesis by simp
qed

lemma question_image_not_sensitive:
  "question_image svc q f h = Inr b \<Longrightarrow> \<not> sensitive b"
  by (auto simp: question_image_def split: sum.splits)

text \<open>C29. The whole service, through its router: whatever request an outsider sends
  with one of its tokens, a report or the drift page comes back only for a token that
  \<^verbatim>\<open>POST /token\<close> issued, less than an hour earlier, for a valid username/password
  pair the outsider knows. \<^verbatim>\<open>/vqa\<close> answers without checking the token, but never
  with such a body.\<close>

theorem handle_sensitive_requires_login:
  assumes "attacker_token (secret_key svc) creds tok"
    and "request_auth req = Some (scheme, tok)"
    and "(handle svc now req :: 'r response) = Inr b" and "sensitive b"
  shows "\<exists>u p t. (u, p) \<in> creds \<and> authenticated (authenticate_user u p) \<and> now < t + 3600 \<and>
           (login (secret_key svc) t u p :: unit response) = Inr (AccessToken tok ''bearer'')"
proof -
  obtain payload where dec: "decode_token (secret_key svc) now tok = Inr payload"
  proof (cases req)
    case (PostGenerateReport f ind h)
    with assms(2,3) generate_report_Inr_decodes [of svc now f ind h b] that show ?thesis
      by (auto simp: oauth2_scheme_def split: if_splits)
  next
    case (GetShowDrift h)
    with assms(2,3) show_drift_Inr_decodes [of "secret_key svc" now h b] that show ?thesis
      by (auto simp: oauth2_scheme_def split: if_splits)
  next
    case (PostVqa q f h)
    with assms(3) have "question_image svc q f h = Inr b" by simp
    with assms(4) show ?thesis by (auto dest: question_image_not_sensitive)
  qed (use assms(2) in simp_all)
  from attacker_token_decodes [OF assms(1) dec] show ?thesis by fastforce
qed

lemma handle_sensitive_requires_login_witness:
  "attacker_token (secret_key (\<lparr>secret_key = Some ''k'', image_open = (\<lambda>b. Inr b), blip_generate_report = (\<lambda>i ind. Inr ''no finding'')\<rparr> :: (nat, nat, string) service)) {(''admin'', ''adminpass'')} (Compact (JWS ''HS256'' (issued_claims ''admin'' ''admin'' 3600) ''k'')) \<and>
   request_auth (GetShowDrift (Some (''Bearer'', Compact (JWS ''HS256'' (issued_claims ''admin'' ''admin'' 3600) ''k''))) :: nat request) = Some (''Bearer'', Compact (JWS ''HS256'' (issued_claims ''admin'' ''admin'' 3600) ''k'')) \<and>
   (handle (\<lparr>secret_key = Some ''k'', image_open = (\<lambda>b. Inr b), blip_generate_report = (\<lambda>i ind. Inr ''no finding'')\<rparr> :: (nat, nat, string) service) 10 (GetShowDrift (Some (''Bearer'', Compact (JWS ''HS256'' (issued_claims ''admin'' ''admin'' 3600) ''k''))))
      :: string response) = Inr DriftAdmin \<and>
   sensitive (DriftAdmin :: string body) \<and>
   (\<exists>u p t. (u, p) \<in> {(''admin'', ''adminpass'')} \<and> authenticated (authenticate_user u p) \<and> 10 < t + 3600 \<and>
      (login (Some ''k'') t u p :: unit response) = Inr (AccessToken (Compact (JWS ''HS256'' (issued_claims ''admin'' ''admin'' 3600) ''k'')) ''bearer''))"
proof -
  let ?svc = "\<lparr>secret_key = Some ''k'', image_open = (\<lambda>b. Inr b), blip_generate_report = (\<lambda>i ind. Inr ''no finding'')\<rparr> :: (nat, nat, string) service"
  let ?tok = "Compact (JWS ''HS256'' (issued_claims ''admin'' ''admin'' 3600) ''k'')"
  have au: "authenticate_user ''admin'' ''adminpass'' =
      Inr (Some \<lparr>username = ''admin'', password = pwd_hash ''adminpass'', role = ''admin''\<rparr>)"
    by (simp add: authenticate_user_Some users_db_def)
  have l: "(login (Some ''k'') 0 ''admin'' ''adminpass'' :: unit response) = Inr (AccessToken ?tok ''bearer'')"
    using au by (simp add: login_Inr)
  have a: "attacker_token (secret_key ?svc) {(''admin'', ''adminpass'')} ?tok"
    using attacker_token.replay [OF _ l] by simp
  have r: "request_auth (GetShowDrift (Some (''Bearer'', ?tok)) :: nat request) = Some (''Bearer'', ?tok)"
    by simp
  have h: "(handle ?svc 10 (GetShowDrift (Some (''Bearer'', ?tok))) :: string response) = Inr DriftAdmin"
    by (simp add: show_drift_def oauth2_scheme_Inr py_lower_Bearer decode_issued map_of_issued_claims)
  have s: "sensitive (DriftAdmin :: string body)" by simp
  from handle_sensitive_requires_login [OF a r h s] a r h s show ?thesis by simp
qed

end
