(* ===== verification/DataPipeline.thy ===== *)
theory DataPipeline
  imports Prelude
begin

text \<open>
  The data methods of \<^verbatim>\<open>Unet\<close> in \<^verbatim>\<open>project2/backend/app/model.py\<close>:
  \<^verbatim>\<open>imageLoader\<close> (lines 153-159), \<^verbatim>\<open>loadDataFromDir\<close> (162-184),
  \<^verbatim>\<open>predictByPath\<close> (186-196), \<^verbatim>\<open>showPredictsById\<close> (198-221, up to
  the plotting), \<^verbatim>\<open>predict_segmentation\<close> (223-234) and
  \<^verbatim>\<open>show_predicted_segmentations\<close> (236-295, up to the plotting), with the module
  constants \<^verbatim>\<open>VOLUME_SLICES\<close>, \<^verbatim>\<open>VOLUME_START_AT\<close>, \<^verbatim>\<open>IMG_SIZE\<close>
  (29-31).
  A volume read by \<^verbatim>\<open>nib.load(path).get_fdata()\<close> is the list of its slices along
  the third axis (\<^verbatim>\<open>image[:, :, j]\<close> is its \<open>j\<close>-th element, a plane of reals);
  reading past the last slice raises \<^verbatim>\<open>IndexError\<close>. The array \<open>X\<close> of shape
  \<open>(slices, n, n, 2)\<close> is the list of its rows, each a pair of planes (channel 0,
  channel 1). \<^verbatim>\<open>np.zeros\<close> fills it with zero planes; \<^verbatim>\<open>np.empty\<close> leaves
  whatever the memory held, which the model takes as an arbitrary argument \<open>junk\<close>.
  The file system, \<^verbatim>\<open>cv2.resize\<close>, \<^verbatim>\<open>glob.glob\<close> and the Keras model's
  \<^verbatim>\<open>predict\<close> are the fields of an environment record: the theorems hold for all.
\<close>

type_synonym plane = "real list list"
type_synonym volume = "plane list"
type_synonym xrow = "plane \<times> plane"

text \<open>The input handed to \<^verbatim>\<open>model.predict\<close>: \<^verbatim>\<open>X / np.max(X)\<close>, or the array
  of \<^verbatim>\<open>nan\<close>/\<^verbatim>\<open>inf\<close> numpy produces (with a warning, not an exception) when the
  maximum is 0.\<close>

datatype scaled = Scaled "xrow list" | NonFinite

record 'o data_env =
  nib_load :: "string \<Rightarrow> py_error + volume"
  cv2_resize :: "plane \<Rightarrow> nat \<Rightarrow> plane"
  glob_glob :: "string \<Rightarrow> string list"
  model_predict :: "scaled \<Rightarrow> 'o"
  train_dataset_path :: "string option"

definition VOLUME_SLICES :: nat where
  "VOLUME_SLICES = 100"

definition VOLUME_START_AT :: nat where
  "VOLUME_START_AT = 22"

definition IMG_SIZE :: nat where
  "IMG_SIZE = 128"

definition zero_plane :: "nat \<Rightarrow> plane" where
  "zero_plane n = replicate n (replicate n 0)"

text \<open>\<^verbatim>\<open>imageLoader\<close>: only channel 0 of each row is written.\<close>

definition imageLoader :: "'o data_env \<Rightarrow> nat \<Rightarrow> string \<Rightarrow> py_error + xrow list" where
  "imageLoader env img_size path =
     (case nib_load env path of
        Inl e \<Rightarrow> Inl e
      | Inr image' \<Rightarrow>
          (let X = replicate VOLUME_SLICES (zero_plane img_size, zero_plane img_size) in
           py_for
             (\<lambda>j X. case py_index image' (j + VOLUME_START_AT) of
                       Inl e \<Rightarrow> Inl e
                     | Inr sl \<Rightarrow> Inr (X[j := (cv2_resize env sl img_size, snd (X ! j))]))
             [0..<VOLUME_SLICES] X))"

text \<open>One iteration of the two-channel loops of \<^verbatim>\<open>predictByPath\<close> and
  \<^verbatim>\<open>predict_segmentation\<close>: channel 0 from the FLAIR volume, then channel 1 from
  the T1ce volume, each read at slice \<open>j + start\<close>.\<close>

definition fill_row ::
  "'o data_env \<Rightarrow> nat \<Rightarrow> volume \<Rightarrow> volume \<Rightarrow> nat \<Rightarrow> nat \<Rightarrow> xrow list \<Rightarrow> py_error + xrow list" where
  "fill_row env img_size flair t1ce start j X =
     (case py_index flair (j + start) of
        Inl e \<Rightarrow> Inl e
      | Inr f \<Rightarrow>
          (let X = X[j := (cv2_resize env f img_size, snd (X ! j))] in
           case py_index t1ce (j + start) of
             Inl e \<Rightarrow> Inl e
           | Inr t \<Rightarrow> Inr (X[j := (fst (X ! j), cv2_resize env t img_size)])))"

definition x_values :: "xrow list \<Rightarrow> real list" where
  "x_values X = concat (map (\<lambda>(a, b). concat a @ concat b) X)"

definition scale_plane :: "real \<Rightarrow> plane \<Rightarrow> plane" where
  "scale_plane m p = map (map (\<lambda>v. v / m)) p"

text \<open>\<^verbatim>\<open>X / np.max(X)\<close>: \<^verbatim>\<open>np.max\<close> of an empty array raises
  \<^verbatim>\<open>ValueError\<close>.\<close>

definition np_scale :: "xrow list \<Rightarrow> py_error + scaled" where
  "np_scale X =
     (case x_values X of
        [] \<Rightarrow> Inl (ValueError ''zero-size array to reduction operation maximum'')
      | v # vs \<Rightarrow>
          (let m = fold max vs v in
           if m = 0 then Inr NonFinite
           else Inr (Scaled (map (\<lambda>(a, b). (scale_plane m a, scale_plane m b)) X))))"

definition predictByPath ::
  "'o data_env \<Rightarrow> nat \<Rightarrow> xrow list \<Rightarrow> string \<Rightarrow> string \<Rightarrow> py_error + 'o" where
  "predictByPath env img_size junk case_path case_id =
     (case nib_load env (path_join case_path (''BraTS20_Training_'' @ case_id @ ''_flair.nii'')) of
        Inl e \<Rightarrow> Inl e
      | Inr flair \<Rightarrow>
          (case nib_load env (path_join case_path (''BraTS20_Training_'' @ case_id @ ''_t1ce.nii'')) of
             Inl e \<Rightarrow> Inl e
           | Inr ce \<Rightarrow>
               (case py_for (fill_row env img_size flair ce VOLUME_START_AT)
                       [0..<VOLUME_SLICES] junk of
                  Inl e \<Rightarrow> Inl e
                | Inr X \<Rightarrow>
                    (case np_scale X of
                       Inl e \<Rightarrow> Inl e
                     | Inr Xs \<Rightarrow> Inr (model_predict env Xs)))))"

text \<open>\<^verbatim>\<open>showPredictsById\<close> up to its plots (lines 198-215): the case directory is
  hard-coded under \<^verbatim>\<open>/home/jupyter\<close>; it loads the ground truth and the FLAIR volume,
  runs \<^verbatim>\<open>predictByPath\<close>, takes the class channels 1, 2 and 3 of the prediction
  (line 204: \<^verbatim>\<open>IndexError\<close> when its last axis, of size \<open>channels p\<close>, the
  model's number of classes, has fewer than 4 entries), reads the FLAIR slice (first
  panel, line 209) and the ground-truth slice (line 211) at
  \<^verbatim>\<open>start_slice + VOLUME_START_AT\<close>, and indexes row \<^verbatim>\<open>start_slice\<close> of the
  prediction, whose first axis has the \<^verbatim>\<open>VOLUME_SLICES\<close> rows of \<open>X\<close> (lines
  213-215). The result is the data of the first two panels and the prediction; the
  drawing is not modelled.\<close>

definition jupyter_case_path :: "string \<Rightarrow> string" where
  "jupyter_case_path case_id =
     ''/home/jupyter/BraTS2020_TrainingData/MICCAI_BraTS2020_TrainingData/BraTS20_Training_'' @ case_id"

definition showPredictsById ::
  "'o data_env \<Rightarrow> ('o \<Rightarrow> nat) \<Rightarrow> nat \<Rightarrow> xrow list \<Rightarrow> string \<Rightarrow> nat \<Rightarrow> py_error + plane \<times> plane \<times> 'o" where
  "showPredictsById env channels img_size junk case_id start_slice =
     (let path = jupyter_case_path case_id in
      case nib_load env (path_join path (''BraTS20_Training_'' @ case_id @ ''_seg.nii'')) of
        Inl e \<Rightarrow> Inl e
      | Inr gt \<Rightarrow>
          (case nib_load env (path_join path (''BraTS20_Training_'' @ case_id @ ''_flair.nii'')) of
             Inl e \<Rightarrow> Inl e
           | Inr origImage \<Rightarrow>
               (case predictByPath env img_size junk path case_id of
                  Inl e \<Rightarrow> Inl e
                | Inr p \<Rightarrow>
                    (if channels p < 4 then Inl IndexError
                     else case py_index origImage (start_slice + VOLUME_START_AT) of
                       Inl e \<Rightarrow> Inl e
                     | Inr orig \<Rightarrow>
                         (case py_index gt (start_slice + VOLUME_START_AT) of
                            Inl e \<Rightarrow> Inl e
                          | Inr g \<Rightarrow>
                              (if VOLUME_SLICES \<le> start_slice then Inl IndexError
                               else Inr (cv2_resize env orig img_size, cv2_resize env g img_size, p)))))))"

text \<open>\<^verbatim>\<open>predict_segmentation\<close> reads the T1ce file before the FLAIR file.\<close>

definition predict_segmentation ::
  "'o data_env \<Rightarrow> nat \<Rightarrow> xrow list \<Rightarrow> string \<Rightarrow> nat \<Rightarrow> nat \<Rightarrow> py_error + 'o" where
  "predict_segmentation env img_size junk sample_path volume_slices volume_start_at =
     (let t1ce_path = sample_path @ ''_t1ce.nii'';
          flair_path = sample_path @ ''_flair.nii'' in
      case nib_load env t1ce_path of
        Inl e \<Rightarrow> Inl e
      | Inr t1ce \<Rightarrow>
          (case nib_load env flair_path of
             Inl e \<Rightarrow> Inl e
           | Inr flair \<Rightarrow>
               (case py_for (fill_row env img_size flair t1ce volume_start_at)
                       [0..<volume_slices] junk of
                  Inl e \<Rightarrow> Inl e
                | Inr X \<Rightarrow>
                    (case np_scale X of
                       Inl e \<Rightarrow> Inl e
                     | Inr Xs \<Rightarrow> Inr (model_predict env Xs)))))"

text \<open>The attributes of a \<^verbatim>\<open>Unet\<close> instance: the fields set by \<^verbatim>\<open>__init__\<close>
  and the methods of the class. Looking up any other name raises
  \<^verbatim>\<open>AttributeError\<close>.\<close>

definition unet_attributes :: "string list" where
  "unet_attributes =
     [''img_size'', ''num_classes'', ''ker_init'', ''dropout'', ''learning_rate'', ''model'',
      ''build_model'', ''compile_model'', ''plot_model'', ''train'', ''save_model'', ''load_model'',
      ''compile_and_load_weights'', ''imageLoader'', ''loadDataFromDir'', ''predictByPath'',
      ''showPredictsById'', ''predict_segmentation'', ''show_predicted_segmentations'', ''evaluate'']"

definition getattr_unet :: "string \<Rightarrow> py_error + unit" where
  "getattr_unet name = (if name \<in> set unet_attributes then Inr () else Inl (AttributeError name))"

text \<open>\<^verbatim>\<open>loadDataFromDir\<close> calls \<^verbatim>\<open>self.image_loader\<close>; the argument
  \<open>image_loader\<close> is what that attribute would compute if the class had one. The
  inner loop reads the scan and the mask at slice \<open>j\<close> for every slice of the scan.\<close>

definition load_slices ::
  "'o data_env \<Rightarrow> nat \<Rightarrow> volume \<Rightarrow> volume \<Rightarrow> plane list \<times> plane list \<Rightarrow> py_error + plane list \<times> plane list" where
  "load_slices env img_size scan_vol mask_vol acc =
     py_for (\<lambda>j (scans, masks).
               case py_index scan_vol j of
                 Inl e \<Rightarrow> Inl e
               | Inr s \<Rightarrow>
                   (case py_index mask_vol j of
                      Inl e \<Rightarrow> Inl e
                    | Inr m \<Rightarrow> Inr (scans @ [cv2_resize env s img_size], masks @ [cv2_resize env m img_size])))
       [0..<length scan_vol] acc"

definition loadDataFromDir ::
  "'o data_env \<Rightarrow> (string \<Rightarrow> py_error + volume) \<Rightarrow> nat \<Rightarrow> string \<Rightarrow> string list \<Rightarrow> string \<Rightarrow> int \<Rightarrow>
   py_error + plane list \<times> plane list" where
  "loadDataFromDir env image_loader img_size path list_of_files mri_type n_images =
     py_for (\<lambda>i acc.
               case py_index (glob_glob env (i @ ''/*'' @ mri_type @ ''*'')) 0 of
                 Inl e \<Rightarrow> Inl e
               | Inr full_path \<Rightarrow>
                   (case getattr_unet ''image_loader'' of
                      Inl e \<Rightarrow> Inl e
                    | Inr _ \<Rightarrow>
                        (case image_loader full_path of
                           Inl e \<Rightarrow> Inl e
                         | Inr scan_vol \<Rightarrow>
                             (case py_index (glob_glob env (i @ ''/*seg*'')) 0 of
                                Inl e \<Rightarrow> Inl e
                              | Inr seg_path \<Rightarrow>
                                  (case getattr_unet ''image_loader'' of
                                     Inl e \<Rightarrow> Inl e
                                   | Inr _ \<Rightarrow>
                                       (case image_loader seg_path of
                                          Inl e \<Rightarrow> Inl e
                                        | Inr mask_vol \<Rightarrow> load_slices env img_size scan_vol mask_vol acc))))))
       (py_take list_of_files n_images) ([], [])"

text \<open>\<^verbatim>\<open>show_predicted_segmentations\<close> up to its first plot: \<open>r\<close> is the draw of
  \<^verbatim>\<open>random.choice\<close>, the ground truth is read at \<^verbatim>\<open>slice_to_plot +
  self.volume_start_at\<close>; the plotting that would follow is not modelled.\<close>

definition show_predicted_segmentations ::
  "'o data_env \<Rightarrow> nat \<Rightarrow> xrow list \<Rightarrow> string list \<Rightarrow> nat \<Rightarrow> nat \<Rightarrow> py_error + unit" where
  "show_predicted_segmentations env img_size junk samples_list slice_to_plot r =
     (if samples_list = [] then Inl IndexError
      else
        (let random_sample = samples_list ! (r mod length samples_list) in
         case train_dataset_path env of
           None \<Rightarrow> Inl (TypeError ''expected str, bytes or os.PathLike object, not NoneType'')
         | Some base \<Rightarrow>
             (let random_sample_path = path_join (path_join base random_sample) random_sample in
              case predict_segmentation env img_size junk random_sample_path VOLUME_SLICES VOLUME_START_AT of
                Inl e \<Rightarrow> Inl e
              | Inr _ \<Rightarrow>
                  (case nib_load env (random_sample_path @ ''_seg.nii'') of
                     Inl e \<Rightarrow> Inl e
                   | Inr _ \<Rightarrow> getattr_unet ''volume_start_at''))))"

subsection \<open>Lemmas\<close>

lemma getattr_unet_missing [model_simps]:
  "getattr_unet ''image_loader'' = Inl (AttributeError ''image_loader'')"
  "getattr_unet ''volume_start_at'' = Inl (AttributeError ''volume_start_at'')"
  by (simp_all add: getattr_unet_def unet_attributes_def)

lemma fill_row_eq:
  "j < length X \<Longrightarrow> fill_row env n a b s j X =
     (if j + s < length a \<and> j + s < length b
      then Inr (X[j := (cv2_resize env (a ! (j + s)) n, cv2_resize env (b ! (j + s)) n)])
      else Inl IndexError)"
  by (simp add: fill_row_def py_index_def Let_def)

lemma fill_row_loop:
  assumes "length junk = ns"
  shows "py_for (fill_row env n a b s) [0..<ns] junk =
     (if ns = 0 \<or> (s + ns \<le> length a \<and> s + ns \<le> length b)
      then Inr (map (\<lambda>j. (cv2_resize env (a ! (j + s)) n, cv2_resize env (b ! (j + s)) n)) [0..<ns])
      else Inl IndexError)"
proof -
  have "py_for (fill_row env n a b s) [0..<ns] junk =
     (if \<forall>j<ns. j + s < length a \<and> j + s < length b
      then Inr (map (\<lambda>j. (\<lambda>x. (cv2_resize env (a ! (j + s)) n, cv2_resize env (b ! (j + s)) n)) (junk ! j)) [0..<ns] @ drop ns junk)
      else Inl IndexError)"
    by (rule py_for_rows) (use assms in \<open>simp_all add: fill_row_eq\<close>)
  moreover have "(\<forall>j<ns. j + s < length a \<and> j + s < length b) \<longleftrightarrow>
      ns = 0 \<or> (s + ns \<le> length a \<and> s + ns \<le> length b)"
    by (cases ns) auto
  ultimately show ?thesis using assms by simp
qed

lemma x_values_scale:
  "x_values (map (\<lambda>(a, b). (scale_plane m a, scale_plane m b)) X) = map (\<lambda>v. v / m) (x_values X)"
  by (induction X) (auto simp: x_values_def scale_plane_def map_concat)

text \<open>C12. \<^verbatim>\<open>predict_segmentation\<close> equals its reference reading: load the T1ce
  file, then the FLAIR file; if both volumes have the slices
  \<open>start .. start + volume_slices - 1\<close>, predict on the normalised stack of the resized
  (FLAIR, T1ce) slice pairs, otherwise raise \<^verbatim>\<open>IndexError\<close>. Whatever
  \<^verbatim>\<open>np.empty\<close> left in the array never reaches the model.\<close>

theorem predict_segmentation_reference:
  assumes "length junk = volume_slices"
  shows "predict_segmentation env n junk path volume_slices start =
    (case nib_load env (path @ ''_t1ce.nii'') of
       Inl e \<Rightarrow> Inl e
     | Inr t1ce \<Rightarrow>
         (case nib_load env (path @ ''_flair.nii'') of
            Inl e \<Rightarrow> Inl e
          | Inr flair \<Rightarrow>
              (if volume_slices = 0 \<or>
                  (start + volume_slices \<le> length flair \<and> start + volume_slices \<le> length t1ce)
               then (case np_scale (map (\<lambda>j. (cv2_resize env (flair ! (j + start)) n,
                                                cv2_resize env (t1ce ! (j + start)) n))
                                      [0..<volume_slices]) of
                       Inl e \<Rightarrow> Inl e
                     | Inr xs \<Rightarrow> Inr (model_predict env xs))
               else Inl IndexError)))"
  using assms
  by (simp add: predict_segmentation_def fill_row_loop split: sum.splits)

lemma predict_segmentation_reference_witness:
  "length [([[0::real]], [[0::real]])] = 1 \<and>
   predict_segmentation
     \<lparr>nib_load = (\<lambda>p. Inr [[[1]], [[2]]]), cv2_resize = (\<lambda>p n. p), glob_glob = (\<lambda>p. []),
      model_predict = (\<lambda>x. x), train_dataset_path = None\<rparr>
     1 [([[0]], [[0]])] ''BraTS20_Training_001'' 1 1 =
   Inr (Scaled [([[1]], [[1]])])"
  using predict_segmentation_reference
      [of "[([[0::real]], [[0::real]])]" 1
          "\<lparr>nib_load = (\<lambda>p. Inr [[[1]], [[2]]]), cv2_resize = (\<lambda>p n. p), glob_glob = (\<lambda>p. []),
             model_predict = (\<lambda>x. x), train_dataset_path = None\<rparr>" 1 "''BraTS20_Training_001''" 1]
  by (simp add: np_scale_def x_values_def scale_plane_def)

text \<open>C13. \<^verbatim>\<open>imageLoader\<close> reads slices 22 to 121 into channel 0 and never writes
  channel 1, which stays all zeros although the network takes a second (T1ce) channel;
  a volume with fewer than 122 slices raises \<^verbatim>\<open>IndexError\<close>.\<close>

theorem imageLoader_reference:
  "imageLoader env n path =
     (case nib_load env path of
        Inl e \<Rightarrow> Inl e
      | Inr vol \<Rightarrow>
          (if 122 \<le> length vol
           then Inr (map (\<lambda>j. (cv2_resize env (vol ! (j + 22)) n, zero_plane n)) [0..<100])
           else Inl IndexError))"
proof (cases "nib_load env path")
  case (Inl e)
  then show ?thesis by (simp add: imageLoader_def)
next
  case (Inr vol)
  have "py_for (\<lambda>j X. case py_index vol (j + 22) of Inl e \<Rightarrow> Inl e
                  | Inr sl \<Rightarrow> Inr (X[j := (cv2_resize env sl n, snd (X ! j))]))
          [0..<100] (replicate 100 (zero_plane n, zero_plane n)) =
        (if \<forall>j<100. j + 22 < length vol
         then Inr (map (\<lambda>j. (\<lambda>x. (cv2_resize env (vol ! (j + 22)) n, snd x))
                 (replicate 100 (zero_plane n, zero_plane n) ! j)) [0..<100]
               @ drop 100 (replicate 100 (zero_plane n, zero_plane n)))
         else Inl IndexError)"
    by (rule py_for_rows) (simp_all add: py_index_def)
  moreover have "(\<forall>j<(100::nat). j + 22 < length vol) \<longleftrightarrow> 122 \<le> length vol"
    by (auto dest: spec [of _ 99])
  moreover have "map (\<lambda>j. (\<lambda>x. (cv2_resize env (vol ! (j + 22)) n, snd x))
                 (replicate 100 (zero_plane n, zero_plane n) ! j)) [0..<100] =
                 map (\<lambda>j. (cv2_resize env (vol ! (j + 22)) n, zero_plane n)) [0..<100]"
    by (rule map_cong) auto
  ultimately show ?thesis using Inr
    by (simp add: imageLoader_def VOLUME_SLICES_def VOLUME_START_AT_def)
qed

text \<open>C14. The normalisation \<^verbatim>\<open>X / np.max(X)\<close> of the prediction methods maps a
  non-negative stack with a positive voxel into \<open>[0, 1]\<close>, reaching 1.\<close>

theorem np_scale_bounds:
  assumes nonneg: "\<forall>v \<in> set (x_values X). 0 \<le> v" and pos: "\<exists>v \<in> set (x_values X). 0 < v"
  shows "\<exists>Y. np_scale X = Inr (Scaled Y) \<and> (\<forall>v \<in> set (x_values Y). 0 \<le> v \<and> v \<le> 1) \<and>
             1 \<in> set (x_values Y)"
proof (cases "x_values X")
  case Nil
  with pos show ?thesis by simp
next
  case (Cons v vs)
  let ?m = "fold max vs v"
  have m: "?m = Max (set (x_values X))" using Cons by (metis Max.set_eq_fold)
  have fin: "finite (set (x_values X))" by simp
  have ge: "\<forall>w \<in> set (x_values X). w \<le> ?m" using m fin by simp
  have mem: "?m \<in> set (x_values X)" using m fin Cons by (metis Max_in list.distinct(1) set_empty)
  from pos ge have mpos: "0 < ?m" by fastforce
  let ?Y = "map (\<lambda>(a, b). (scale_plane ?m a, scale_plane ?m b)) X"
  have "np_scale X = Inr (Scaled ?Y)" using Cons mpos by (simp add: np_scale_def Let_def)
  moreover have "\<forall>w \<in> set (x_values ?Y). 0 \<le> w \<and> w \<le> 1"
    using nonneg ge mpos by (auto simp: x_values_scale)
  moreover have "1 \<in> set (x_values ?Y)"
    using mem mpos by (force simp: x_values_scale)
  ultimately show ?thesis by blast
qed

lemma np_scale_bounds_witness:
  "np_scale [([[0, 2]], [[4]])] = Inr (Scaled [([[0, 1 / 2]], [[1]])]) \<and>
   1 \<in> set (x_values [([[0, 1 / 2]], [[1::real]])])"
proof -
  have h1: "\<forall>v \<in> set (x_values [([[0::real, 2]], [[4]])]). 0 \<le> v" by (simp add: x_values_def)
  have h2: "\<exists>v \<in> set (x_values [([[0::real, 2]], [[4]])]). 0 < v" by (simp add: x_values_def)
  have "np_scale [([[0, 2]], [[4]])] = Inr (Scaled [([[0, 1 / 2]], [[1]])])"
    by (simp add: np_scale_def x_values_def scale_plane_def)
  with np_scale_bounds [OF h1 h2] show ?thesis by auto
qed

text \<open>C15. \<^verbatim>\<open>loadDataFromDir\<close> never loads anything: for an empty selection it
  returns two empty arrays, otherwise its first file raises \<^verbatim>\<open>IndexError\<close> (no scan
  matches the glob) or \<^verbatim>\<open>AttributeError\<close> (it calls \<^verbatim>\<open>self.image_loader\<close>,
  a method the class does not have; the loader is \<^verbatim>\<open>imageLoader\<close>).\<close>

theorem loadDataFromDir_never_loads:
  "loadDataFromDir env loader n path files mri k =
     (case py_take files k of
        [] \<Rightarrow> Inr ([], [])
      | i # _ \<Rightarrow> (if glob_glob env (i @ ''/*'' @ mri @ ''*'') = [] then Inl IndexError
                  else Inl (AttributeError ''image_loader'')))"
  by (auto simp: loadDataFromDir_def getattr_unet_def unet_attributes_def py_index_def
           split: list.splits)

text \<open>C16. \<^verbatim>\<open>show_predicted_segmentations\<close> never reaches its plots: it always
  raises, at the latest with \<^verbatim>\<open>AttributeError\<close> on \<^verbatim>\<open>self.volume_start_at\<close>,
  a module constant the method reads as an attribute.\<close>

theorem show_predicted_segmentations_never_plots:
  "\<exists>e. show_predicted_segmentations env n junk samples s r = Inl e"
  by (auto simp: show_predicted_segmentations_def getattr_unet_def unet_attributes_def Let_def
           split: option.splits sum.splits)

text \<open>C30. The panels of \<^verbatim>\<open>showPredictsById\<close> line up with the prediction: when
  \<^verbatim>\<open>predictByPath\<close> succeeds on the case, the start slice is one of the 100 predicted
  ones and the ground truth has that slice, the method raises \<^verbatim>\<open>IndexError\<close> at line
  204 when the model has fewer than 4 classes, and otherwise gets past all its reads, and
  the FLAIR panel it draws is exactly channel 0 of row \<open>start_slice\<close> of the array
  whose normalisation the model predicted on.\<close>

theorem showPredictsById_aligned:
  assumes p: "predictByPath env n junk (jupyter_case_path c) c = Inr p"
    and fl: "nib_load env (path_join (jupyter_case_path c) (''BraTS20_Training_'' @ c @ ''_flair.nii'')) = Inr flair"
    and gt: "nib_load env (path_join (jupyter_case_path c) (''BraTS20_Training_'' @ c @ ''_seg.nii'')) = Inr gt"
    and s: "s < VOLUME_SLICES" and sg: "s + VOLUME_START_AT < length gt"
    and junk: "length junk = VOLUME_SLICES"
  shows "\<exists>ce rows xs.
           nib_load env (path_join (jupyter_case_path c) (''BraTS20_Training_'' @ c @ ''_t1ce.nii'')) = Inr ce \<and>
           py_for (fill_row env n flair ce VOLUME_START_AT) [0..<VOLUME_SLICES] junk = Inr rows \<and>
           np_scale rows = Inr xs \<and> p = model_predict env xs \<and>
           showPredictsById env channels n junk c s =
             (if channels p < 4 then Inl IndexError
              else Inr (fst (rows ! s), cv2_resize env (gt ! (s + VOLUME_START_AT)) n, p))"
proof -
  from p fl obtain ce rows xs where
    ce: "nib_load env (path_join (jupyter_case_path c) (''BraTS20_Training_'' @ c @ ''_t1ce.nii'')) = Inr ce"
    and rows: "py_for (fill_row env n flair ce VOLUME_START_AT) [0..<VOLUME_SLICES] junk = Inr rows"
    and xs: "np_scale rows = Inr xs" and pe: "p = model_predict env xs"
    by (auto simp: predictByPath_def split: sum.splits)
  from rows fill_row_loop [OF junk, of env n flair ce VOLUME_START_AT]
  have len: "VOLUME_START_AT + VOLUME_SLICES \<le> length flair"
    and r: "rows = map (\<lambda>j. (cv2_resize env (flair ! (j + VOLUME_START_AT)) n,
                             cv2_resize env (ce ! (j + VOLUME_START_AT)) n)) [0..<VOLUME_SLICES]"
    by (auto simp: VOLUME_SLICES_def split: if_splits)
  have "showPredictsById env channels n junk c s =
          (if channels p < 4 then Inl IndexError
           else Inr (cv2_resize env (flair ! (s + VOLUME_START_AT)) n, cv2_resize env (gt ! (s + VOLUME_START_AT)) n, p))"
    using p fl gt s sg len by (simp add: showPredictsById_def py_index_def)
  moreover have "fst (rows ! s) = cv2_resize env (flair ! (s + VOLUME_START_AT)) n"
    using r s by simp
  ultimately show ?thesis using ce rows xs pe by auto
qed

lemma showPredictsById_aligned_witness:
  "predictByPath \<lparr>nib_load = (\<lambda>f. Inr (replicate 155 [[1]])), cv2_resize = (\<lambda>pl k. pl), glob_glob = (\<lambda>g. []),
       model_predict = (\<lambda>x. (0::nat)), train_dataset_path = None\<rparr> 1 (replicate 100 ([[0]], [[0]]))
       (jupyter_case_path ''001'') ''001'' = Inr 0 \<and>
   showPredictsById \<lparr>nib_load = (\<lambda>f. Inr (replicate 155 [[1]])), cv2_resize = (\<lambda>pl k. pl), glob_glob = (\<lambda>g. []),
       model_predict = (\<lambda>x. (0::nat)), train_dataset_path = None\<rparr> (\<lambda>x. 4) 1 (replicate 100 ([[0]], [[0]])) ''001'' 60 =
     Inr ([[1]], [[1]], 0) \<and>
   showPredictsById \<lparr>nib_load = (\<lambda>f. Inr (replicate 155 [[1]])), cv2_resize = (\<lambda>pl k. pl), glob_glob = (\<lambda>g. []),
       model_predict = (\<lambda>x. (0::nat)), train_dataset_path = None\<rparr> (\<lambda>x. 2) 1 (replicate 100 ([[0]], [[0]])) ''001'' 60 =
     Inl IndexError"
proof -
  let ?env = "\<lparr>nib_load = (\<lambda>f. Inr (replicate 155 [[1]])), cv2_resize = (\<lambda>pl k. pl), glob_glob = (\<lambda>g. []),
       model_predict = (\<lambda>x. (0::nat)), train_dataset_path = None\<rparr> :: nat data_env"
  have junk: "length (replicate 100 ([[0::real]], [[0]])) = VOLUME_SLICES" by (simp add: VOLUME_SLICES_def)
  have m: "map (\<lambda>j. (replicate 155 [[1::real]] ! (j + 22), replicate 155 [[1::real]] ! (j + 22))) [0..<100] =
            replicate 100 ([[1]], [[1]])"
  proof -
    have "map (\<lambda>j. (replicate 155 [[1::real]] ! (j + 22), replicate 155 [[1::real]] ! (j + 22))) [0..<100] =
          map (\<lambda>j. ([[1::real]], [[1]])) [0..<100]" by (rule map_cong) auto
    then show ?thesis by (simp add: map_replicate_const)
  qed
  have loop: "py_for (fill_row ?env 1 (replicate 155 [[1]]) (replicate 155 [[1]]) VOLUME_START_AT)
                [0..<VOLUME_SLICES] (replicate 100 ([[0]], [[0]])) = Inr (replicate 100 ([[1]], [[1]]))"
    using fill_row_loop [OF junk, of ?env 1 "replicate 155 [[1]]" "replicate 155 [[1]]" VOLUME_START_AT]
    by (simp add: VOLUME_SLICES_def VOLUME_START_AT_def m)
  have p: "predictByPath ?env 1 (replicate 100 ([[0]], [[0]])) (jupyter_case_path ''001'') ''001'' = Inr 0"
    using loop by (simp add: predictByPath_def np_scale_def x_values_def Let_def split: list.splits)
  have fl: "nib_load ?env (path_join (jupyter_case_path ''001'') (''BraTS20_Training_'' @ ''001'' @ ''_flair.nii'')) =
            Inr (replicate 155 [[1]])" by simp
  have gt: "nib_load ?env (path_join (jupyter_case_path ''001'') (''BraTS20_Training_'' @ ''001'' @ ''_seg.nii'')) =
            Inr (replicate 155 [[1]])" by simp
  have s: "(60::nat) < VOLUME_SLICES" and sg: "60 + VOLUME_START_AT < length (replicate 155 [[1::real]])"
    by (simp_all add: VOLUME_SLICES_def VOLUME_START_AT_def)
  from showPredictsById_aligned [OF p fl gt s sg junk, of "\<lambda>x. 4"]
       showPredictsById_aligned [OF p fl gt s sg junk, of "\<lambda>x. 2"] p loop show ?thesis
    by (auto simp: VOLUME_START_AT_def)
qed

lemma np_scale_empty:
  "x_values X = [] \<Longrightarrow> np_scale X = Inl (ValueError ''zero-size array to reduction operation maximum'')"
  by (simp add: np_scale_def)

lemma np_scale_zero:
  assumes "x_values X \<noteq> []" and "set (x_values X) \<subseteq> {0}"
  shows "np_scale X = Inr NonFinite"
proof (cases "x_values X")
  case Nil
  with assms(1) show ?thesis by simp
next
  case (Cons v vs)
  have "fold max vs v = Max (set (v # vs))" by (metis Max.set_eq_fold)
  also have "set (v # vs) = {0}" using assms(2) Cons by auto
  finally show ?thesis using Cons by (simp add: np_scale_def)
qed

lemma concat_replicate_const: "concat (replicate n (replicate m x)) = replicate (n * m) x"
  by (induction n) (simp_all add: replicate_add)

lemma x_values_map_zero:
  "x_values (map (\<lambda>j. (zero_plane n, zero_plane n)) xs) = replicate (2 * n * n * length xs) 0"
proof (induction xs)
  case (Cons x xs)
  then show ?case
    by (simp add: x_values_def zero_plane_def concat_replicate_const flip: replicate_add)
qed (simp add: x_values_def)

text \<open>C32. The empty boundary: \<^verbatim>\<open>predict_segmentation\<close> with
  \<^verbatim>\<open>volume_slices=0\<close> still reads both files, then \<^verbatim>\<open>np.max\<close> of the empty array
  raises \<^verbatim>\<open>ValueError\<close>; the model is never called.\<close>

theorem predict_segmentation_zero_slices:
  "predict_segmentation env n [] path 0 start =
     (case nib_load env (path @ ''_t1ce.nii'') of
        Inl e \<Rightarrow> Inl e
      | Inr _ \<Rightarrow>
          (case nib_load env (path @ ''_flair.nii'') of
             Inl e \<Rightarrow> Inl e
           | Inr _ \<Rightarrow> Inl (ValueError ''zero-size array to reduction operation maximum'')))"
  by (simp add: predict_segmentation_def np_scale_empty x_values_def split: sum.splits)

text \<open>C33. A blank scan is not an error: when every selected slice resizes to an
  all-zero plane, \<^verbatim>\<open>X / np.max(X)\<close> divides by zero, which numpy answers with
  \<^verbatim>\<open>nan\<close> and a warning, and \<^verbatim>\<open>predict_segmentation\<close> hands that non-finite
  array to the model and returns its prediction without raising.\<close>

theorem predict_segmentation_blank_scan:
  assumes junk: "length junk = volume_slices" and pos: "0 < volume_slices" "0 < n"
    and t: "nib_load env (path @ ''_t1ce.nii'') = Inr t1ce"
    and f: "nib_load env (path @ ''_flair.nii'') = Inr flair"
    and len: "start + volume_slices \<le> length flair" "start + volume_slices \<le> length t1ce"
    and blank: "list_all (\<lambda>j. cv2_resize env (flair ! (j + start)) n = zero_plane n \<and>
                              cv2_resize env (t1ce ! (j + start)) n = zero_plane n) [0..<volume_slices]"
  shows "predict_segmentation env n junk path volume_slices start = Inr (model_predict env NonFinite)"
proof -
  have rows: "map (\<lambda>j. (cv2_resize env (flair ! (j + start)) n, cv2_resize env (t1ce ! (j + start)) n))
                [0..<volume_slices] = map (\<lambda>j. (zero_plane n, zero_plane n)) [0..<volume_slices]"
    by (rule map_cong) (use blank in \<open>auto simp: list_all_iff\<close>)
  have "np_scale (map (\<lambda>j. (zero_plane n, zero_plane n)) [0..<volume_slices]) = Inr NonFinite"
    using pos by (intro np_scale_zero) (simp_all add: x_values_map_zero)
  then have z: "np_scale (map (\<lambda>j. (cv2_resize env (flair ! (j + start)) n, cv2_resize env (t1ce ! (j + start)) n))
                [0..<volume_slices]) = Inr NonFinite" by (simp only: rows)
  from z junk t f len show ?thesis
    by (simp add: predict_segmentation_def fill_row_loop)
qed
lemma predict_segmentation_blank_scan_witness:
  "predict_segmentation \<lparr>nib_load = (\<lambda>p. Inr [[[0]]]), cv2_resize = (\<lambda>p k. p), glob_glob = (\<lambda>g. []), model_predict = (\<lambda>x. x), train_dataset_path = None\<rparr> 1 [([[5]], [[5]])] ''BraTS20_Training_001'' 1 0 = Inr NonFinite"
proof -
  let ?env = "\<lparr>nib_load = (\<lambda>p. Inr [[[0]]]), cv2_resize = (\<lambda>p k. p), glob_glob = (\<lambda>g. []), model_predict = (\<lambda>x. x), train_dataset_path = None\<rparr> :: scaled data_env"
  have "predict_segmentation ?env 1 [([[5]], [[5]])] ''BraTS20_Training_001'' 1 0 = Inr (model_predict ?env NonFinite)"
    by (rule predict_segmentation_blank_scan [where t1ce = "[[[0]]]" and flair = "[[[0]]]"])
       (simp_all add: zero_plane_def)
  then show ?thesis by simp
qed

end
