(* ===== verification/Unet.thy ===== *)
theory Unet
  imports Prelude
begin

text \<open>
  The network topology of \<^verbatim>\<open>project2/backend/app/model.py\<close>, \<^verbatim>\<open>Unet.build_model\<close>
  (lines 42-86), as the shape computation Keras performs when the functional model is
  built: each layer call maps the shape of its input KerasTensor (height, width,
  channels; the batch axis is left out) to the shape of its output, or raises
  \<^verbatim>\<open>ValueError\<close> (\<open>None\<close>) when the shapes do not fit. The layers used:
  \<^item> \<^verbatim>\<open>Conv2D(filters, kernel_size, padding)\<close> with stride 1: \<^verbatim>\<open>'same'\<close> keeps height and
    width, \<^verbatim>\<open>'valid'\<close> (the default) maps a side \<open>n\<close> to \<open>n - kernel_size + 1\<close> and fails
    only when that would be negative, \<open>kernel_size > n + 1\<close> (Keras's
    \<^verbatim>\<open>compute_conv_output_shape\<close> accepts an empty output); the channels become \<open>filters\<close>, which must be
    positive;
  \<^item> \<^verbatim>\<open>MaxPooling2D((2, 2))\<close> with \<^verbatim>\<open>'valid'\<close> padding: \<open>\<lfloor>(n - 2) / 2\<rfloor> + 1\<close>,
    that is \<open>n div 2\<close>;
  \<^item> \<^verbatim>\<open>UpSampling2D((2, 2))\<close>: height and width doubled;
  \<^item> \<^verbatim>\<open>Dropout(rate)\<close>: identity on shapes, and the rate must lie in \<open>[0, 1]\<close>;
  \<^item> \<^verbatim>\<open>concatenate([a, b], axis=3)\<close>: equal height and width, channels added.
\<close>

type_synonym shape = "nat \<times> nat \<times> nat"

datatype padding = Same | Valid

definition conv2d :: "nat \<Rightarrow> nat \<Rightarrow> padding \<Rightarrow> shape \<Rightarrow> shape option" where
  "conv2d filters kernel_size pad s =
     (case s of (h, w, c) \<Rightarrow>
        if filters = 0 then None
        else (case pad of
                Same \<Rightarrow> Some (h, w, filters)
              | Valid \<Rightarrow>
                  (if kernel_size \<le> h + 1 \<and> kernel_size \<le> w + 1
                   then Some (h + 1 - kernel_size, w + 1 - kernel_size, filters)
                   else None)))"

definition max_pooling2d :: "shape \<Rightarrow> shape option" where
  "max_pooling2d s = (case s of (h, w, c) \<Rightarrow> Some (h div 2, w div 2, c))"

definition up_sampling2d :: "shape \<Rightarrow> shape" where
  "up_sampling2d s = (case s of (h, w, c) \<Rightarrow> (2 * h, 2 * w, c))"

definition dropout_layer :: "real \<Rightarrow> shape \<Rightarrow> shape option" where
  "dropout_layer rate s = (if 0 \<le> rate \<and> rate \<le> 1 then Some s else None)"

definition concatenate :: "shape \<Rightarrow> shape \<Rightarrow> shape option" where
  "concatenate a b =
     (case (a, b) of ((h, w, c), (h', w', c')) \<Rightarrow>
        if h = h' \<and> w = w' then Some (h, w, c + c') else None)"

text \<open>\<^verbatim>\<open>build_model\<close>, line by line: the input and output shapes of the model, or
  \<open>None\<close> where Keras raises. Names are rebound as in the source (\<^verbatim>\<open>conv\<close> is
  bound twice; the skip connection \<^verbatim>\<open>merge9\<close> reads its first binding).\<close>

definition build_model :: "nat \<Rightarrow> nat \<Rightarrow> real \<Rightarrow> (shape \<times> shape) option" where
  "build_model img_size num_classes dropout = do {
     let inputs = (img_size, img_size, 2);
     conv1 \<leftarrow> conv2d 32 3 Same inputs;
     conv1 \<leftarrow> conv2d 32 3 Same conv1;
     pool \<leftarrow> max_pooling2d conv1;
     conv \<leftarrow> conv2d 64 3 Same pool;
     conv \<leftarrow> conv2d 64 3 Same conv;
     pool1 \<leftarrow> max_pooling2d conv;
     conv2 \<leftarrow> conv2d 128 3 Same pool1;
     conv2 \<leftarrow> conv2d 128 3 Same conv2;
     pool2 \<leftarrow> max_pooling2d conv2;
     conv3 \<leftarrow> conv2d 256 3 Same pool2;
     conv3 \<leftarrow> conv2d 256 3 Same conv3;
     pool4 \<leftarrow> max_pooling2d conv3;
     conv5 \<leftarrow> conv2d 512 3 Same pool4;
     conv5 \<leftarrow> conv2d 512 3 Same conv5;
     drop5 \<leftarrow> dropout_layer dropout conv5;
     up7 \<leftarrow> conv2d 256 2 Same (up_sampling2d drop5);
     merge7 \<leftarrow> concatenate conv3 up7;
     conv7 \<leftarrow> conv2d 256 3 Same merge7;
     conv7 \<leftarrow> conv2d 256 3 Same conv7;
     up8 \<leftarrow> conv2d 128 2 Same (up_sampling2d conv7);
     merge8 \<leftarrow> concatenate conv2 up8;
     conv8 \<leftarrow> conv2d 128 3 Same merge8;
     conv8 \<leftarrow> conv2d 128 3 Same conv8;
     up9 \<leftarrow> conv2d 64 2 Same (up_sampling2d conv8);
     merge9 \<leftarrow> concatenate conv up9;
     conv9 \<leftarrow> conv2d 64 3 Same merge9;
     conv9 \<leftarrow> conv2d 64 3 Same conv9;
     up \<leftarrow> conv2d 32 2 Same (up_sampling2d conv9);
     merge \<leftarrow> concatenate conv1 up;
     conv \<leftarrow> conv2d 32 3 Same merge;
     conv \<leftarrow> conv2d 32 3 Same conv;
     conv10 \<leftarrow> conv2d num_classes 1 Valid conv;
     Some (inputs, conv10)
   }"

text \<open>What the topology promises: the model maps \<open>img \<times> img\<close> two-channel slices to
  \<open>img \<times> img\<close> maps of \<open>num_classes\<close> class scores, and it can be built exactly when
  the side is a multiple of 16 (four poolings and four upsamplings must meet at
  the skip connections), there is at least one class and the dropout rate is a
  probability.\<close>

definition unet_spec :: "nat \<Rightarrow> nat \<Rightarrow> real \<Rightarrow> (shape \<times> shape) option" where
  "unet_spec img nc rate =
     (if 16 dvd img \<and> 0 < nc \<and> 0 \<le> rate \<and> rate \<le> 1
      then Some ((img, img, 2), (img, img, nc)) else None)"

subsection \<open>Layer lemmas\<close>

lemma conv2d_Same [model_simps]: "0 < f \<Longrightarrow> conv2d f k Same (h, w, c) = Some (h, w, f)"
  by (simp add: conv2d_def)

lemma conv2d_Valid_1 [model_simps]:
  "conv2d f 1 Valid (h, w, c) = (if f = 0 then None else Some (h, w, f))"
  by (simp add: conv2d_def)

lemma max_pooling2d_eq [model_simps]: "max_pooling2d (h, w, c) = Some (h div 2, w div 2, c)"
  by (simp add: max_pooling2d_def)

lemma up_sampling2d_eq [model_simps]: "up_sampling2d (h, w, c) = (2 * h, 2 * w, c)"
  by (simp add: up_sampling2d_def)

lemma concatenate_eq [model_simps]:
  "concatenate (h, w, c) (h', w', c') = (if h = h' \<and> w = w' then Some (h, w, c + c') else None)"
  by (simp add: concatenate_def)

lemma dropout_layer_eq [model_simps]:
  "dropout_layer r s = (if 0 \<le> r \<and> r \<le> 1 then Some s else None)"
  by (simp add: dropout_layer_def)

text \<open>The whole build as one guarded result: each skip connection asks that doubling
  the coarser level gives back the finer one.\<close>

lemma build_model_eq:
  "build_model img nc rate =
     (if 0 \<le> rate \<and> rate \<le> 1 \<and> 2 * (img div 2 div 2 div 2 div 2) = img div 2 div 2 div 2 \<and>
         2 * (img div 2 div 2 div 2) = img div 2 div 2 \<and> 2 * (img div 2 div 2) = img div 2 \<and>
         2 * (img div 2) = img \<and> 0 < nc
      then Some ((img, img, 2), (img, img, nc)) else None)"
  unfolding build_model_def Let_def
  by (simp only: conv2d_Same zero_less_numeral conv2d_Valid_1 max_pooling2d_eq up_sampling2d_eq
        concatenate_eq bind_if_Some dropout_layer_eq bind.simps if_True if_False) auto

text \<open>C11. \<^verbatim>\<open>Unet.build_model\<close> implements its specification: for every image side,
  number of classes and dropout rate it builds a model from \<open>img \<times> img \<times> 2\<close> inputs to
  \<open>img \<times> img \<times> num_classes\<close> outputs exactly when the side is a multiple
  of 16 (zero included: Keras builds the empty model), there is a class and the rate is in \<open>[0, 1]\<close>, and raises otherwise.\<close>

theorem build_model_refines_spec: "build_model img nc rate = unet_spec img nc rate"
  by (simp add: build_model_eq unet_spec_def double_half_iff dvd16_iff_halvings conj_ac)

end
