(* ===== verification/Callbacks.thy ===== *)
theory Callbacks
  imports Prelude
begin

text \<open>
  The epoch loop of \<^verbatim>\<open>self.model.fit\<close> in \<^verbatim>\<open>Unet.train\<close>
  (\<^verbatim>\<open>project2/backend/app/model.py\<close> lines 107-127) with the three callbacks the
  method configures, called at the end of every epoch in list order:
  \<^item> \<^verbatim>\<open>ReduceLROnPlateau(monitor='val_loss', factor=0.2, patience=2, min_lr=0.000001)\<close>
    (line 114), with Keras's defaults \<^verbatim>\<open>min_delta=1e-4\<close>, \<^verbatim>\<open>cooldown=0\<close>,
    \<^verbatim>\<open>mode='auto'\<close> (minimise), its state the best loss (\<open>None\<close> for
    \<^verbatim>\<open>np.inf\<close>), the wait and cooldown counters, and the optimizer's learning rate;
  \<^item> \<^verbatim>\<open>ModelCheckpoint(..., save_best_only=True, save_weights_only=True)\<close> (line 115),
    which saves the weights, under a file name carrying \<open>epoch + 1\<close> and the loss, when
    the validation loss is strictly below the best so far;
  \<^item> \<^verbatim>\<open>CSVLogger('training.log')\<close> (line 116), one row per epoch with the learning
    rate that \<^verbatim>\<open>ReduceLROnPlateau\<close> logged before it changed the rate.
  The training steps themselves are the framework's: the model takes the validation
  loss of each epoch as an input, a function \<open>val_loss :: nat \<Rightarrow> real\<close> of the epoch.
  The callbacks follow Keras's code; learning rates are exact reals here, where Keras
  compares a float32 variable.
\<close>

record plateau_cfg =
  factor :: real
  patience :: nat
  min_lr :: real
  min_delta :: real
  cooldown :: nat

record plateau =
  pl_lr :: real
  pl_best :: "real option"
  pl_wait :: nat
  pl_cooldown_counter :: nat

definition train_plateau_cfg :: plateau_cfg where
  "train_plateau_cfg = \<lparr>factor = 0.2, patience = 2, min_lr = 0.000001, min_delta = 0.0001, cooldown = 0\<rparr>"

text \<open>\<^verbatim>\<open>monitor_op\<close> in mode min: \<^verbatim>\<open>np.less(current, best - min_delta)\<close>.\<close>

definition improves :: "real \<Rightarrow> real \<Rightarrow> real option \<Rightarrow> bool" where
  "improves delta current best = (case best of None \<Rightarrow> True | Some b \<Rightarrow> current < b - delta)"

text \<open>\<^verbatim>\<open>ReduceLROnPlateau.on_epoch_end\<close>.\<close>

definition plateau_step :: "plateau_cfg \<Rightarrow> plateau \<Rightarrow> real \<Rightarrow> plateau" where
  "plateau_step cfg s current =
     (let s = (if 0 < pl_cooldown_counter s
               then s\<lparr>pl_cooldown_counter := pl_cooldown_counter s - 1, pl_wait := 0\<rparr> else s) in
      if improves (min_delta cfg) current (pl_best s) then s\<lparr>pl_best := Some current, pl_wait := 0\<rparr>
      else if 0 < pl_cooldown_counter s then s
      else
        (let s = s\<lparr>pl_wait := Suc (pl_wait s)\<rparr> in
         if patience cfg \<le> pl_wait s then
           (if min_lr cfg < pl_lr s
            then s\<lparr>pl_lr := max (pl_lr s * factor cfg) (min_lr cfg),
                   pl_cooldown_counter := cooldown cfg, pl_wait := 0\<rparr>
            else s)
         else s))"

text \<open>\<^verbatim>\<open>ModelCheckpoint._save_model\<close> with \<^verbatim>\<open>save_best_only\<close>: \<^verbatim>\<open>np.less\<close>
  against the best so far (initially \<^verbatim>\<open>np.inf\<close>); the saved file is recorded by the
  epoch number and loss it is named after.\<close>

record fit_state =
  fs_plateau :: plateau
  fs_ckpt_best :: "real option"
  fs_saved :: "(nat \<times> real) list"
  fs_log :: "(nat \<times> real \<times> real) list"

definition epoch_end :: "fit_state \<Rightarrow> nat \<Rightarrow> real \<Rightarrow> fit_state" where
  "epoch_end st epoch current =
     (let logged_lr = pl_lr (fs_plateau st);
          st = st\<lparr>fs_plateau := plateau_step train_plateau_cfg (fs_plateau st) current\<rparr>;
          st = (if improves 0 current (fs_ckpt_best st)
                then st\<lparr>fs_ckpt_best := Some current, fs_saved := fs_saved st @ [(Suc epoch, current)]\<rparr>
                else st)
      in st\<lparr>fs_log := fs_log st @ [(epoch, current, logged_lr)]\<rparr>)"

text \<open>The callbacks' state when \<^verbatim>\<open>fit\<close> starts (\<^verbatim>\<open>on_train_begin\<close> resets them;
  the learning rate is the optimizer's), and the run over the epochs.\<close>

definition fit_init :: "real \<Rightarrow> fit_state" where
  "fit_init lr = \<lparr>fs_plateau = \<lparr>pl_lr = lr, pl_best = None, pl_wait = 0, pl_cooldown_counter = 0\<rparr>,
                 fs_ckpt_best = None, fs_saved = [], fs_log = []\<rparr>"

definition fit_epochs :: "real \<Rightarrow> nat \<Rightarrow> (nat \<Rightarrow> real) \<Rightarrow> fit_state" where
  "fit_epochs lr epochs val_loss = fold (\<lambda>e st. epoch_end st e (val_loss e)) [0..<epochs] (fit_init lr)"

text \<open>The learning rates a run can reach from \<open>lr0\<close>.\<close>

definition lr_reachable :: "plateau_cfg \<Rightarrow> real \<Rightarrow> real \<Rightarrow> bool" where
  "lr_reachable cfg lr0 lr = (\<exists>k. lr = max (lr0 * factor cfg ^ k) (min_lr cfg))"

text \<open>Reference for the checkpoints: the epochs whose loss is below that of every
  earlier epoch.\<close>

definition new_best :: "(nat \<Rightarrow> real) \<Rightarrow> nat \<Rightarrow> bool" where
  "new_best val_loss e = list_all (\<lambda>e'. val_loss e < val_loss e') [0..<e]"

text \<open>A stalled run: no epoch after the first improves on the first loss by more than
  \<^verbatim>\<open>min_delta\<close>.\<close>

definition stalled :: "(nat \<Rightarrow> real) \<Rightarrow> nat \<Rightarrow> bool" where
  "stalled val_loss n = list_all (\<lambda>e. val_loss 0 - min_delta train_plateau_cfg \<le> val_loss e) [1..<Suc n]"

subsection \<open>Lemmas\<close>

lemma fit_epochs_Suc:
  "fit_epochs lr (Suc n) vl = epoch_end (fit_epochs lr n vl) n (vl n)"
  by (simp add: fit_epochs_def)

lemma epoch_end_ckpt:
  "fs_ckpt_best (epoch_end st e c) = (if improves 0 c (fs_ckpt_best st) then Some c else fs_ckpt_best st)"
  "fs_saved (epoch_end st e c) =
     (if improves 0 c (fs_ckpt_best st) then fs_saved st @ [(Suc e, c)] else fs_saved st)"
  by (simp_all add: epoch_end_def Let_def)

lemma epoch_end_plateau [simp]:
  "fs_plateau (epoch_end st e c) = plateau_step train_plateau_cfg (fs_plateau st) c"
  by (simp add: epoch_end_def Let_def)

lemma epoch_end_log [simp]:
  "fs_log (epoch_end st e c) = fs_log st @ [(e, c, pl_lr (fs_plateau st))]"
  by (simp add: epoch_end_def Let_def)

lemma new_best_Min:
  assumes "0 < n"
  shows "new_best vl n \<longleftrightarrow> vl n < Min (vl ` {..<n})"
proof -
  have "vl ` {..<n} \<noteq> {}" using assms by auto
  then show ?thesis by (simp add: new_best_def list_all_iff Min_gr_iff atLeast0LessThan)
qed

text \<open>The checkpoint callback's state after \<open>n\<close> epochs: the best loss is the
  minimum so far, the saved files are those of the epochs that set a new minimum.\<close>

lemma ckpt_invariant:
  "fs_ckpt_best (fit_epochs lr n vl) = (if n = 0 then None else Some (Min (vl ` {..<n}))) \<and>
   fs_saved (fit_epochs lr n vl) = map (\<lambda>e. (Suc e, vl e)) (filter (new_best vl) [0..<n])"
proof (induction n)
  case 0
  then show ?case by (simp add: fit_epochs_def fit_init_def)
next
  case (Suc n)
  show ?case
  proof (cases n)
    case 0
    then show ?thesis
      by (simp add: fit_epochs_Suc fit_epochs_def fit_init_def epoch_end_ckpt improves_def new_best_def
                    lessThan_Suc)
  next
    case (Suc m)
    then have pos: "0 < n" by simp
    have img: "vl ` {..<Suc n} = insert (vl n) (vl ` {..<n})" by (simp add: lessThan_Suc)
    have ne: "vl ` {..<n} \<noteq> {}" using pos by auto
    have "Min (vl ` {..<Suc n}) = min (vl n) (Min (vl ` {..<n}))"
      using ne by (simp add: img)
    with Suc.IH pos show ?thesis
      by (auto simp: fit_epochs_Suc epoch_end_ckpt improves_def new_best_Min min_def)
  qed
qed

lemma plateau_step_lr:
  "pl_lr (plateau_step cfg s c) = pl_lr s \<or>
   (min_lr cfg < pl_lr s \<and> pl_lr (plateau_step cfg s c) = max (pl_lr s * factor cfg) (min_lr cfg))"
  by (simp add: plateau_step_def Let_def)

lemma max_scale_step:
  assumes "0 \<le> f" "f \<le> 1" "0 \<le> (m::real)"
  shows "max (max a m * f) m = max (a * f) m"
proof (cases "a \<le> m")
  case True
  then have "a * f \<le> m * f" using assms(1) by (rule mult_right_mono)
  moreover have "m * f \<le> m" using assms(2,3) by (rule mult_left_le)
  ultimately show ?thesis using True by (simp add: max_def)
next
  case False
  then show ?thesis by (simp add: max_def)
qed

lemma plateau_step_lr_reachable:
  assumes cfg: "0 \<le> factor cfg" "factor cfg \<le> 1" "0 \<le> min_lr cfg"
    and r: "lr_reachable cfg lr0 (pl_lr s)"
  shows "lr_reachable cfg lr0 (pl_lr (plateau_step cfg s c))"
proof -
  from r obtain k where k: "pl_lr s = max (lr0 * factor cfg ^ k) (min_lr cfg)"
    by (auto simp: lr_reachable_def)
  from plateau_step_lr [of cfg s c] show ?thesis
  proof
    assume "pl_lr (plateau_step cfg s c) = pl_lr s"
    with r show ?thesis by simp
  next
    assume "min_lr cfg < pl_lr s \<and>
      pl_lr (plateau_step cfg s c) = max (pl_lr s * factor cfg) (min_lr cfg)"
    then have "pl_lr (plateau_step cfg s c) = max (pl_lr s * factor cfg) (min_lr cfg)" by simp
    also have "\<dots> = max (max (lr0 * factor cfg ^ k) (min_lr cfg) * factor cfg) (min_lr cfg)"
      by (simp only: k)
    also have "\<dots> = max (lr0 * factor cfg ^ k * factor cfg) (min_lr cfg)"
      using cfg by (rule max_scale_step)
    also have "\<dots> = max (lr0 * factor cfg ^ Suc k) (min_lr cfg)"
      by (simp only: power_Suc2 mult.assoc)
    finally show ?thesis unfolding lr_reachable_def by (rule exI)
  qed
qed

lemma plateau_step_lr_le:
  "0 \<le> factor cfg \<Longrightarrow> factor cfg \<le> 1 \<Longrightarrow> 0 \<le> min_lr cfg \<Longrightarrow>
   pl_lr (plateau_step cfg s c) \<le> pl_lr s"
  using plateau_step_lr [of cfg s c] by (auto simp: mult_left_le_one_le)

lemma train_plateau_cfg_sane:
  "0 \<le> factor train_plateau_cfg" "factor train_plateau_cfg \<le> 1" "0 \<le> min_lr train_plateau_cfg"
  by (simp_all add: train_plateau_cfg_def)

lemma fit_epochs_lr_reachable:
  assumes "min_lr train_plateau_cfg \<le> lr"
  shows "lr_reachable train_plateau_cfg lr (pl_lr (fs_plateau (fit_epochs lr n vl)))"
proof (induction n)
  case 0
  show ?case unfolding lr_reachable_def
    by (rule exI [of _ 0]) (use assms in \<open>simp add: fit_epochs_def fit_init_def\<close>)
next
  case (Suc n)
  then show ?case
    by (simp add: fit_epochs_Suc plateau_step_lr_reachable train_plateau_cfg_sane)
qed

lemma lr_reachable_trans:
  assumes cfg: "0 \<le> factor cfg" "factor cfg \<le> 1" "0 \<le> min_lr cfg"
    and ab: "lr_reachable cfg a b" and bc: "lr_reachable cfg b c"
  shows "lr_reachable cfg a c"
proof -
  from ab obtain k where k: "b = max (a * factor cfg ^ k) (min_lr cfg)" by (auto simp: lr_reachable_def)
  from bc obtain k' where k': "c = max (b * factor cfg ^ k') (min_lr cfg)" by (auto simp: lr_reachable_def)
  have g: "0 \<le> factor cfg ^ k'" "factor cfg ^ k' \<le> 1" using cfg by (simp_all add: power_le_one)
  have "c = max (max (a * factor cfg ^ k) (min_lr cfg) * factor cfg ^ k') (min_lr cfg)" by (simp only: k' k)
  also have "\<dots> = max (a * factor cfg ^ k * factor cfg ^ k') (min_lr cfg)"
    using g cfg(3) by (rule max_scale_step)
  also have "\<dots> = max (a * factor cfg ^ (k + k')) (min_lr cfg)" by (simp only: power_add mult.assoc)
  finally show ?thesis unfolding lr_reachable_def by (rule exI)
qed

lemma lr_reachable_bounds:
  assumes cfg: "0 \<le> factor cfg" "factor cfg \<le> 1" "0 \<le> min_lr cfg"
    and r: "lr_reachable cfg lr0 lr" and start: "min_lr cfg \<le> lr0"
  shows "min_lr cfg \<le> lr \<and> lr \<le> lr0"
proof -
  from r obtain k where k: "lr = max (lr0 * factor cfg ^ k) (min_lr cfg)" by (auto simp: lr_reachable_def)
  have "factor cfg ^ k \<le> 1" using cfg by (simp add: power_le_one)
  moreover have "0 \<le> lr0" using start cfg by linarith
  ultimately have "lr0 * factor cfg ^ k \<le> lr0" by (simp add: mult_left_le)
  with k start show ?thesis by simp
qed

text \<open>C18. Whatever the validation losses, the learning rate after any number of
  epochs is the initial rate divided by 5 some number of times, clamped at
  \<^verbatim>\<open>min_lr\<close> = 1e-6: it never drops below \<^verbatim>\<open>min_lr\<close> and never grows.\<close>

theorem fit_lr_schedule:
  assumes "0.000001 \<le> lr"
  shows "\<exists>k. pl_lr (fs_plateau (fit_epochs lr n vl)) = max (lr * 0.2 ^ k) 0.000001"
proof -
  have "min_lr train_plateau_cfg \<le> lr" using assms by (simp add: train_plateau_cfg_def)
  then have "lr_reachable train_plateau_cfg lr (pl_lr (fs_plateau (fit_epochs lr n vl)))"
    by (rule fit_epochs_lr_reachable)
  then show ?thesis by (simp add: lr_reachable_def train_plateau_cfg_def)
qed

lemma fit_lr_schedule_witness:
  "(0.000001::real) \<le> 0.001 \<and> pl_lr (fs_plateau (fit_epochs 0.001 3 (\<lambda>e. 1))) = max (0.001 * 0.2 ^ 1) 0.000001"
proof -
  have h: "(0.000001::real) \<le> 0.001" by simp
  from fit_lr_schedule [OF h, of 3 "\<lambda>e. 1"]
  have "\<exists>k. pl_lr (fs_plateau (fit_epochs 0.001 3 (\<lambda>e. 1))) = max (0.001 * 0.2 ^ k) 0.000001" .
  moreover have "pl_lr (fs_plateau (fit_epochs 0.001 3 (\<lambda>e. 1))) = max (0.001 * 0.2 ^ 1) 0.000001"
    by (simp add: eval_nat_numeral fit_epochs_Suc plateau_step_def train_plateau_cfg_def
                  improves_def Let_def fit_epochs_def fit_init_def)
  ultimately show ?thesis using h by simp
qed

text \<open>C19. \<^verbatim>\<open>training.log\<close> has one row per epoch, in epoch order, with that
  epoch's validation loss; the learning rates it records never increase, and the rate the
  optimizer ends with is at most the last one logged.\<close>

theorem training_log_rows:
  "map (\<lambda>(e, v, l). (e, v)) (fs_log (fit_epochs lr n vl)) = map (\<lambda>e. (e, vl e)) [0..<n] \<and>
   sorted_wrt (\<ge>) (map (\<lambda>(e, v, l). l) (fs_log (fit_epochs lr n vl) @ [(n, 0, pl_lr (fs_plateau (fit_epochs lr n vl)))]))"
proof (induction n)
  case 0
  then show ?case by (simp add: fit_epochs_def fit_init_def)
next
  case (Suc n)
  have le: "pl_lr (plateau_step train_plateau_cfg (fs_plateau (fit_epochs lr n vl)) (vl n))
           \<le> pl_lr (fs_plateau (fit_epochs lr n vl))"
    by (rule plateau_step_lr_le) (simp_all add: train_plateau_cfg_def)
  from Suc show ?case
    using le by (fastforce simp: fit_epochs_Suc sorted_wrt_append)
qed

text \<open>C17. With \<^verbatim>\<open>save_best_only=True\<close>, \<^verbatim>\<open>train\<close> saves exactly one weights
  file for each epoch whose validation loss is strictly below that of every earlier epoch,
  named after epoch + 1 and that loss, in epoch order.\<close>

theorem checkpoints_at_new_minima:
  "fs_saved (fit_epochs lr n val_loss) = map (\<lambda>e. (Suc e, val_loss e)) (filter (new_best val_loss) [0..<n])"
  using ckpt_invariant [of lr n val_loss] by simp

lemma plateau_step_stalled:
  assumes cfg: "patience cfg = 2" "cooldown cfg = 0" "0 \<le> factor cfg" "factor cfg \<le> 1" "0 \<le> min_lr cfg"
    and lr0: "0 \<le> lr0"
    and s: "pl_best s = Some b" "pl_cooldown_counter s = 0"
      "pl_lr s = max (lr0 * factor cfg ^ (n div 2)) (min_lr cfg)"
      "min_lr cfg < pl_lr s \<longrightarrow> pl_wait s = n mod 2"
    and c: "b - min_delta cfg \<le> c"
  shows "pl_best (plateau_step cfg s c) = Some b \<and> pl_cooldown_counter (plateau_step cfg s c) = 0 \<and>
    pl_lr (plateau_step cfg s c) = max (lr0 * factor cfg ^ (Suc n div 2)) (min_lr cfg) \<and>
    (min_lr cfg < pl_lr (plateau_step cfg s c) \<longrightarrow> pl_wait (plateau_step cfg s c) = Suc n mod 2)"
proof (cases "min_lr cfg < pl_lr s")
  case True
  show ?thesis
  proof (cases "even n")
    case True
    then have "Suc n mod 2 = 1" "Suc n div 2 = n div 2" by presburger+
    with \<open>even n\<close> \<open>min_lr cfg < pl_lr s\<close> s c cfg show ?thesis
      by (simp add: plateau_step_def improves_def Let_def)
  next
    case False
    then have w: "pl_wait s = 1" and d: "Suc n div 2 = Suc (n div 2)"
      using True s(4) by (simp_all add: odd_iff_mod_2_eq_one)
    have "max (pl_lr s * factor cfg) (min_lr cfg) = max (lr0 * factor cfg ^ (n div 2) * factor cfg) (min_lr cfg)"
      using cfg by (simp only: s(3)) (rule max_scale_step)
    also have "\<dots> = max (lr0 * factor cfg ^ (Suc n div 2)) (min_lr cfg)"
      by (simp only: d power_Suc2 mult.assoc)
    finally have l: "max (pl_lr s * factor cfg) (min_lr cfg) = max (lr0 * factor cfg ^ (Suc n div 2)) (min_lr cfg)" .
    from False have "Suc n mod 2 = 0" by presburger
    with True w l s(1,2) c cfg show ?thesis
      by (simp add: plateau_step_def improves_def Let_def)
  qed
next
  case False
  then have m: "pl_lr s = min_lr cfg" using s(3) by simp
  then have "lr0 * factor cfg ^ (n div 2) \<le> min_lr cfg" using s(3) by simp
  moreover have "lr0 * factor cfg ^ (Suc n div 2) \<le> lr0 * factor cfg ^ (n div 2)"
    using lr0 cfg by (intro mult_left_mono power_decreasing) simp_all
  ultimately have "max (lr0 * factor cfg ^ (Suc n div 2)) (min_lr cfg) = min_lr cfg" by simp
  with False m s c cfg show ?thesis
    by (simp add: plateau_step_def improves_def Let_def)
qed

lemma stalled_Suc:
  "stalled vl (Suc n) \<longleftrightarrow> stalled vl n \<and> vl 0 - min_delta train_plateau_cfg \<le> vl (Suc n)"
  by (simp add: stalled_def)

lemma train_plateau_cfg_counts: "patience train_plateau_cfg = 2" "cooldown train_plateau_cfg = 0"
  by (simp_all add: train_plateau_cfg_def)

lemma fit_stalled:
  assumes lr: "min_lr train_plateau_cfg \<le> lr" and st: "stalled vl n"
  shows "pl_best (fs_plateau (fit_epochs lr (Suc n) vl)) = Some (vl 0) \<and>
    pl_cooldown_counter (fs_plateau (fit_epochs lr (Suc n) vl)) = 0 \<and>
    pl_lr (fs_plateau (fit_epochs lr (Suc n) vl)) =
      max (lr * factor train_plateau_cfg ^ (n div 2)) (min_lr train_plateau_cfg) \<and>
    (min_lr train_plateau_cfg < pl_lr (fs_plateau (fit_epochs lr (Suc n) vl)) \<longrightarrow>
      pl_wait (fs_plateau (fit_epochs lr (Suc n) vl)) = n mod 2)"
  using st
proof (induction n)
  case 0
  from lr show ?case
    by (simp add: fit_epochs_def fit_init_def plateau_step_def improves_def Let_def)
next
  case (Suc n)
  from Suc.prems have st: "stalled vl n" and c: "vl 0 - min_delta train_plateau_cfg \<le> vl (Suc n)"
    by (simp_all add: stalled_Suc)
  have "0 \<le> lr" using lr train_plateau_cfg_sane(3) by linarith
  from plateau_step_stalled [OF train_plateau_cfg_counts train_plateau_cfg_sane this _ _ _ _ c]
    Suc.IH [OF st]
  show ?case by (simp add: fit_epochs_Suc [of lr "Suc n"])
qed

text \<open>C26. The schedule of a stalled run: when no epoch after the first improves on the
  first validation loss by more than \<^verbatim>\<open>min_delta\<close>, \<^verbatim>\<open>ReduceLROnPlateau\<close> with
  \<^verbatim>\<open>patience=2\<close> divides the rate by 5 at every second epoch: after \<open>n + 1\<close>
  epochs it is \<open>max (lr * 0.2 ^ (n div 2)) 1e-6\<close>.\<close>

theorem stalled_lr_schedule:
  assumes "0.000001 \<le> lr" and "stalled vl n"
  shows "pl_lr (fs_plateau (fit_epochs lr (Suc n) vl)) = max (lr * 0.2 ^ (n div 2)) 0.000001"
proof -
  have "min_lr train_plateau_cfg \<le> lr" using assms(1) by (simp add: train_plateau_cfg_def)
  from fit_stalled [OF this assms(2)] show ?thesis by (simp add: train_plateau_cfg_def)
qed

lemma stalled_lr_schedule_witness:
  "(0.000001::real) \<le> 0.001 \<and> stalled (\<lambda>e. 1) 4 \<and>
   pl_lr (fs_plateau (fit_epochs 0.001 (Suc 4) (\<lambda>e. 1))) = max (0.001 * 0.2 ^ 2) 0.000001"
proof -
  have h: "(0.000001::real) \<le> 0.001" by simp
  have st: "stalled (\<lambda>e. 1) 4" by (simp add: stalled_def train_plateau_cfg_def list_all_iff)
  from stalled_lr_schedule [OF h st] h st show ?thesis by simp
qed

text \<open>C27. Progress of the schedule: on a run that never improves after its first epoch,
  the learning rate reaches \<^verbatim>\<open>min_lr = 1e-6\<close> after finitely many epochs and stays
  there.\<close>

theorem stalled_lr_reaches_min:
  assumes "0.000001 \<le> lr" and "\<forall>n. stalled vl n"
  shows "\<exists>N. \<forall>n\<ge>N. pl_lr (fs_plateau (fit_epochs lr n vl)) = 0.000001"
proof -
  have pos: "0 < 0.000001 / lr" using assms(1) by simp
  obtain k where k: "(0.2::real) ^ k < 0.000001 / lr"
    using real_arch_pow_inv [OF pos, of "0.2"] by auto
  have m: "min_lr train_plateau_cfg \<le> lr" using assms(1) by (simp add: train_plateau_cfg_def)
  have "pl_lr (fs_plateau (fit_epochs lr n vl)) = 0.000001" if n: "Suc (2 * k) \<le> n" for n
  proof -
    obtain m' where n': "n = Suc m'" and km: "k \<le> m' div 2" using n by (cases n) auto
    have "(0.2::real) ^ (m' div 2) \<le> 0.2 ^ k" using km by (rule power_decreasing) simp_all
    then have "lr * 0.2 ^ (m' div 2) \<le> lr * 0.2 ^ k" using assms(1) by (intro mult_left_mono) simp_all
    also have "\<dots> < 0.000001" using k assms(1) by (simp add: pos_less_divide_eq mult_ac)
    finally have "max (lr * 0.2 ^ (m' div 2)) 0.000001 = (0.000001::real)" by simp
    with fit_stalled [OF m, of vl m'] assms(2) n' show ?thesis by (simp add: train_plateau_cfg_def)
  qed
  then show ?thesis by blast
qed

lemma stalled_lr_reaches_min_witness:
  "(0.000001::real) \<le> 0.001 \<and> (\<forall>n. stalled (\<lambda>e. 1) n) \<and>
   (\<exists>N. pl_lr (fs_plateau (fit_epochs 0.001 N (\<lambda>e. 1))) = 0.000001)"
proof -
  have h: "(0.000001::real) \<le> 0.001" by simp
  have st: "\<forall>n. stalled (\<lambda>e. 1) n" by (simp add: stalled_def train_plateau_cfg_def list_all_iff)
  from stalled_lr_reaches_min [OF h st] h st show ?thesis by blast
qed

lemma sorted_wrt_new_best:
  "sorted_wrt (\<lambda>a b. vl b < vl a) (filter (new_best vl) [0..<n])"
proof -
  have "sorted_wrt (\<lambda>a b. a < b \<and> new_best vl b) (filter (new_best vl) [0..<n])"
    by (induction n) (auto simp: sorted_wrt_append)
  then show ?thesis
    by (rule sorted_wrt_mono_rel [rotated]) (auto simp: new_best_def list_all_iff)
qed

text \<open>C31. The checkpoint files of a run: their epoch numbers increase strictly and lie
  in \<open>1 .. epochs\<close>, and the validation losses in their names decrease strictly, so
  the last file written holds the best weights of the run.\<close>

theorem checkpoint_names_monotone:
  "sorted_wrt (<) (map fst (fs_saved (fit_epochs lr n vl))) \<and>
   sorted_wrt (>) (map snd (fs_saved (fit_epochs lr n vl))) \<and>
   set (map fst (fs_saved (fit_epochs lr n vl))) \<subseteq> {1..n}"
proof -
  have s: "fs_saved (fit_epochs lr n vl) = map (\<lambda>e. (Suc e, vl e)) (filter (new_best vl) [0..<n])"
    using ckpt_invariant [of lr n vl] by simp
  have "sorted_wrt (<) (filter (new_best vl) [0..<n])"
    by (rule sorted_wrt_filter) simp
  moreover have "sorted_wrt (\<lambda>a b. vl b < vl a) (filter (new_best vl) [0..<n])"
    by (rule sorted_wrt_new_best)
  ultimately show ?thesis by (auto simp: s sorted_wrt_map)
qed

text \<open>C34. The first epoch always writes a checkpoint (the best loss starts at
  \<^verbatim>\<open>np.inf\<close>), named \<^verbatim>\<open>model_.01-...\<close> after the first validation loss, and a
  run of \<open>n\<close> epochs writes at most \<open>n\<close> files.\<close>

theorem first_epoch_checkpoint:
  assumes "0 < n"
  shows "hd (fs_saved (fit_epochs lr n vl)) = (1, vl 0) \<and> length (fs_saved (fit_epochs lr n vl)) \<le> n"
proof -
  have s: "fs_saved (fit_epochs lr n vl) = map (\<lambda>e. (Suc e, vl e)) (filter (new_best vl) [0..<n])"
    using ckpt_invariant [of lr n vl] by simp
  from assms obtain m where n: "n = Suc m" by (cases n) auto
  have "[0..<n] = 0 # [1..<n]" using n by (simp add: upt_rec)
  moreover have "new_best vl 0" by (simp add: new_best_def)
  ultimately have "hd (filter (new_best vl) [0..<n]) = 0" by simp
  moreover have "filter (new_best vl) [0..<n] \<noteq> []" using \<open>new_best vl 0\<close> \<open>[0..<n] = 0 # [1..<n]\<close> by simp
  moreover have "length (filter (new_best vl) [0..<n]) \<le> n" using length_filter_le [of _ "[0..<n]"] by simp
  ultimately show ?thesis by (simp add: s hd_map)
qed

lemma first_epoch_checkpoint_witness:
  "hd (fs_saved (fit_epochs 0.001 3 (\<lambda>e. real e))) = (1, 0) \<and> length (fs_saved (fit_epochs 0.001 3 (\<lambda>e. real e))) \<le> 3"
  using first_epoch_checkpoint [of 3 "0.001" "\<lambda>e. real e"] by simp

end
