(* ===== verification/UnetObject.thy ===== *)
theory UnetObject
  imports Unet Callbacks
begin


text \<open>
  The state of a \<^verbatim>\<open>Unet\<close> object of \<^verbatim>\<open>project2/backend/app/model.py\<close> and the
  methods that change it: \<^verbatim>\<open>__init__\<close> (lines 34-40), \<^verbatim>\<open>compile_model\<close> (88-102),
  \<^verbatim>\<open>train\<close> (107-127), \<^verbatim>\<open>save_model\<close> (129-130), \<^verbatim>\<open>load_model\<close> (132-137),
  \<^verbatim>\<open>compile_and_load_weights\<close> (139-150) and \<^verbatim>\<open>evaluate\<close> (299-312), together with
  the module's import (lines 24-27: the default arguments of \<^verbatim>\<open>save_model\<close> and
  \<^verbatim>\<open>load_model\<close> are computed from \<^verbatim>\<open>MODELS_DIR\<close> when the class is defined).
  The Keras model is a record: its input and output shapes, its compilation (loss,
  optimizer learning rate, metrics) or none, and where its weights come from. The world
  outside the object is a store: the directories that exist, the \<^verbatim>\<open>.keras\<close> files
  written by \<^verbatim>\<open>model.save\<close>, the weight files written by the checkpoint callback, and
  \<^verbatim>\<open>training.log\<close>. A checkpoint file is named by its directory, epoch and loss
  (the pattern \<^verbatim>\<open>model_.{epoch:02d}-{val_loss:.6f}.weights.h5\<close> of line 115); any
  other file is named by its path. A weights file holds the weights and their shapes; the
  shapes of the U-Net's kernels depend only on the input and output channels (every
  other layer width is a constant of \<^verbatim>\<open>build_model\<close>, and no kernel depends on the
  image side), so they are recorded as that pair.
  The framework's numbers (validation losses, evaluation results) are inputs.
\<close>

datatype metric =
    Accuracy | MeanIoU nat | DiceCoef | Precision | Sensitivity | Specificity
  | DiceNecrotic | DiceEdema | DiceEnhancing

datatype fpath = Path string | Ckpt string nat real

datatype weights = Initial | Fitted weights nat

record compiled =
  c_loss :: string
  c_lr :: real
  c_metrics :: "metric list"

record keras_model =
  km_io :: "shape \<times> shape"
  km_compiled :: "compiled option"
  km_weights :: weights

record unet =
  img_size :: nat
  num_classes :: nat
  ker_init :: string
  dropout :: real
  learning_rate :: real
  model :: keras_model

record store =
  st_dirs :: "string set"
  st_models :: "string \<Rightarrow> keras_model option"
  st_weights :: "fpath \<Rightarrow> ((nat \<times> nat) \<times> weights) option"
  st_log :: "(nat \<times> real \<times> real) list"

text \<open>Importing the module: \<^verbatim>\<open>os.path.join(MODELS_DIR, 'my_model.keras')\<close> in the two
  default arguments raises \<^verbatim>\<open>TypeError\<close> when \<^verbatim>\<open>MODELS_DIR\<close> is unset; otherwise
  it gives the default model path.\<close>

definition import_model_module :: "string option \<Rightarrow> py_error + string" where
  "import_model_module models_dir =
     (case models_dir of
        None \<Rightarrow> Inl (TypeError ''expected str, bytes or os.PathLike object, not NoneType'')
      | Some d \<Rightarrow> Inr (path_join d ''my_model.keras''))"

definition unet_init :: "nat \<Rightarrow> nat \<Rightarrow> string \<Rightarrow> real \<Rightarrow> real \<Rightarrow> py_error + unet" where
  "unet_init img_size' num_classes' ker_init' dropout' learning_rate' =
     (case build_model img_size' num_classes' dropout' of
        None \<Rightarrow> Inl (ValueError ''incompatible layer shapes'')
      | Some io \<Rightarrow> Inr \<lparr>img_size = img_size', num_classes = num_classes', ker_init = ker_init',
                        dropout = dropout', learning_rate = learning_rate',
                        model = \<lparr>km_io = io, km_compiled = None, km_weights = Initial\<rparr>\<rparr>)"

definition compile_model_metrics :: "metric list" where
  "compile_model_metrics =
     [Accuracy, MeanIoU 4, DiceCoef, Precision, Sensitivity, Specificity,
      DiceNecrotic, DiceEdema, DiceEnhancing]"

definition compile_model :: "unet \<Rightarrow> string \<Rightarrow> unet" where
  "compile_model u loss =
     u\<lparr>model := (model u)\<lparr>km_compiled :=
        Some \<lparr>c_loss = loss, c_lr = learning_rate u, c_metrics = compile_model_metrics\<rparr>\<rparr>\<rparr>"

text \<open>The shapes of the weights of a model with the given input and output shapes:
  its input and output channels.\<close>

definition weight_signature :: "shape \<times> shape \<Rightarrow> nat \<times> nat" where
  "weight_signature io = (case io of ((_, _, ci), (_, _, co)) \<Rightarrow> (ci, co))"

text \<open>\<^verbatim>\<open>train\<close>: create the checkpoint directory, build the callbacks, evaluate
  \<^verbatim>\<open>len(train_ids)\<close>, then \<^verbatim>\<open>fit\<close>, which needs a compiled model, truncates
  \<^verbatim>\<open>training.log\<close> (\<^verbatim>\<open>append=False\<close>) and runs the epochs. The optimizer keeps
  the learning rate the run ends with. Exceptions leave the effects made before them.\<close>

definition train ::
  "string \<Rightarrow> unet \<times> store \<Rightarrow> nat \<Rightarrow> string list option \<Rightarrow> (nat \<Rightarrow> real) \<Rightarrow>
   py_error option \<times> unet \<times> store" where
  "train models_dir s epochs train_ids val_loss =
     (let (u, st) = s;
          st = (if models_dir \<in> st_dirs st then st else st\<lparr>st_dirs := insert models_dir (st_dirs st)\<rparr>)
      in case train_ids of
           None \<Rightarrow> (Some (TypeError ''object of type 'NoneType' has no len()''), u, st)
         | Some ids \<Rightarrow>
             (case km_compiled (model u) of
                None \<Rightarrow> (Some (ValueError ''You must call compile() before using the model.''), u, st)
              | Some c \<Rightarrow>
                  (let r = fit_epochs (c_lr c) epochs val_loss;
                       saved = fs_saved r
                   in (None,
                       u\<lparr>model := (model u)\<lparr>km_compiled := Some (c\<lparr>c_lr := pl_lr (fs_plateau r)\<rparr>),
                                            km_weights := Fitted (km_weights (model u)) epochs\<rparr>\<rparr>,
                       st\<lparr>st_weights := (\<lambda>p. case p of
                              Ckpt d e v \<Rightarrow> (if d = models_dir \<and> (e, v) \<in> set saved
                                            then Some (weight_signature (km_io (model u)),
                                                       Fitted (km_weights (model u)) e)
                                            else st_weights st p)
                            | _ \<Rightarrow> st_weights st p),
                          st_log := fs_log r\<rparr>))))"

text \<open>\<^verbatim>\<open>model.save\<close> accepts the \<^verbatim>\<open>.keras\<close> and the legacy \<^verbatim>\<open>.h5\<close> and
  \<^verbatim>\<open>.hdf5\<close> formats only.\<close>

definition save_model :: "unet \<times> store \<Rightarrow> string \<Rightarrow> py_error option \<times> unet \<times> store" where
  "save_model s file_path =
     (let (u, st) = s in
      if py_endswith file_path ''.keras'' \<or> py_endswith file_path ''.h5'' \<or> py_endswith file_path ''.hdf5''
      then (None, u, st\<lparr>st_models := (st_models st)(file_path := Some (model u))\<rparr>)
      else (Some (ValueError ''Invalid filepath extension for saving''), u, st))"

text \<open>\<^verbatim>\<open>keras.models.load_model(..., compile=False)\<close>: the loaded model replaces the
  object's model and is not compiled. Keras dispatches on the extension: a missing
  \<^verbatim>\<open>.keras\<close> file raises \<^verbatim>\<open>ValueError\<close>, a missing \<^verbatim>\<open>.h5\<close> or \<^verbatim>\<open>.hdf5\<close>
  file the \<^verbatim>\<open>FileNotFoundError\<close> of \<^verbatim>\<open>h5py.File\<close>, and any other extension
  \<^verbatim>\<open>ValueError\<close> "File format not supported".\<close>

definition load_model :: "unet \<times> store \<Rightarrow> string \<Rightarrow> py_error option \<times> unet \<times> store" where
  "load_model s file_path =
     (let (u, st) = s in
      if py_endswith file_path ''.keras'' \<or> py_endswith file_path ''.h5'' \<or> py_endswith file_path ''.hdf5''
      then (case st_models st file_path of
              None \<Rightarrow> (if py_endswith file_path ''.keras'' then (Some (ValueError ''File not found''), u, st)
                       else (Some (FileNotFoundError ''Unable to open file''), u, st))
            | Some m \<Rightarrow> (None, u\<lparr>model := m\<lparr>km_compiled := None\<rparr>\<rparr>, st))
      else (Some (ValueError ''File format not supported''), u, st))"

text \<open>\<^verbatim>\<open>model.load_weights\<close> reads \<^verbatim>\<open>.keras\<close>, \<^verbatim>\<open>.weights.h5\<close> and legacy
  \<^verbatim>\<open>.h5\<close>/\<^verbatim>\<open>.hdf5\<close> files and raises \<^verbatim>\<open>ValueError\<close> "File format not supported"
  for any other name; checkpoint files end in \<^verbatim>\<open>.weights.h5\<close>. A \<^verbatim>\<open>.keras\<close>
  file, or a legacy file other than \<^verbatim>\<open>.weights.h5\<close>, is a model written by
  \<^verbatim>\<open>model.save\<close> and holds that model's weights; the others are weights files.\<close>

definition load_weights_supported :: "fpath \<Rightarrow> bool" where
  "load_weights_supported p =
     (case p of
        Ckpt _ _ _ \<Rightarrow> True
      | Path f \<Rightarrow> py_endswith f ''.keras'' \<or> py_endswith f ''.h5'' \<or> py_endswith f ''.hdf5'')"

definition weights_file :: "store \<Rightarrow> fpath \<Rightarrow> ((nat \<times> nat) \<times> weights) option" where
  "weights_file st p =
     (case p of
        Path f \<Rightarrow>
          (if py_endswith f ''.keras'' \<or> ((py_endswith f ''.h5'' \<or> py_endswith f ''.hdf5'') \<and> \<not> py_endswith f ''.weights.h5'')
           then map_option (\<lambda>m. (weight_signature (km_io m), km_weights m)) (st_models st f)
           else st_weights st p)
      | _ \<Rightarrow> st_weights st p)"

text \<open>\<^verbatim>\<open>compile_and_load_weights\<close>: compile, then \<^verbatim>\<open>load_weights\<close>, which raises
  on an unsupported name, on a missing file (the \<^verbatim>\<open>FileNotFoundError\<close> of
  \<^verbatim>\<open>h5py\<close> or \<^verbatim>\<open>zipfile\<close>) and on weights whose shapes do not fit the model.\<close>

definition compile_and_load_weights :: "unet \<times> store \<Rightarrow> fpath \<Rightarrow> py_error option \<times> unet \<times> store" where
  "compile_and_load_weights s weights_path =
     (let (u, st) = s;
          u = compile_model u ''categorical_crossentropy''
      in if \<not> load_weights_supported weights_path
         then (Some (ValueError ''File format not supported''), u, st)
         else case weights_file st weights_path of
           None \<Rightarrow> (Some (FileNotFoundError ''weights file''), u, st)
         | Some (sg, w) \<Rightarrow>
             (if sg \<noteq> weight_signature (km_io (model u))
              then (Some (ValueError ''weight shape mismatch''), u, st)
              else (None, u\<lparr>model := (model u)\<lparr>km_weights := w\<rparr>\<rparr>, st)))"

definition evaluate_metrics :: "nat \<Rightarrow> metric list" where
  "evaluate_metrics nc =
     [Accuracy, MeanIoU nc, DiceCoef, Precision, Sensitivity, Specificity,
      DiceNecrotic, DiceEdema, DiceEnhancing]"

definition descriptions :: "string list" where
  "descriptions =
     [''Loss'', ''Accuracy'', ''MeanIOU'', ''Dice coefficient'', ''Precision'', ''Sensitivity'',
      ''Specificity'', ''Dice coef Necrotic'', ''Dice coef Edema'', ''Dice coef Enhancing'']"

text \<open>\<^verbatim>\<open>evaluate\<close>: compile with \<^verbatim>\<open>MeanIoU(num_classes=self.num_classes)\<close>, let
  Keras evaluate (its results are the argument \<open>results\<close>: the loss, then one value
  per metric), and print \<^verbatim>\<open>zip(results, descriptions)\<close>.\<close>

definition evaluate :: "unet \<times> store \<Rightarrow> real list \<Rightarrow> (string \<times> real) list \<times> unet \<times> store" where
  "evaluate s results =
     (let (u, st) = s;
          u = u\<lparr>model := (model u)\<lparr>km_compiled :=
                 Some \<lparr>c_loss = ''categorical_crossentropy'', c_lr = learning_rate u,
                       c_metrics = evaluate_metrics (num_classes u)\<rparr>\<rparr>\<rparr>
      in (map (\<lambda>(m, d). (d, m)) (zip results descriptions), u, st))"

text \<open>The object \<^verbatim>\<open>Unet(16, 4)\<close> right after construction and a file system with
  nothing saved, used by the examples below.\<close>

abbreviation unet16 :: unet where
  "unet16 \<equiv> \<lparr>img_size = 16, num_classes = 4, ker_init = ''he_normal'', dropout = 0.2, learning_rate = 0.001,
          model = \<lparr>km_io = ((16, 16, 2), (16, 16, 4)), km_compiled = None, km_weights = Initial\<rparr>\<rparr>"

abbreviation empty_store :: store where
  "empty_store \<equiv> \<lparr>st_dirs = {}, st_models = (\<lambda>_. None), st_weights = (\<lambda>_. None), st_log = []\<rparr>"

lemma train_ok_compiled:
  "fst (train d s n ids vl) = None \<Longrightarrow> km_compiled (model (fst s)) \<noteq> None \<and>
     km_compiled (model (fst (snd (train d s n ids vl)))) \<noteq> None"
  by (cases s) (auto simp: train_def Let_def split: option.splits)

lemma unet_init_16:
  "unet_init 16 4 ''he_normal'' 0.2 0.001 = Inr unet16"
  by (simp add: unet_init_def build_model_eq)

lemma unet_init_uncompiled:
  "unet_init img nc k dr lr = Inr u \<Longrightarrow> km_compiled (model u) = None \<and> learning_rate u = lr"
  by (auto simp: unet_init_def split: option.splits)

text \<open>C24. \<^verbatim>\<open>train\<close> called with its default \<^verbatim>\<open>train_ids=None\<close> raises
  \<^verbatim>\<open>TypeError\<close> at \<^verbatim>\<open>len(train_ids)\<close>, after it has created the checkpoint
  directory and before anything is fitted.\<close>

theorem train_without_ids_still_creates_dir:
  "train d (u, st) n None vl =
     (Some (TypeError ''object of type 'NoneType' has no len()''), u, st\<lparr>st_dirs := insert d (st_dirs st)\<rparr>)"
  by (simp add: train_def insert_absorb)

text \<open>C22. A model restored by \<^verbatim>\<open>load_model\<close> cannot be trained: it is loaded with
  \<^verbatim>\<open>compile=False\<close>, so the next \<^verbatim>\<open>train\<close> with training ids raises Keras's
  \<^verbatim>\<open>ValueError\<close> asking for \<^verbatim>\<open>compile()\<close>.\<close>

theorem train_after_load_model_fails:
  assumes "fst (load_model s p) = None" and "ids \<noteq> None"
  shows "fst (train d (snd (load_model s p)) n ids vl) = Some (ValueError ''You must call compile() before using the model.'')"
  using assms by (cases s) (auto simp: load_model_def train_def Let_def split: option.splits if_splits)

lemma train_after_load_model_fails_witness:
  "fst (load_model (unet16, empty_store\<lparr>st_models := (\<lambda>_. None)(''m.keras'' := Some (model unet16))\<rparr>) ''m.keras'') = None \<and>
   Some [''a''] \<noteq> None \<and>
   fst (train ''models'' (snd (load_model (unet16, empty_store\<lparr>st_models := (\<lambda>_. None)(''m.keras'' := Some (model unet16))\<rparr>) ''m.keras''))
      1 (Some [''a'']) (\<lambda>e. 1)) = Some (ValueError ''You must call compile() before using the model.'')"
proof -
  have l: "fst (load_model (unet16, empty_store\<lparr>st_models := (\<lambda>_. None)(''m.keras'' := Some (model unet16))\<rparr>) ''m.keras'') = None"
    by (simp add: load_model_def py_endswith_def)
  have i: "Some [''a''] \<noteq> None" by simp
  from train_after_load_model_fails [OF l i] l i show ?thesis by blast
qed

lemma train_ok_weights:
  assumes "train d (u, st) n ids vl = (None, u', st')"
  shows "\<exists>c. \<forall>e v. st_weights st' (Ckpt d e v) =
           (if (e, v) \<in> set (fs_saved (fit_epochs c n vl))
            then Some (weight_signature (km_io (model u)), Fitted (km_weights (model u)) e)
            else st_weights st (Ckpt d e v))"
  using assms by (auto simp: train_def Let_def split: option.splits if_splits)

lemma train_ckpt_weights:
  assumes "train d (u, st) n ids vl = (None, u', st')" and "e < n" and "new_best vl e"
  shows "st_weights st' (Ckpt d (Suc e) (vl e)) =
           Some (weight_signature (km_io (model u)), Fitted (km_weights (model u)) (Suc e))"
proof -
  from train_ok_weights [OF assms(1)] obtain c where
    w: "\<And>e v. st_weights st' (Ckpt d e v) =
           (if (e, v) \<in> set (fs_saved (fit_epochs c n vl))
            then Some (weight_signature (km_io (model u)), Fitted (km_weights (model u)) e)
            else st_weights st (Ckpt d e v))"
    by blast
  have "(Suc e, vl e) \<in> set (fs_saved (fit_epochs c n vl))"
    using ckpt_invariant [of c n vl] assms(2,3) by auto
  then show ?thesis by (simp add: w)
qed

lemma train_ok_io:
  "train d (u, st) n ids vl = (None, u', st') \<Longrightarrow> km_io (model u') = km_io (model u) \<and> img_size u' = img_size u"
  by (auto simp: train_def Let_def split: option.splits)

lemma compile_and_load_weights_state:
  assumes "compile_and_load_weights (u, st) p = (r, s')"
  obtains w where "s' = ((compile_model u ''categorical_crossentropy'')\<lparr>model :=
                     (model (compile_model u ''categorical_crossentropy''))\<lparr>km_weights := w\<rparr>\<rparr>, st)"
proof (cases "\<exists>sg w. load_weights_supported p \<and> weights_file st p = Some (sg, w) \<and>
                     sg = weight_signature (km_io (model u))")
  case True
  then obtain sg w where "load_weights_supported p" "weights_file st p = Some (sg, w)"
      "sg = weight_signature (km_io (model u))" by blast
  with assms that [of w] show ?thesis
    by (simp add: compile_and_load_weights_def compile_model_def Let_def)
next
  case False
  with assms that [of "km_weights (model u)"] show ?thesis
    by (auto simp: compile_and_load_weights_def compile_model_def Let_def split: if_splits option.splits)
qed

text \<open>C25. Every checkpoint \<^verbatim>\<open>train\<close> promises can be loaded: after a completed
  \<^verbatim>\<open>train\<close>, for every epoch \<open>e\<close> whose validation loss was a strict new minimum,
  \<^verbatim>\<open>compile_and_load_weights\<close> on the file named after \<open>e + 1\<close> and that loss
  succeeds and installs the weights fitted up to that epoch into a compiled model.\<close>

theorem train_checkpoint_loadable:
  assumes "train d (u, st) n ids vl = (None, u', st')" and "e < n" and "new_best vl e"
  shows "compile_and_load_weights (u', st') (Ckpt d (Suc e) (vl e)) =
           (None, (compile_model u' ''categorical_crossentropy'')\<lparr>model :=
                    (model (compile_model u' ''categorical_crossentropy''))\<lparr>km_weights := Fitted (km_weights (model u)) (Suc e)\<rparr>\<rparr>,
            st')"
  using train_ckpt_weights [OF assms] train_ok_io [OF assms(1)]
  by (simp add: compile_and_load_weights_def load_weights_supported_def weights_file_def
                compile_model_def Let_def)

lemma train_checkpoint_loadable_witness:
  "\<exists>u' st'. train ''models'' (compile_model unet16 ''categorical_crossentropy'', empty_store)
        2 (Some [''a'']) (\<lambda>e. 1) = (None, u', st') \<and> (0::nat) < 2 \<and> new_best (\<lambda>e. 1) 0 \<and>
     compile_and_load_weights (u', st') (Ckpt ''models'' 1 1) =
       (None, (compile_model u' ''categorical_crossentropy'')\<lparr>model :=
                (model (compile_model u' ''categorical_crossentropy''))\<lparr>km_weights := Fitted Initial 1\<rparr>\<rparr>, st')"
proof -
  obtain u' st' where t: "train ''models'' (compile_model unet16 ''categorical_crossentropy'', empty_store)
        2 (Some [''a'']) (\<lambda>e. 1) = (None, u', st')"
    by (simp add: train_def compile_model_def Let_def)
  have e: "(0::nat) < 2" and b: "new_best (\<lambda>e. 1) 0" by (simp_all add: new_best_def)
  from train_checkpoint_loadable [OF t e b] t e b show ?thesis by (simp add: compile_model_def)
qed

text \<open>C35. Recompiling forgets the schedule: after a completed \<^verbatim>\<open>train\<close>, in
  which \<^verbatim>\<open>ReduceLROnPlateau\<close> may have lowered the optimizer's rate,
  \<^verbatim>\<open>evaluate\<close> and \<^verbatim>\<open>compile_and_load_weights\<close> compile a fresh Adam optimizer
  at the constructor's \<^verbatim>\<open>learning_rate\<close>, so a later \<^verbatim>\<open>train\<close> restarts
  from the full rate.\<close>

theorem recompile_resets_learning_rate:
  assumes "train d s n ids vl = (None, s1)"
  shows "c_lr (the (km_compiled (model (fst (snd (evaluate s1 r)))))) = learning_rate (fst s) \<and>
         c_lr (the (km_compiled (model (fst (snd (compile_and_load_weights s1 p)))))) = learning_rate (fst s)"
proof -
  have "learning_rate (fst s1) = learning_rate (fst s)"
    using assms by (cases s) (auto simp: train_def Let_def split: option.splits)
  then show ?thesis
    by (cases s1) (simp add: evaluate_def compile_and_load_weights_def compile_model_def Let_def
                        split: option.splits prod.splits)
qed

lemma recompile_resets_learning_rate_witness:
  "\<exists>s1. train ''models'' (compile_model unet16 ''categorical_crossentropy'', empty_store) 5 (Some [''a'']) (\<lambda>e. 1) = (None, s1) \<and>
     c_lr (the (km_compiled (model (fst s1)))) = max (0.001 * 0.2 ^ 2) 0.000001 \<and>
     c_lr (the (km_compiled (model (fst (snd (evaluate s1 [])))))) = 0.001 \<and>
     c_lr (the (km_compiled (model (fst (snd (compile_and_load_weights s1 (Ckpt ''models'' 1 1))))))) = 0.001"
proof -
  have m: "min_lr train_plateau_cfg \<le> 0.001" by (simp add: train_plateau_cfg_def)
  have st: "stalled (\<lambda>e. 1) 4" by (simp add: stalled_def train_plateau_cfg_def list_all_iff)
  have lr: "pl_lr (fs_plateau (fit_epochs 0.001 5 (\<lambda>e. 1))) = max (0.001 * 0.2 ^ 2) 0.000001"
    using fit_stalled [OF m st] by (simp add: train_plateau_cfg_def)
  obtain s1 where t: "train ''models'' (compile_model unet16 ''categorical_crossentropy'', empty_store) 5 (Some [''a'']) (\<lambda>e. 1) = (None, s1)"
    and c: "c_lr (the (km_compiled (model (fst s1)))) = pl_lr (fs_plateau (fit_epochs 0.001 5 (\<lambda>e. 1)))"
    by (simp add: train_def compile_model_def Let_def)
  from recompile_resets_learning_rate [OF t, of "[]" "Ckpt ''models'' 1 1"] t c lr show ?thesis
    by (simp add: compile_model_def)
qed



end
