(* ===== verification/UnetScripts.thy ===== *)
theory UnetScripts
  imports UnetObject
begin

text \<open>
  Scripts of method calls on one \<^verbatim>\<open>Unet\<close> object of
  \<^verbatim>\<open>project2/backend/app/model.py\<close>: the datatype \<open>op\<close> of the state-changing
  methods, \<open>step\<close> dispatching one call to its definition in \<open>UnetObject\<close>, and
  \<open>run\<close> executing a list of calls until the first exception (whose effects persist).
  Properties of the object are proved once per method and lifted to every script: the
  compile-before-train discipline (C20) and the number of classes the compiled mean-IoU
  metric counts (C23), each computed from the calls alone by \<open>compiled_after\<close> and
  \<open>iou_after\<close>. The inductive \<open>unet_reachable\<close> adds the sessions that catch an
  exception and go on; its invariant, the learning-rate bounds (C21), is proved by rule
  induction.
\<close>

text \<open>A script calling the methods in sequence; an exception ends it.\<close>

datatype op =
    CompileModel string
  | Train nat "string list option" "nat \<Rightarrow> real"
  | SaveModel string
  | LoadModel string
  | CompileAndLoadWeights fpath
  | Evaluate "real list"

fun step :: "string \<Rightarrow> unet \<times> store \<Rightarrow> op \<Rightarrow> py_error option \<times> unet \<times> store" where
  "step d s (CompileModel loss) = (None, compile_model (fst s) loss, snd s)"
| "step d s (Train n ids vl) = train d s n ids vl"
| "step d s (SaveModel p) = save_model s p"
| "step d s (LoadModel p) = load_model s p"
| "step d s (CompileAndLoadWeights p) = compile_and_load_weights s p"
| "step d s (Evaluate r) = (None, snd (evaluate s r))"

fun run :: "string \<Rightarrow> unet \<times> store \<Rightarrow> op list \<Rightarrow> py_error option \<times> unet \<times> store" where
  "run d s [] = (None, s)"
| "run d s (x # xs) = (case step d s x of (Some e, s') \<Rightarrow> (Some e, s') | (None, s') \<Rightarrow> run d s' xs)"

text \<open>Whether the model is compiled after a sequence of calls, from the calls alone:
  the three compiling methods compile it, \<^verbatim>\<open>load_model\<close> replaces it by an uncompiled
  one.\<close>

fun compiled_after :: "bool \<Rightarrow> op list \<Rightarrow> bool" where
  "compiled_after c [] = c"
| "compiled_after c (CompileModel _ # xs) = compiled_after True xs"
| "compiled_after c (CompileAndLoadWeights _ # xs) = compiled_after True xs"
| "compiled_after c (Evaluate _ # xs) = compiled_after True xs"
| "compiled_after c (LoadModel _ # xs) = compiled_after False xs"
| "compiled_after c (_ # xs) = compiled_after c xs"

text \<open>The learning-rate invariant of the object: a compiled model's optimizer learning rate
  is one the plateau schedule of \<^verbatim>\<open>train\<close> can reach from the rate the object was
  built with.\<close>

definition lr_inv :: "unet \<Rightarrow> bool" where
  "lr_inv u = (case km_compiled (model u) of None \<Rightarrow> True
                | Some c \<Rightarrow> lr_reachable train_plateau_cfg (learning_rate u) (c_lr c))"
text \<open>The states a notebook session can bring the object to: a freshly constructed
  \<^verbatim>\<open>Unet\<close> with any file system, then any method call, whether it returns or raises
  (a caller may catch the exception and go on).\<close>

inductive unet_reachable :: "string \<Rightarrow> unet \<times> store \<Rightarrow> bool" for d :: string where
  init: "unet_init img nc k dr lr = Inr u \<Longrightarrow> unet_reachable d (u, st)"
| call: "unet_reachable d s \<Longrightarrow> step d s x = (r, s') \<Longrightarrow> unet_reachable d s'"

text \<open>The number of classes of the compiled \<^verbatim>\<open>MeanIoU\<close> metric of the object's
  model (its first \<^verbatim>\<open>MeanIoU\<close> entry), or none when the model is not compiled with
  one.\<close>

fun iou_metric :: "metric \<Rightarrow> nat option" where
  "iou_metric (MeanIoU n) = Some n"
| "iou_metric _ = None"

definition meaniou_classes :: "unet \<Rightarrow> nat option" where
  "meaniou_classes u = (case km_compiled (model u) of None \<Rightarrow> None
     | Some c \<Rightarrow> (case List.map_filter iou_metric (c_metrics c) of [] \<Rightarrow> None | n # _ \<Rightarrow> Some n))"

text \<open>The same from the calls alone: \<^verbatim>\<open>compile_model\<close> and
  \<^verbatim>\<open>compile_and_load_weights\<close> compile \<^verbatim>\<open>MeanIoU(num_classes=4)\<close>,
  \<^verbatim>\<open>evaluate\<close> \<^verbatim>\<open>MeanIoU(num_classes=self.num_classes)\<close>, \<^verbatim>\<open>load_model\<close>
  leaves the model uncompiled, and the other calls keep the compilation.\<close>

fun iou_after :: "nat \<Rightarrow> nat option \<Rightarrow> op list \<Rightarrow> nat option" where
  "iou_after nc m [] = m"
| "iou_after nc m (CompileModel _ # xs) = iou_after nc (Some 4) xs"
| "iou_after nc m (CompileAndLoadWeights _ # xs) = iou_after nc (Some 4) xs"
| "iou_after nc m (Evaluate _ # xs) = iou_after nc (Some nc) xs"
| "iou_after nc m (LoadModel _ # xs) = iou_after nc None xs"
| "iou_after nc m (_ # xs) = iou_after nc m xs"

lemma run_preserves:
  assumes step: "\<And>s x r s'. I s \<Longrightarrow> step d s x = (r, s') \<Longrightarrow> I s'"
  shows "I s \<Longrightarrow> run d s xs = (r, s') \<Longrightarrow> I s'"
proof (induction xs arbitrary: s)
  case Nil
  then show ?case by simp
next
  case (Cons x xs)
  obtain r1 s1 where s1: "step d s x = (r1, s1)" by (cases "step d s x") auto
  from step [OF Cons.prems(1) s1] have i: "I s1" .
  show ?case
  proof (cases r1)
    case None
    with Cons.prems(2) s1 have "run d s1 xs = (r, s')" by simp
    from Cons.IH [OF i this] show ?thesis .
  next
    case (Some e)
    with Cons.prems(2) s1 i show ?thesis by simp
  qed
qed

lemma run_reachable:
  "unet_reachable d s \<Longrightarrow> run d s xs = (r, s') \<Longrightarrow> unet_reachable d s'"
  by (rule run_preserves [of "unet_reachable d" d]) (rule unet_reachable.call)

lemma run_append:
  "run d s (xs @ ys) = (case run d s xs of (Some e, s') \<Rightarrow> (Some e, s') | (None, s') \<Rightarrow> run d s' ys)"
  by (induction xs arbitrary: s) (auto split: prod.splits option.splits)

lemma compile_and_load_weights_state_fst:
  assumes "compile_and_load_weights s p = (r, s')"
  obtains w where "s' = ((compile_model (fst s) ''categorical_crossentropy'')\<lparr>model :=
                     (model (compile_model (fst s) ''categorical_crossentropy''))\<lparr>km_weights := w\<rparr>\<rparr>, snd s)"
  using assms by (cases s) (auto elim: compile_and_load_weights_state)

lemma compiled_after_Cons:
  "compiled_after c (x # xs) = compiled_after (compiled_after c [x]) xs"
  by (cases x) simp_all

lemma step_ok_compiled:
  assumes "step d s x = (None, s')"
  shows "(km_compiled (model (fst s')) \<noteq> None) = compiled_after (km_compiled (model (fst s)) \<noteq> None) [x]"
proof (cases x)
  case (Train n ids vl)
  with assms train_ok_compiled [of d s n ids vl] show ?thesis by auto
qed (use assms in \<open>auto simp: compile_model_def save_model_def load_model_def compile_and_load_weights_def
      evaluate_def Let_def split: prod.splits if_splits option.splits\<close>)

lemma run_ok_compiled:
  "run d s xs = (None, s') \<Longrightarrow>
   (km_compiled (model (fst s')) \<noteq> None) = compiled_after (km_compiled (model (fst s)) \<noteq> None) xs"
proof (induction xs arbitrary: s)
  case Nil
  then show ?case by simp
next
  case (Cons x xs)
  then obtain s1 where s1: "step d s x = (None, s1)" and r: "run d s1 xs = (None, s')"
    by (auto split: prod.splits option.splits)
  from Cons.IH [OF r] step_ok_compiled [OF s1] show ?case
    by (simp add: compiled_after_Cons [of _ x xs])
qed

text \<open>C20. \<^verbatim>\<open>train\<close> runs only after a compile: in any sequence of method calls on
  a freshly constructed \<^verbatim>\<open>Unet\<close> that ends in a \<^verbatim>\<open>train\<close> call completing without
  an exception, one of \<^verbatim>\<open>compile_model\<close>, \<^verbatim>\<open>compile_and_load_weights\<close> or
  \<^verbatim>\<open>evaluate\<close> was called after the last \<^verbatim>\<open>load_model\<close>.\<close>

theorem train_requires_compile_since_load:
  assumes "unet_init img nc k dr lr = Inr u"
    and "fst (run d (u, st) (xs @ [Train n ids vl])) = None"
  shows "compiled_after False xs"
proof -
  from assms(2) obtain s1 where r1: "run d (u, st) xs = (None, s1)"
      and t: "fst (train d s1 n ids vl) = None"
    by (auto simp: run_append split: prod.splits option.splits)
  from t have "km_compiled (model (fst s1)) \<noteq> None" by (simp add: train_ok_compiled)
  with run_ok_compiled [OF r1] unet_init_uncompiled [OF assms(1)] show ?thesis by simp
qed

lemma train_requires_compile_since_load_witness:
  "\<exists>u. unet_init 16 4 ''he_normal'' 0.2 0.001 = Inr u \<and>
     fst (run ''models'' (u, empty_store)
        ([CompileModel ''categorical_crossentropy''] @ [Train 2 (Some [''BraTS20_Training_001'']) (\<lambda>e. 1)])) = None \<and>
     compiled_after False [CompileModel ''categorical_crossentropy'']"
proof -
  have r: "fst (run ''models'' (unet16, empty_store)
        ([CompileModel ''categorical_crossentropy''] @ [Train 2 (Some [''BraTS20_Training_001'']) (\<lambda>e. 1)])) = None"
    by (simp add: compile_model_def train_def Let_def)
  from train_requires_compile_since_load [OF unet_init_16 r] r unet_init_16 show ?thesis by auto
qed

lemma lr_reachable_refl:
  "min_lr cfg \<le> lr \<Longrightarrow> lr_reachable cfg lr lr"
  unfolding lr_reachable_def by (rule exI [of _ 0]) simp

lemma lr_inv_compile:
  "min_lr train_plateau_cfg \<le> learning_rate u \<Longrightarrow> lr_inv (compile_model u l)"
  by (simp add: lr_inv_def compile_model_def lr_reachable_refl)

lemma train_lr_inv:
  assumes lr: "min_lr train_plateau_cfg \<le> learning_rate (fst s)" and inv: "lr_inv (fst s)"
  shows "lr_inv (fst (snd (train d s n ids vl))) \<and>
         learning_rate (fst (snd (train d s n ids vl))) = learning_rate (fst s)"
proof (cases "\<exists>i c. ids = Some i \<and> km_compiled (model (fst s)) = Some c")
  case True
  then obtain i c where i: "ids = Some i" and c: "km_compiled (model (fst s)) = Some c" by blast
  from inv c have r: "lr_reachable train_plateau_cfg (learning_rate (fst s)) (c_lr c)"
    by (simp add: lr_inv_def)
  then have "min_lr train_plateau_cfg \<le> c_lr c"
    using lr_reachable_bounds [OF train_plateau_cfg_sane r lr] by simp
  then have "lr_reachable train_plateau_cfg (c_lr c) (pl_lr (fs_plateau (fit_epochs (c_lr c) n vl)))"
    by (rule fit_epochs_lr_reachable)
  with r have "lr_reachable train_plateau_cfg (learning_rate (fst s)) (pl_lr (fs_plateau (fit_epochs (c_lr c) n vl)))"
    by (rule lr_reachable_trans [OF train_plateau_cfg_sane])
  then show ?thesis using i c
    by (cases s) (simp add: train_def lr_inv_def Let_def)
next
  case False
  then show ?thesis using inv
    by (cases s) (auto simp: train_def Let_def split: option.splits)
qed

lemma step_lr_inv:
  assumes lr: "min_lr train_plateau_cfg \<le> learning_rate (fst s)" and inv: "lr_inv (fst s)"
    and st: "step d s x = (r, s')"
  shows "lr_inv (fst s') \<and> learning_rate (fst s') = learning_rate (fst s)"
proof (cases x)
  case (Train n ids vl)
  with st train_lr_inv [OF lr inv, of d n ids vl] show ?thesis by simp
next
  case (CompileModel l)
  with st have "s' = (compile_model (fst s) l, snd s)" by simp
  with lr show ?thesis by (simp add: lr_inv_compile) (simp add: compile_model_def)
next
  case (CompileAndLoadWeights p)
  with st obtain w where "s' = ((compile_model (fst s) ''categorical_crossentropy'')\<lparr>model :=
      (model (compile_model (fst s) ''categorical_crossentropy''))\<lparr>km_weights := w\<rparr>\<rparr>, snd s)"
    by (auto elim: compile_and_load_weights_state_fst)
  with lr show ?thesis by (simp add: compile_model_def lr_inv_def lr_reachable_refl)
next
  case (Evaluate res)
  with st lr show ?thesis
    by (cases s) (auto simp: evaluate_def lr_inv_def lr_reachable_refl Let_def)
next
  case (SaveModel p)
  with st inv show ?thesis by (cases s) (auto simp: save_model_def Let_def split: if_splits)
next
  case (LoadModel p)
  with st inv show ?thesis
    by (cases s) (auto simp: load_model_def lr_inv_def Let_def split: option.splits if_splits)
qed

lemma step_learning_rate:
  "step d s x = (r, s') \<Longrightarrow> learning_rate (fst s') = learning_rate (fst s)"
proof (cases x)
  case (Train n ids vl)
  then show "step d s x = (r, s') \<Longrightarrow> ?thesis"
    by (cases s) (auto simp: train_def Let_def split: option.splits)
next
  case (CompileAndLoadWeights p)
  then show "step d s x = (r, s') \<Longrightarrow> ?thesis"
    by (auto simp: compile_model_def elim: compile_and_load_weights_state_fst)
qed (cases s; auto simp: compile_model_def save_model_def load_model_def
       evaluate_def Let_def split: if_splits option.splits)+

lemma reachable_lr_inv:
  "unet_reachable d s \<Longrightarrow> min_lr train_plateau_cfg \<le> learning_rate (fst s) \<Longrightarrow> lr_inv (fst s)"
proof (induction rule: unet_reachable.induct)
  case (init img nc k dr lr u st)
  then show ?case by (simp add: lr_inv_def unet_init_uncompiled)
next
  case (call s x r s')
  from step_learning_rate [OF call.hyps(2)] call.prems
  have m: "min_lr train_plateau_cfg \<le> learning_rate (fst s)" by simp
  from step_lr_inv [OF m call.IH [OF m] call.hyps(2)] show ?case by simp
qed

text \<open>C21. The learning rate stays within the schedule's bounds: in every state a
  session can reach, exceptions caught or not, an object whose constructor's learning rate is
  at least \<^verbatim>\<open>min_lr = 0.000001\<close> has a compiled model (if any) whose optimizer rate
  lies between \<^verbatim>\<open>min_lr\<close> and the constructor's rate.\<close>

theorem learning_rate_bounds:
  assumes "unet_reachable d (u, st)" and "0.000001 \<le> learning_rate u"
    and "km_compiled (model u) = Some c"
  shows "0.000001 \<le> c_lr c \<and> c_lr c \<le> learning_rate u"
proof -
  have m: "min_lr train_plateau_cfg \<le> learning_rate u" using assms(2) by (simp add: train_plateau_cfg_def)
  from reachable_lr_inv [OF assms(1)] m assms(3)
  have "lr_reachable train_plateau_cfg (learning_rate u) (c_lr c)" by (simp add: lr_inv_def)
  from lr_reachable_bounds [OF train_plateau_cfg_sane this] m show ?thesis
    by (simp add: train_plateau_cfg_def)
qed

lemma learning_rate_bounds_witness:
  "\<exists>u' st' c. unet_reachable ''models'' (u', st') \<and> (0.000001::real) \<le> learning_rate u' \<and>
     km_compiled (model u') = Some c \<and> 0.000001 \<le> c_lr c \<and> c_lr c \<le> 0.001"
proof -
  obtain u' st' where r: "run ''models'' (unet16, empty_store)
        [CompileModel ''categorical_crossentropy'', Train 3 (Some [''a'']) (\<lambda>e. 1)] = (None, (u', st'))"
    and c: "km_compiled (model u') = Some \<lparr>c_loss = ''categorical_crossentropy'',
        c_lr = pl_lr (fs_plateau (fit_epochs 0.001 3 (\<lambda>e. 1))), c_metrics = compile_model_metrics\<rparr>"
    and l: "learning_rate u' = 0.001"
    by (simp add: compile_model_def train_def Let_def)
  have r0: "unet_reachable ''models'' (unet16, empty_store)" by (rule unet_reachable.init [OF unet_init_16])
  have re: "unet_reachable ''models'' (u', st')" by (rule run_reachable [OF r0 r])
  have h: "(0.000001::real) \<le> learning_rate u'" using l by simp
  from learning_rate_bounds [OF re h c] re h c l show ?thesis by auto
qed

lemma iou_after_Cons:
  "iou_after nc m (x # xs) = iou_after nc (iou_after nc m [x]) xs"
  by (cases x) simp_all

lemma step_ok_meaniou:
  assumes "step d s x = (None, s')"
  shows "num_classes (fst s') = num_classes (fst s) \<and>
         meaniou_classes (fst s') = iou_after (num_classes (fst s)) (meaniou_classes (fst s)) [x]"
proof (cases x)
  case (Train n ids vl)
  with assms show ?thesis
    by (cases s) (auto simp: train_def meaniou_classes_def Let_def split: option.splits)
next
  case (CompileModel l)
  with assms show ?thesis
    by (auto simp: meaniou_classes_def compile_model_def compile_model_metrics_def map_filter_simps)
next
  case (CompileAndLoadWeights p)
  with assms obtain w where "s' = ((compile_model (fst s) ''categorical_crossentropy'')\<lparr>model :=
      (model (compile_model (fst s) ''categorical_crossentropy''))\<lparr>km_weights := w\<rparr>\<rparr>, snd s)"
    by (auto elim: compile_and_load_weights_state_fst)
  with CompileAndLoadWeights show ?thesis
    by (simp add: meaniou_classes_def compile_model_def compile_model_metrics_def map_filter_simps)
next
  case (Evaluate r)
  with assms show ?thesis
    by (cases s) (auto simp: evaluate_def meaniou_classes_def evaluate_metrics_def map_filter_simps)
qed (use assms in \<open>auto simp: save_model_def load_model_def meaniou_classes_def Let_def
      split: prod.splits if_splits option.splits\<close>)

text \<open>C23. The IoU the model measures follows the calls exactly: after any sequence of
  method calls that completes without an exception, the compiled model's
  \<^verbatim>\<open>MeanIoU\<close> counts 4 classes if the last compiling call was
  \<^verbatim>\<open>compile_model\<close> or \<^verbatim>\<open>compile_and_load_weights\<close>, the object's
  \<^verbatim>\<open>num_classes\<close> if it was \<^verbatim>\<open>evaluate\<close>, and there is none after a
  \<^verbatim>\<open>load_model\<close>; so for a model whose class count is not 4 the metric reported
  during training differs from the one of the evaluation.\<close>

theorem script_meaniou_classes:
  "run d s xs = (None, s') \<Longrightarrow>
   meaniou_classes (fst s') = iou_after (num_classes (fst s)) (meaniou_classes (fst s)) xs"
proof (induction xs arbitrary: s)
  case Nil
  then show ?case by simp
next
  case (Cons x xs)
  then obtain s1 where s1: "step d s x = (None, s1)" and r: "run d s1 xs = (None, s')"
    by (auto split: prod.splits option.splits)
  from Cons.IH [OF r] step_ok_meaniou [OF s1] show ?case
    by (simp add: iou_after_Cons [of _ _ x xs])
qed

lemma script_meaniou_classes_witness:
  "run ''models'' (unet16\<lparr>num_classes := 3\<rparr>, empty_store)
      [CompileModel ''categorical_crossentropy'', Evaluate []] =
     (None, snd (evaluate (compile_model (unet16\<lparr>num_classes := 3\<rparr>) ''categorical_crossentropy'', empty_store) [])) \<and>
   meaniou_classes (compile_model (unet16\<lparr>num_classes := 3\<rparr>) ''categorical_crossentropy'') = Some 4 \<and>
   meaniou_classes (fst (snd (evaluate (compile_model (unet16\<lparr>num_classes := 3\<rparr>) ''categorical_crossentropy'', empty_store) []))) = Some 3"
proof -
  let ?u = "unet16\<lparr>num_classes := 3\<rparr>"
  have r: "run ''models'' (?u, empty_store) [CompileModel ''categorical_crossentropy'', Evaluate []] =
     (None, snd (evaluate (compile_model ?u ''categorical_crossentropy'', empty_store) []))" by simp
  have c: "run ''models'' (?u, empty_store) [CompileModel ''categorical_crossentropy''] =
     (None, compile_model ?u ''categorical_crossentropy'', empty_store)" by simp
  have m0: "meaniou_classes ?u = None" by (simp add: meaniou_classes_def)
  from script_meaniou_classes [OF r] script_meaniou_classes [OF c] r m0 show ?thesis by simp
qed

end
