(* ===== verification/Spec2Isabelle.thy ===== *)
theory Spec2Isabelle
  imports Security DataPipeline UnetScripts
begin

text \<open>
  \<^bold>\<open>A verification development of aurette2/mlopsprojectgroup3.\<close>

  The repository holds two applications that share nothing but the repository.
  \<^descr>[Report gateway] \<^verbatim>\<open>src/project1/backend/app/controller.py\<close>: a FastAPI service
    that authenticates users against an in-memory table, issues HS256 JSON Web Tokens
    (\<^verbatim>\<open>POST /token\<close>), and gates three endpoints with them:
    \<^verbatim>\<open>POST /generate_report/\<close> (any valid token; forwards the image to a BLIP model),
    \<^verbatim>\<open>GET /show_drift\<close> (admin role only) and \<^verbatim>\<open>POST /vqa\<close> (token extracted but
    never checked).
  \<^descr>[Segmentation model] \<^verbatim>\<open>src/project2/backend/app/model.py\<close>: the class
    \<^verbatim>\<open>Unet\<close>, a Keras U-Net for BraTS brain-tumour segmentation with its build,
    compile, train, evaluate, load and predict methods, which delegate to Keras, nibabel
    and OpenCV.

  \<^bold>\<open>Theories.\<close>
  \<^descr>[Prelude] the shared vocabulary: timestamps, the Python exceptions of the model code,
    the Python built-ins used (\<^verbatim>\<open>str.lower\<close>, \<^verbatim>\<open>str.partition\<close>, slicing,
    \<^verbatim>\<open>os.path.join\<close>), lemmas on association lists (Python dicts), halving and
    divisibility facts, and the collection \<open>model_simps\<close>.
  \<^descr>[Jwt] the part of PyJWT the gateway calls, modelled from its documented behaviour
    (the library is not in the repository): payloads as association lists, signatures
    idealised as the key that made them, and \<open>jwt_encode\<close> / \<open>jwt_decode\<close> with
    PyJWT's checks in PyJWT's order (format, algorithm, key, signature, expiry).
  \<^descr>[Auth] controller.py lines 22-74: \<open>ALGORITHM\<close>, \<open>ACCESS_TOKEN_EXPIRE_MINUTES\<close>,
    \<open>users_db\<close>, \<open>verify_password\<close>, \<open>authenticate_user\<close>,
    \<open>create_access_token\<close>, \<open>decode_token\<close>. passlib's bcrypt \<open>pwd_verify\<close>
    raises \<^verbatim>\<open>ValueError\<close> for a password of more than
    \<open>MAX_PASSWORD_SIZE\<close> = 4096 characters or one holding a NUL, before it compares;
    \<open>authenticate_user\<close> therefore returns \<open>py_error + user option\<close>. The environment variable
    \<^verbatim>\<open>SECRET_KEY\<close> is a parameter \<open>key :: string option\<close> (\<open>None\<close>: unset) and
    the clock a parameter \<open>now\<close> (whole UTC seconds, as PyJWT compares them).
  \<^descr>[Gateway] controller.py lines 81-140: the endpoints \<open>get_hello\<close>, \<open>login\<close>,
    \<open>generate_report\<close>, \<open>show_drift\<close>, \<open>question_image\<close>, FastAPI's bearer
    dependency \<open>oauth2_scheme\<close>, and the router \<open>handle\<close> over a \<open>request\<close>
    datatype. Each endpoint returns \<open>http_error + 'r body\<close>: an \<^verbatim>\<open>HTTPException\<close>
    or an uncaught exception (status 500) on the left, the JSON body on the right. The
    image decoder and the BLIP model are fields of the \<open>service\<close> record, arbitrary
    functions: every theorem holds for all of them.
  \<^descr>[Security] an outsider who knows some passwords and holds tokens from replayed
    logins, from signing with any other key, or malformed ones (\<open>attacker_token\<close>,
    an inductive definition in the style of the HOL/Auth protocol models).
  \<^descr>[Unet] model.py lines 42-86: \<open>build_model\<close> as the shape computation Keras
    performs when the functional graph is built, one monadic step per layer call, and
    its specification \<open>unet_spec\<close>.
  \<^descr>[DataPipeline] model.py lines 29-31 and 153-262: \<open>imageLoader\<close>,
    \<open>loadDataFromDir\<close>, \<open>predictByPath\<close>, \<open>predict_segmentation\<close>, and
    \<open>showPredictsById\<close> and \<open>show_predicted_segmentations\<close> up to their plots. nibabel, \<^verbatim>\<open>cv2.resize\<close>,
    \<^verbatim>\<open>glob\<close>, Keras \<^verbatim>\<open>predict\<close> and \<^verbatim>\<open>DATASET_BASE_PATH\<close> are the fields of
    the \<open>data_env\<close> record; the slice loops are the Prelude's \<open>py_for\<close> (a Python
    \<^verbatim>\<open>for\<close> loop whose body may raise); \<^verbatim>\<open>np.empty\<close> contents are an
    arbitrary argument \<open>junk\<close>; attribute lookups on \<open>self\<close> go through
    \<open>getattr_unet\<close>, which raises \<^verbatim>\<open>AttributeError\<close> for names the class lacks.
  \<^descr>[Callbacks] the epoch loop of \<^verbatim>\<open>model.fit\<close> in \<^verbatim>\<open>Unet.train\<close> with the
    callbacks of lines 113-117: \<^verbatim>\<open>ReduceLROnPlateau\<close> (\<open>plateau_step\<close>, from
    Keras's \<^verbatim>\<open>on_epoch_end\<close>), \<^verbatim>\<open>ModelCheckpoint\<close> with
    \<^verbatim>\<open>save_best_only\<close> and \<^verbatim>\<open>CSVLogger\<close>, one \<open>epoch_end\<close> per epoch,
    \<open>fit_epochs\<close> their fold over the epochs; validation losses are an input.
  \<^descr>[UnetObject] the \<^verbatim>\<open>Unet\<close> object (model.py lines 24-40, 88-150, 299-312):
    its attributes and Keras model as records, the file system as a \<open>store\<close>
    record, one definition per state-changing method (\<open>unet_init\<close>,
    \<open>compile_model\<close>, \<open>train\<close>, \<open>save_model\<close>, \<open>load_model\<close>,
    \<open>compile_and_load_weights\<close>, \<open>evaluate\<close>) returning
    \<open>py_error option \<times> unet \<times> store\<close> so that the effects made before an
    exception persist. Keras's file handling is modelled by extension, as Keras
    dispatches: \<open>save_model\<close> writes \<^verbatim>\<open>.keras\<close>, \<^verbatim>\<open>.h5\<close> and
    \<^verbatim>\<open>.hdf5\<close> only; \<open>load_model\<close> raises \<^verbatim>\<open>ValueError\<close> for a missing
    \<^verbatim>\<open>.keras\<close> file, \<^verbatim>\<open>FileNotFoundError\<close> for a missing legacy file and
    \<^verbatim>\<open>ValueError\<close> for any other name; \<open>compile_and_load_weights\<close> checks the
    name (\<open>load_weights_supported\<close>), finds the file (\<open>weights_file\<close>: a saved
    model or a weights file) and the shapes of its weights (\<open>weight_signature\<close>:
    the input and output channels, the only layer widths that vary) before it loads.
  \<^descr>[UnetScripts] scripts of method calls on one object and the inductive set of
    states a session reaches (\<open>unet_reachable\<close>): the datatype \<open>op\<close>,
    \<open>step\<close> dispatching a call to its method, \<open>run\<close> executing a list of calls up
    to the first exception; \<open>run_preserves\<close> lifts an invariant every method keeps to
    every script, in the style of a type-preservation proof.

  \<^bold>\<open>What is proved.\<close>
  \<^item> Access control (Security): a token accepted by \<^verbatim>\<open>/show_drift\<close> is the token
    issued to the admin account for its valid password less than an hour before
    (C1); a token accepted by \<^verbatim>\<open>/generate_report/\<close> is one issued to some valid
    account less than an hour before (C2).
  \<^item> The router (Security, Gateway): whatever request an outsider sends with one of its
    tokens, a report or the drift page comes back only for a token issued to a password
    it knows within the hour (C29); every error answer is a 401, the 403 of
    \<^verbatim>\<open>/show_drift\<close>, or a 500 that occurs only with \<^verbatim>\<open>SECRET_KEY\<close> unset
    or from \<^verbatim>\<open>/token\<close> for a known user name with a password passlib refuses
    (C28, finding).
  \<^item> Tokens (Auth, Gateway): the create/decode round trip and the exact expiry (C3),
    the outcome of \<^verbatim>\<open>/token\<close> for every credential pair, passlib's 500 included
    (C4, C6), the role gate of \<^verbatim>\<open>/show_drift\<close> (C5), the behaviour with
    \<^verbatim>\<open>SECRET_KEY\<close> unset (C10).
  \<^item> Findings proved as theorems: \<^verbatim>\<open>/generate_report/\<close> returns the caller's stored
    password hash (C7); \<^verbatim>\<open>/vqa\<close> accepts any bearer token (C8); a zero
    \<^verbatim>\<open>expires_delta\<close> yields the 45-minute default (C9).
  \<^item> Topology (Unet): \<open>build_model\<close> refines \<open>unet_spec\<close>: the network builds
    exactly for image sides divisible by 16 (zero included: Keras's
    \<^verbatim>\<open>'valid'\<close> convolution accepts an empty output), at least one class and a dropout
    rate in \<open>[0, 1]\<close>, and then maps \<open>img \<times> img \<times> 2\<close> to
    \<open>img \<times> img \<times> num_classes\<close> (C11).
  \<^item> Data (DataPipeline): \<open>predict_segmentation\<close> and \<open>imageLoader\<close> equal
    reference definitions written as maps over the slice range, with the
    \<^verbatim>\<open>IndexError\<close> for short volumes (C12, C13); the normalisation
    \<^verbatim>\<open>X / np.max(X)\<close> lands in \<open>[0, 1]\<close> and attains 1 (C14); findings:
    \<open>imageLoader\<close> leaves channel 1 zero (C13), \<open>loadDataFromDir\<close> and
    \<open>show_predicted_segmentations\<close> always raise (C15, C16); the FLAIR panel of
    \<open>showPredictsById\<close> is the very row of the array the model predicted on, and the
    method raises \<^verbatim>\<open>IndexError\<close> at its channel slicing for a model with fewer
    than 4 classes (C30),
    read from a hard-coded \<^verbatim>\<open>/home/jupyter\<close> directory (finding); boundaries:
    zero slices raise \<^verbatim>\<open>ValueError\<close> after both reads (C32), and a blank scan
    reaches the model as a non-finite array without any error (C33, finding).
  \<^item> Training (Callbacks): checkpoints are written exactly at strict new minima of the
    validation loss (C17, by an invariant of the fold), with strictly increasing epochs and
    strictly decreasing losses in their names (C31), the first epoch always writing one
    (C34); the learning rate is always
    \<open>max (lr * 0.2 ^ k) 1e-6\<close> (C18); the CSV log has one row per epoch with
    non-increasing rates (C19); on a stalled run the rate is divided by 5 every second
    epoch (C26) and reaches \<^verbatim>\<open>min_lr\<close> after finitely many epochs, for good (C27,
    the development's progress property).
  \<^item> Object lifecycle (UnetObject, UnetScripts): over every script of method calls, a completed
    \<^verbatim>\<open>train\<close> needs a compile since the last \<^verbatim>\<open>load_model\<close> (C20), by
    induction over the script; in every reachable state the optimizer rate stays in
    \<open>[1e-6, learning_rate]\<close> (C21, by rule induction with an invariant every method
    preserves); after every script that completes, the class count of the compiled
    \<^verbatim>\<open>MeanIoU\<close> is the one \<open>iou_after\<close> computes from the calls: 4 after
    \<^verbatim>\<open>compile_model\<close> or \<^verbatim>\<open>compile_and_load_weights\<close>, \<open>num_classes\<close>
    after \<^verbatim>\<open>evaluate\<close> (C23, finding); every checkpoint \<^verbatim>\<open>train\<close> writes can
    be loaded by \<^verbatim>\<open>compile_and_load_weights\<close> (C25); findings: a loaded model
    cannot be trained (C22), the default \<^verbatim>\<open>train_ids=None\<close> raises after creating
    the directory (C24), recompiling in \<^verbatim>\<open>evaluate\<close> or
    \<^verbatim>\<open>compile_and_load_weights\<close> resets the rate the plateau schedule lowered
    (C35), and every exception of \<^verbatim>\<open>compile_and_load_weights\<close> (unsupported
    name, missing file, mismatched shapes) comes after the recompile (C36).

  \<^bold>\<open>Not modelled.\<close> The BLIP report model (\<^verbatim>\<open>modelblip.py\<close> is not in the sources)
  and PIL, beyond their success or failure; HTTP form validation (422 answers); response
  headers; bcrypt beyond "a hash verifies exactly its password" and passlib's two input
  checks; PyJWT claims other than
  \<^verbatim>\<open>exp\<close> (the service never issues \<^verbatim>\<open>iat\<close>, \<^verbatim>\<open>nbf\<close>, \<^verbatim>\<open>aud\<close>);
  numerical training, convolution arithmetic and the Keras \<^verbatim>\<open>predict\<close>,
  \<^verbatim>\<open>fit\<close> and \<^verbatim>\<open>evaluate\<close> numbers (inputs of the model); the
  \<^verbatim>\<open>metrics\<close> module (not among the sources); \<^verbatim>\<open>plot_model\<close> and the
  matplotlib plots (pure output; a prediction is opaque but for its number of class
  channels); \<^verbatim>\<open>cv2.INTER_NEAREST\<close> and the resize's own exceptions (the resize
  is one arbitrary total function); the layout inside a file: a
  \<^verbatim>\<open>.weights.h5\<close> name written by \<^verbatim>\<open>model.save\<close> is read by
  \<^verbatim>\<open>load_weights\<close> as a weights file, and a checkpoint name given to
  \<^verbatim>\<open>load_model\<close> as a model file, that is, as absent; the
  \<^verbatim>\<open>custom_objects\<close> of \<^verbatim>\<open>load_model\<close> (unused with \<^verbatim>\<open>compile=False\<close>)
  and \<^verbatim>\<open>K.clear_session\<close> (no effect on the modelled state).
  No fuel or bound is needed, and no termination theorem is stated: every loop of the code
  runs over a finite range or list (there is no \<^verbatim>\<open>while\<close> and no recursion),
  so every definition is non-recursive or structurally recursive (\<open>py_for\<close>,
  \<open>run\<close>, the folds of \<open>fit_epochs\<close>).
\<close>

end
